theory Spec2Isabelle
  imports Complex_Main
begin

section \<open>Strings\<close>

text \<open>
  Error messages are classified by substring search on the lower-cased text
  (\<^verbatim>\<open>msg.toLowerCase().includes(...)\<close>). Characters are bytes; only the ASCII
  letters change case.
\<close>

definition lowerChar :: "char \<Rightarrow> char" where
  "lowerChar c =
     (let n = (of_char c :: nat) in if 65 \<le> n \<and> n \<le> 90 then char_of (n + 32) else c)"

definition toLowerCase :: "string \<Rightarrow> string" where
  "toLowerCase s = map lowerChar s"

fun startsWith :: "string \<Rightarrow> string \<Rightarrow> bool" where
  "startsWith s [] = True"
| "startsWith [] (p # ps) = False"
| "startsWith (c # cs) (p # ps) = (c = p \<and> startsWith cs ps)"

fun str_includes :: "string \<Rightarrow> string \<Rightarrow> bool" where
  "str_includes [] sub = (sub = [])"
| "str_includes (c # cs) sub = (startsWith (c # cs) sub \<or> str_includes cs sub)"


section \<open>Sync orchestrator: error counter and cooldown (AutoSyncService.ts)\<close>

definition ERROR_COOLDOWN_MS :: int where
  "ERROR_COOLDOWN_MS = 5 * 60 * 1000"

definition MAX_CONSECUTIVE_ERRORS :: nat where
  "MAX_CONSECUTIVE_ERRORS = 3"

text \<open>
  The static fields of \<^verbatim>\<open>AutoSyncService\<close> that the tick and the error handler read or
  write. Times are epoch milliseconds; \<^verbatim>\<open>lastErrorTime\<close> is \<^verbatim>\<open>null\<close> or a date.
  \<^verbatim>\<open>timerArmed\<close> stands for \<^verbatim>\<open>syncInterval !== null\<close>.
\<close>

datatype sync_source = DeviceSource | OSSource

record sync_state =
  isRunning :: bool
  isPaused :: bool
  isInDetailDeviceScreen :: bool
  isDeviceSyncRunning :: bool
  isOSSyncRunning :: bool
  consecutiveErrorCount :: nat
  lastErrorTime :: "int option"
  lastSyncTime :: "int option"
  lastSyncSource :: "sync_source option"
  timerArmed :: bool

definition shouldAbort :: "sync_state \<Rightarrow> bool" where
  "shouldAbort s = (isPaused s \<or> isInDetailDeviceScreen s)"

record error_class =
  isBluetooth :: bool
  isTimeout :: bool
  isNullPointer :: bool
  isConnection :: bool
  isLocked :: bool
  isEmptyData :: bool

definition classifyError :: "string \<Rightarrow> error_class" where
  "classifyError errorMessage =
     (let lower = toLowerCase errorMessage in
      \<lparr> isBluetooth =
          (str_includes lower ''bluetooth'' \<or> str_includes lower ''noclassdeffounderror''
           \<or> str_includes lower ''mqttcallback'' \<or> str_includes lower ''aliagentsdk''),
        isTimeout = (str_includes lower ''timed out'' \<or> str_includes lower ''timeout''),
        isNullPointer =
          (str_includes lower ''null'' \<or> str_includes lower ''undefined''
           \<or> str_includes lower ''cannot read property''
           \<or> str_includes lower ''cannot read properties''),
        isConnection =
          (str_includes lower ''connect failed'' \<or> str_includes lower ''cannot connect''
           \<or> str_includes lower ''connection failed'' \<or> str_includes lower ''device not connected''
           \<or> str_includes lower ''out of range'' \<or> str_includes lower ''error 1''
           \<or> str_includes lower ''error code 1'' \<or> str_includes lower ''state: 7''
           \<or> str_includes lower ''device out of range''),
        isLocked = str_includes lower ''locked'',
        isEmptyData =
          (str_includes lower ''empty_data'' \<or> str_includes lower ''empty data''
           \<or> str_includes lower ''payload is empty'') \<rparr>)"

text \<open>
  What the sync tasks do besides updating the fields: they release the health-data
  operation lock, report to the registered error and completion callbacks, stop the toast
  animation, reset the connection state, and switch the stored sync-data status off.
\<close>

datatype effect =
    ForceStopHealthDataOperation | OnSyncError | OnSyncComplete | ToastAnimationStop
  | ResetConnectionState | DisableSyncDataStatus

text \<open>
  \<^verbatim>\<open>handleDeviceSyncError\<close>: the branches are tried in the source's order (locked, empty
  data, bluetooth, connection, null reference, timeout, generic). \<^verbatim>\<open>now\<close> is the clock read
  by \<^verbatim>\<open>new Date()\<close>.
\<close>

definition handleDeviceSyncError :: "string \<Rightarrow> int \<Rightarrow> sync_state \<Rightarrow> sync_state \<times> effect list" where
  "handleDeviceSyncError errorMessage now s =
     (let c = classifyError errorMessage; n = consecutiveErrorCount s in
      if isLocked c then
        (s\<lparr>isDeviceSyncRunning := False, consecutiveErrorCount := MAX_CONSECUTIVE_ERRORS,
           lastErrorTime := Some now\<rparr>,
         [ForceStopHealthDataOperation, OnSyncError, ToastAnimationStop])
      else if isEmptyData c then
        (s\<lparr>isDeviceSyncRunning := False, consecutiveErrorCount := MAX_CONSECUTIVE_ERRORS,
           lastErrorTime := Some now\<rparr>,
         [ForceStopHealthDataOperation, OnSyncError, ToastAnimationStop])
      else if isBluetooth c then
        (s\<lparr>isDeviceSyncRunning := False\<rparr>, [ForceStopHealthDataOperation, ToastAnimationStop])
      else if isConnection c then
        (if n \<ge> 2 then
           (s\<lparr>lastErrorTime := Some now, isDeviceSyncRunning := False\<rparr>, [ToastAnimationStop])
         else
           (s\<lparr>consecutiveErrorCount := (if n < 3 then n + 1 else n),
              lastErrorTime := Some now, isDeviceSyncRunning := False\<rparr>, [ToastAnimationStop]))
      else if isNullPointer c then
        (if n \<ge> 1 then
           (s\<lparr>lastErrorTime := Some now, isDeviceSyncRunning := False\<rparr>, [ToastAnimationStop])
         else
           (s\<lparr>consecutiveErrorCount := (if n < 2 then n + 1 else n),
              lastErrorTime := Some now, isDeviceSyncRunning := False\<rparr>, [ToastAnimationStop]))
      else if isTimeout c then
        (if n \<ge> 2 then
           (s\<lparr>lastErrorTime := Some now, isDeviceSyncRunning := False\<rparr>,
            [ForceStopHealthDataOperation, ToastAnimationStop])
         else
           (s\<lparr>consecutiveErrorCount := (if n < 1 then n + 1 else n),
              lastErrorTime := Some now\<rparr>, [OnSyncError, ToastAnimationStop]))
      else if n \<ge> MAX_CONSECUTIVE_ERRORS then
        (s\<lparr>lastErrorTime := Some now, isDeviceSyncRunning := False\<rparr>,
         [ForceStopHealthDataOperation, ToastAnimationStop])
      else
        (s\<lparr>consecutiveErrorCount := n + 1, lastErrorTime := Some now\<rparr>,
         [OnSyncError, ToastAnimationStop]))"

text \<open>
  The end of \<^verbatim>\<open>runDeviceSync\<close>. An error is thrown either in the outer \<^verbatim>\<open>try\<close> before
  the fetch (reading the stored device, the connection check, the SDK reset, connecting,
  the Bluetooth check) or inside the inner \<^verbatim>\<open>try\<close> around the fetch. The inner \<^verbatim>\<open>catch\<close>
  resets the connection state when the message contains \<^verbatim>\<open>Connection already in progress\<close>
  and rethrows the error unless its message is classified as bluetooth; an error that is
  not rethrown never reaches the handler. The \<^verbatim>\<open>finally\<close> block runs in every case.
\<close>

datatype failure_site = BeforeFetch | DuringFetch

definition deviceSyncFailed ::
  "failure_site \<Rightarrow> string \<Rightarrow> int \<Rightarrow> sync_state \<Rightarrow> sync_state \<times> effect list" where
  "deviceSyncFailed site errorMessage now s =
     (let inner = (if site = DuringFetch
                      \<and> str_includes errorMessage ''Connection already in progress''
                   then [ResetConnectionState] else []) in
      if site = DuringFetch \<and> isBluetooth (classifyError errorMessage) then
        (s\<lparr>isDeviceSyncRunning := False\<rparr>, inner @ [ForceStopHealthDataOperation])
      else
        (let (s', effs) = handleDeviceSyncError errorMessage now s in
         (s'\<lparr>isDeviceSyncRunning := False\<rparr>, inner @ effs @ [ForceStopHealthDataOperation])))"

text \<open>
  The fetch has returned at clock reading \<open>now\<close>. The result is dropped when the scheduler
  was paused or the exclusion window opened meanwhile. Otherwise the success is recorded
  and the completion callback is called, inside the inner \<^verbatim>\<open>try\<close>: \<open>callbackThrows\<close> is
  \<open>None\<close> when the callback returns, and the message it throws with the clock reading of
  the handler otherwise.
\<close>

definition deviceSyncFetched ::
  "(string \<times> int) option \<Rightarrow> int \<Rightarrow> sync_state \<Rightarrow> sync_state \<times> effect list" where
  "deviceSyncFetched callbackThrows now s =
     (if shouldAbort s then (s\<lparr>isDeviceSyncRunning := False\<rparr>, [ForceStopHealthDataOperation])
      else
        (let s1 = s\<lparr>lastSyncTime := Some now, lastSyncSource := Some DeviceSource,
                    consecutiveErrorCount := 0, lastErrorTime := None\<rparr> in
         case callbackThrows of
           None \<Rightarrow>
             (s1\<lparr>isDeviceSyncRunning := False\<rparr>, [OnSyncComplete, ForceStopHealthDataOperation])
         | Some (errorMessage, later) \<Rightarrow>
             (let (s2, effs) = deviceSyncFailed DuringFetch errorMessage later s1 in
              (s2, OnSyncComplete # effs))))"

text \<open>
  \<^verbatim>\<open>runOSSync\<close> from the point where the OS sync has returned: the success is recorded and
  the completion callback is called; what the callback throws goes to the \<^verbatim>\<open>catch\<close>
  clause, which is also where a failed OS sync ends.
\<close>

definition handleOSSyncError :: "string \<Rightarrow> int \<Rightarrow> sync_state \<Rightarrow> sync_state \<times> effect list" where
  "handleOSSyncError errorMessage now s =
     (let lower = toLowerCase errorMessage;
          isPermissionError =
            (str_includes lower ''permission'' \<or> str_includes lower ''unauthorized''
             \<or> str_includes lower ''not authorized'');
          n = consecutiveErrorCount s in
      if isPermissionError then
        (s\<lparr>consecutiveErrorCount := n + 1, lastErrorTime := Some now,
           isOSSyncRunning := False\<rparr>,
         (if n + 1 \<ge> MAX_CONSECUTIVE_ERRORS then [DisableSyncDataStatus] else []))
      else if n \<ge> MAX_CONSECUTIVE_ERRORS then
        (s\<lparr>lastErrorTime := Some now, isOSSyncRunning := False\<rparr>, [])
      else
        (s\<lparr>consecutiveErrorCount := n + 1, lastErrorTime := Some now,
           isOSSyncRunning := False\<rparr>, [OnSyncError]))"

definition osSyncReturned ::
  "(string \<times> int) option \<Rightarrow> int \<Rightarrow> sync_state \<Rightarrow> sync_state \<times> effect list" where
  "osSyncReturned callbackThrows now s =
     (let s1 = s\<lparr>lastSyncTime := Some now, lastSyncSource := Some OSSource,
                 consecutiveErrorCount := 0, lastErrorTime := None\<rparr> in
      case callbackThrows of
        None \<Rightarrow> (s1\<lparr>isOSSyncRunning := False\<rparr>, [OnSyncComplete])
      | Some (errorMessage, later) \<Rightarrow>
          (let (s2, effs) = handleOSSyncError errorMessage later s1 in
           (s2, OnSyncComplete # effs)))"

text \<open>\<^verbatim>\<open>resume(false)\<close>, as the manual tick calls it: the flag is cleared and the timer rearmed.\<close>

definition resume :: "sync_state \<Rightarrow> sync_state" where
  "resume s =
     (if \<not> isPaused s \<or> \<not> isRunning s then s
      else s\<lparr>isPaused := False, timerArmed := True\<rparr>)"

text \<open>
  The gates of \<^verbatim>\<open>performSafeSync\<close>, up to the point where the two sync tasks are
  launched. Each early \<^verbatim>\<open>return\<close> of the source is one outcome.
\<close>

datatype tick_outcome =
    NotLoggedIn | LoggedOut | ManualInDetailScreen | Aborted | AlreadyRunning
  | InCooldown | Launched

definition performSafeSync :: "bool \<Rightarrow> bool \<Rightarrow> bool \<Rightarrow> int \<Rightarrow> sync_state \<Rightarrow> tick_outcome \<times> sync_state" where
  "performSafeSync userLoggedIn sessionLoggedOut isManualSync now s =
     (if \<not> userLoggedIn then (NotLoggedIn, s)
      else if sessionLoggedOut then (LoggedOut, s)
      else if isManualSync \<and> isInDetailDeviceScreen s then (ManualInDetailScreen, s)
      else if \<not> isManualSync \<and> shouldAbort s then (Aborted, s)
      else
        (let s1 = (if isManualSync \<and> isPaused s then resume s else s) in
         if \<not> isManualSync \<and> (isDeviceSyncRunning s1 \<or> isOSSyncRunning s1)
         then (AlreadyRunning, s1)
         else if isManualSync then (Launched, s1)
         else if consecutiveErrorCount s1 \<ge> MAX_CONSECUTIVE_ERRORS then
           (let timeSinceLastError =
                  (case lastErrorTime s1 of Some t \<Rightarrow> now - t | None \<Rightarrow> 0) in
            if timeSinceLastError < ERROR_COOLDOWN_MS then (InCooldown, s1)
            else (Launched, s1\<lparr>consecutiveErrorCount := 0, lastErrorTime := None\<rparr>))
         else (Launched, s1)))"

text \<open>
  A run of device-sync failures, each with the place where it was thrown, its message and
  the clock reading of the handler.
\<close>

fun deviceSyncFailures :: "(failure_site \<times> string \<times> int) list \<Rightarrow> sync_state \<Rightarrow> sync_state" where
  "deviceSyncFailures [] s = s"
| "deviceSyncFailures ((site, msg, now) # rest) s =
     deviceSyncFailures rest (fst (deviceSyncFailed site msg now s))"

text \<open>A message that reaches the timeout branch of the handler.\<close>

definition classifiedTimeout :: "string \<Rightarrow> bool" where
  "classifiedTimeout msg =
     (let c = classifyError msg in
      isTimeout c \<and> \<not> isLocked c \<and> \<not> isEmptyData c \<and> \<not> isBluetooth c
      \<and> \<not> isConnection c \<and> \<not> isNullPointer c)"

text \<open>The message built by \<^verbatim>\<open>withTimeout\<close> for the 65 s health fetch.\<close>

definition timeoutMessage :: string where
  "timeoutMessage = ''[AutoDeviceSync:TIMEOUT] Operation timeout after 65000ms''"

definition idleState :: sync_state where
  "idleState =
     \<lparr> isRunning = True, isPaused = False, isInDetailDeviceScreen = False,
       isDeviceSyncRunning = False, isOSSyncRunning = False,
       consecutiveErrorCount = 0, lastErrorTime = None, lastSyncTime = None,
       lastSyncSource = None, timerArmed = True \<rparr>"

text \<open>A state in cooldown: the counter at \<open>MAX_CONSECUTIVE_ERRORS\<close>, the last error at 1000.\<close>

definition cooldownState :: sync_state where
  "cooldownState = idleState\<lparr>consecutiveErrorCount := 3, lastErrorTime := Some 1000\<rparr>"


section \<open>Health retrieval protocol (fetchHealthDataWithRetry)\<close>

definition DATA_RETRY_ATTEMPTS :: nat where
  "DATA_RETRY_ATTEMPTS = 3"

definition RECOVERY_DELAY_MS :: nat where
  "RECOVERY_DELAY_MS = 2000"

text \<open>
  What a pass of the loop body can throw. The \<^verbatim>\<open>catch\<close> clause reads the message as
  \<^verbatim>\<open>error instanceof Error ? error.message : String(error)\<close> and keeps the thrown value
  itself in \<^verbatim>\<open>lastError\<close>. A thrown value is an \<^verbatim>\<open>Error\<close> with its message,
  \<^verbatim>\<open>null\<close>, \<^verbatim>\<open>undefined\<close>, or any other value, given by its string conversion.
\<close>

datatype thrown = ErrorObject string | NullValue | UndefinedValue | OtherValue string

fun thrownMessage :: "thrown \<Rightarrow> string" where
  "thrownMessage (ErrorObject message) = message"
| "thrownMessage NullValue = ''null''"
| "thrownMessage UndefinedValue = ''undefined''"
| "thrownMessage (OtherValue str) = str"

text \<open>
  One pass of the loop body either returns the raw payload with its canonical form or
  throws. The outcome of pass \<open>i\<close> is given by the environment (the transport, the device
  and the normalizer's persistence).
\<close>

datatype 'r attempt_outcome = Succeeded 'r | Failed thrown

text \<open>
  What the loop does between passes: \<^verbatim>\<open>attemptRecovery\<close> disconnects, waits
  \<open>RECOVERY_DELAY_MS\<close> and reconnects (none of the three can throw), and the loop then
  waits \<open>RECOVERY_DELAY_MS * (attempt + 1)\<close>.
\<close>

datatype retrieval_event = Attempt nat | Disconnect | Wait nat | Reconnect

definition createSyncError :: "string \<Rightarrow> string \<Rightarrow> thrown" where
  "createSyncError code message = ErrorObject (''[AutoDeviceSync:'' @ code @ ''] '' @ message)"

definition mentionsLocked :: "string \<Rightarrow> bool" where
  "mentionsLocked msg = str_includes (toLowerCase msg) ''locked''"

definition mentionsEmptyData :: "string \<Rightarrow> bool" where
  "mentionsEmptyData msg =
     (str_includes (toLowerCase msg) ''empty_data''
      \<or> str_includes (toLowerCase msg) ''empty data''
      \<or> str_includes (toLowerCase msg) ''payload is empty'')"

text \<open>
  The statement after the loop,
  \<^verbatim>\<open>throw lastError ?? createSyncError('UNKNOWN', ...)\<close>: a remembered \<^verbatim>\<open>null\<close> or
  \<^verbatim>\<open>undefined\<close> is replaced by the UNKNOWN error.
\<close>

fun throwAfterLoop :: "thrown \<Rightarrow> thrown" where
  "throwAfterLoop NullValue = createSyncError ''UNKNOWN'' ''Unable to complete health data sync''"
| "throwAfterLoop UndefinedValue =
     createSyncError ''UNKNOWN'' ''Unable to complete health data sync''"
| "throwAfterLoop lastError = lastError"

text \<open>
  The \<^verbatim>\<open>for\<close> loop, entered at pass \<open>attempt\<close> with the value remembered in \<^verbatim>\<open>lastError\<close>
  so far (\<^verbatim>\<open>null\<close> at the start). Each \<^verbatim>\<open>break\<close> leaves the loop for the statement after
  it. The result is the returned pair, or the value thrown after the loop.
\<close>

function fetchLoop ::
  "(nat \<Rightarrow> 'r attempt_outcome) \<Rightarrow> nat \<Rightarrow> thrown \<Rightarrow> (thrown + 'r) \<times> retrieval_event list"
where
  "fetchLoop env attempt lastError =
     (if attempt < DATA_RETRY_ATTEMPTS then
        (case env attempt of
           Succeeded r \<Rightarrow> (Inr r, [Attempt attempt])
         | Failed error \<Rightarrow>
             (let msg = thrownMessage error in
              if mentionsLocked msg then (Inl (throwAfterLoop error), [Attempt attempt])
              else if mentionsEmptyData msg then
                (Inl (throwAfterLoop
                        (createSyncError ''EMPTY_DATA''
                           ''Health data payload is empty - sync failed'')),
                 [Attempt attempt])
              else if attempt = DATA_RETRY_ATTEMPTS - 1 then
                (Inl (throwAfterLoop error), [Attempt attempt])
              else
                (let (res, evs) = fetchLoop env (attempt + 1) error in
                 (res,
                  [Attempt attempt, Disconnect, Wait RECOVERY_DELAY_MS, Reconnect,
                   Wait (RECOVERY_DELAY_MS * (attempt + 1))] @ evs))))
      else (Inl (throwAfterLoop lastError), []))"
  by pat_completeness auto
termination
  by (relation "measure (\<lambda>(env, attempt, lastError). DATA_RETRY_ATTEMPTS - attempt)") auto

declare fetchLoop.simps [simp del]

definition fetchHealthDataWithRetry ::
  "(nat \<Rightarrow> 'r attempt_outcome) \<Rightarrow> (thrown + 'r) \<times> retrieval_event list" where
  "fetchHealthDataWithRetry env = fetchLoop env 0 NullValue"

fun isAttempt :: "retrieval_event \<Rightarrow> bool" where
  "isAttempt (Attempt i) = True"
| "isAttempt e = False"

definition attemptsMade :: "retrieval_event list \<Rightarrow> nat" where
  "attemptsMade evs = length (filter isAttempt evs)"

text \<open>The error thrown when the payload has no usable metric.\<close>

definition emptyDataError :: thrown where
  "emptyDataError = createSyncError ''EMPTY_DATA'' ''Health data payload is empty''"

text \<open>The error with which \<^verbatim>\<open>withTimeout\<close> rejects the 65 s health fetch.\<close>

definition timeoutError :: thrown where
  "timeoutError = ErrorObject timeoutMessage"

text \<open>
  Three environments: every pass times out; every pass finds an empty payload; every pass
  rejects with \<^verbatim>\<open>undefined\<close>.
\<close>

definition alwaysTimeout :: "nat \<Rightarrow> unit attempt_outcome" where
  "alwaysTimeout i = Failed timeoutError"

definition alwaysEmpty :: "nat \<Rightarrow> unit attempt_outcome" where
  "alwaysEmpty i = Failed emptyDataError"

definition alwaysUndefined :: "nat \<Rightarrow> unit attempt_outcome" where
  "alwaysUndefined i = Failed UndefinedValue"


section \<open>Device scanner (DeviceScanner.ts)\<close>

definition MAX_SCAN_RETRIES :: nat where
  "MAX_SCAN_RETRIES = 2"

text \<open>
  A discovered device as the native scanners report it: an identifier under \<^verbatim>\<open>uuid\<close>,
  under \<^verbatim>\<open>id\<close>, or under both, and a name. A missing field is \<open>None\<close>; the record is
  extensible, for the fields the scanner passes through untouched.
\<close>

record scan_device =
  uuid :: "string option"
  dev_id :: "string option"
  name :: "string option"

text \<open>JavaScript's \<^verbatim>\<open>a || b\<close> on optional strings: the empty string and a missing value are falsy.\<close>

fun truthyStr :: "string option \<Rightarrow> bool" where
  "truthyStr None = False"
| "truthyStr (Some s) = (s \<noteq> [])"

definition orElse :: "string option \<Rightarrow> string option \<Rightarrow> string option" where
  "orElse a b = (if truthyStr a then a else b)"

definition normalizeDevice :: "'a scan_device_scheme \<Rightarrow> 'a scan_device_scheme" where
  "normalizeDevice d = d\<lparr>uuid := orElse (uuid d) (dev_id d), dev_id := orElse (dev_id d) (uuid d)\<rparr>"

text \<open>\<^verbatim>\<open>Array.prototype.findIndex\<close>: the first index whose element satisfies the test, or -1.\<close>

fun findIndex :: "('a \<Rightarrow> bool) \<Rightarrow> 'a list \<Rightarrow> int" where
  "findIndex P [] = -1"
| "findIndex P (x # xs) =
     (if P x then 0 else (let r = findIndex P xs in if r < 0 then -1 else r + 1))"

text \<open>
  \<^verbatim>\<open>normalized.filter((d, i, arr) => i === arr.findIndex((x) => x.uuid === d.uuid))\<close>
\<close>

definition dedupeByUuid :: "'a scan_device_scheme list \<Rightarrow> 'a scan_device_scheme list" where
  "dedupeByUuid arr =
     map (\<lambda>i. arr ! i)
       (filter (\<lambda>i. int i = findIndex (\<lambda>x. uuid x = uuid (arr ! i)) arr) [0..<length arr])"

text \<open>
  One pass of \<^verbatim>\<open>performScan\<close> either returns the empty list before any discovery call
  (Bluetooth off, no scanner for the requested vendor, or an exception caught by the
  outer \<^verbatim>\<open>catch\<close>), or gets a device list from the discovery call
  (\<^verbatim>\<open>scanYCDevices\<close> / \<^verbatim>\<open>scanRWDevices\<close>, which never throw).
\<close>

datatype 'a pass_outcome = PassAborted | Discovered "'a scan_device_scheme list"

datatype scan_event = Discovery nat | WaitMs nat

function performScan ::
  "(nat \<Rightarrow> 'a pass_outcome) \<Rightarrow> nat \<Rightarrow> 'a scan_device_scheme list \<times> scan_event list"
where
  "performScan env attempt =
     (case env attempt of
        PassAborted \<Rightarrow> ([], [])
      | Discovered devices \<Rightarrow>
          (let unique = dedupeByUuid (map normalizeDevice devices) in
           if unique = [] \<and> attempt + 1 < MAX_SCAN_RETRIES then
             (let (res, evs) = performScan env (attempt + 1) in
              (res, [Discovery attempt, WaitMs 500] @ evs))
           else (unique, [Discovery attempt])))"
  by pat_completeness auto
termination
  by (relation "measure (\<lambda>(env, attempt). MAX_SCAN_RETRIES - attempt)") auto

declare performScan.simps [simp del]

fun isDiscovery :: "scan_event \<Rightarrow> bool" where
  "isDiscovery (Discovery i) = True"
| "isDiscovery e = False"

definition discoveryCalls :: "scan_event list \<Rightarrow> nat" where
  "discoveryCalls evs = length (filter isDiscovery evs)"

text \<open>
  The module variable \<^verbatim>\<open>scanPromise\<close>, with promises named by numbers, and the number of
  \<^verbatim>\<open>performScan\<close> tasks started so far (which also names the next promise).
\<close>

record scanner_state =
  scanPromise :: "nat option"
  tasksStarted :: nat

text \<open>
  \<^verbatim>\<open>scanDevices\<close> up to its first suspension. The caller is handed the pending promise,
  gets the empty list, is sent to wait one second and call again with
  \<open>retryCount + 1\<close>, or starts \<^verbatim>\<open>performScan\<close> and publishes its promise.
\<close>

datatype turn_result = Joined nat | GaveUp | Backoff | Started nat

definition scanDevices_turn ::
  "bool \<Rightarrow> bool \<Rightarrow> nat \<Rightarrow> bool \<Rightarrow> scanner_state \<Rightarrow> turn_result \<times> scanner_state" where
  "scanDevices_turn connectionInProgress healthDataOperationInProgress retryCount bypassLocks s =
     (case scanPromise s of
        Some p \<Rightarrow> (Joined p, s)
      | None \<Rightarrow>
          if retryCount \<ge> 5 then (GaveUp, s)
          else if connectionInProgress then (Backoff, s)
          else if \<not> bypassLocks \<and> healthDataOperationInProgress then (Backoff, s)
          else (Started (tasksStarted s),
                s\<lparr>scanPromise := Some (tasksStarted s), tasksStarted := tasksStarted s + 1\<rparr>))"

text \<open>The \<^verbatim>\<open>finally\<close> block of the call that started the scan.\<close>

definition scanDevices_finish :: "scanner_state \<Rightarrow> scanner_state" where
  "scanDevices_finish s = s\<lparr>scanPromise := None\<rparr>"

text \<open>
  A whole call as its caller sees it. Between two turns the caller sleeps for a second and
  other tasks run, so each turn reads the locks and the scanner state afresh: \<open>world k\<close>
  is what the turn with retry count \<open>k\<close> finds. The result is the last turn's outcome and
  the list of waits in milliseconds.
\<close>

function scanDevices ::
  "(nat \<Rightarrow> bool \<times> bool \<times> scanner_state) \<Rightarrow> nat \<Rightarrow> bool \<Rightarrow> turn_result \<times> nat list"
where
  "scanDevices world retryCount bypassLocks =
     (case world retryCount of
        (connectionInProgress, healthDataOperationInProgress, s) \<Rightarrow>
          (case fst (scanDevices_turn connectionInProgress healthDataOperationInProgress
                       retryCount bypassLocks s) of
             Backoff \<Rightarrow>
               (let (res, waits) = scanDevices world (retryCount + 1) bypassLocks in
                (res, 1000 # waits))
           | res \<Rightarrow> (res, [])))"
  by pat_completeness auto
termination
proof (relation "measure (\<lambda>(world, retryCount, bypassLocks). 5 - retryCount)")
  show "wf (measure (\<lambda>(world, retryCount, bypassLocks). 5 - retryCount))"
    by simp
next
  fix world :: "nat \<Rightarrow> bool \<times> bool \<times> scanner_state"
  fix retryCount :: nat and bypassLocks x y xa ya
  assume "(x, y) = world retryCount" and "(xa, ya) = y"
    and "fst (scanDevices_turn x xa retryCount bypassLocks ya) = Backoff"
  then have "retryCount < 5"
    by (auto simp: scanDevices_turn_def split: option.splits if_splits)
  then show "((world, retryCount + 1, bypassLocks), (world, retryCount, bypassLocks))
             \<in> measure (\<lambda>(world, retryCount, bypassLocks). 5 - retryCount)"
    by simp
qed

declare scanDevices.simps [simp del]

text \<open>
  A sequence of calls that arrive one after another within the same stretch of time, each
  described by the lock flags it reads and its arguments.
\<close>

fun scanCallers ::
  "(bool \<times> bool \<times> nat \<times> bool) list \<Rightarrow> scanner_state \<Rightarrow> turn_result list \<times> scanner_state"
where
  "scanCallers [] s = ([], s)"
| "scanCallers ((c, h, retryCount, bypassLocks) # rest) s =
     (let (r, s1) = scanDevices_turn c h retryCount bypassLocks s;
          (rs, s2) = scanCallers rest s1
      in (r # rs, s2))"

text \<open>
  What a caller finally receives, given what each promise resolves to: the starter awaits
  its own promise, a joiner is handed the pending one, and a caller that gave up gets the
  empty list. A caller sent to back off has no value yet.
\<close>

fun receivedDevices :: "(nat \<Rightarrow> 'd list) \<Rightarrow> turn_result \<Rightarrow> 'd list option" where
  "receivedDevices resolve (Joined p) = Some (resolve p)"
| "receivedDevices resolve (Started p) = Some (resolve p)"
| "receivedDevices resolve GaveUp = Some []"
| "receivedDevices resolve Backoff = None"

text \<open>An environment in which every discovery call finds nothing.\<close>

definition noDevices :: "nat \<Rightarrow> unit pass_outcome" where
  "noDevices i = Discovered []"

text \<open>A world in which a connect operation holds its lock at every turn and no scan is pending.\<close>

definition connectHeld :: "nat \<Rightarrow> bool \<times> bool \<times> scanner_state" where
  "connectHeld k = (True, False, \<lparr>scanPromise = None, tasksStarted = 0\<rparr>)"

definition ringA :: scan_device where
  "ringA = \<lparr>uuid = None, dev_id = Some ''AA:01'', name = Some ''Ring A''\<rparr>"

definition ringB :: scan_device where
  "ringB = \<lparr>uuid = Some ''AA:01'', dev_id = None, name = Some ''Ring A again''\<rparr>"

definition twoRings :: "nat \<Rightarrow> unit pass_outcome" where
  "twoRings i = Discovered [ringA, ringB]"

text \<open>
  At the turn with retry count \<open>k\<close> no scan is pending and a lock blocks the scan: the
  connect lock, or the health-fetch lock when \<^verbatim>\<open>bypassLocks\<close> is false.
\<close>

definition lockHeldAt :: "(nat \<Rightarrow> bool \<times> bool \<times> scanner_state) \<Rightarrow> bool \<Rightarrow> nat \<Rightarrow> bool" where
  "lockHeldAt world bypassLocks k =
     (case world k of (connectionInProgress, healthDataOperationInProgress, s) \<Rightarrow>
        scanPromise s = None
        \<and> (connectionInProgress \<or> (\<not> bypassLocks \<and> healthDataOperationInProgress)))"

definition noScanPendingAt :: "(nat \<Rightarrow> bool \<times> bool \<times> scanner_state) \<Rightarrow> nat \<Rightarrow> bool" where
  "noScanPendingAt world k = (case world k of (c, h, s) \<Rightarrow> scanPromise s = None)"

definition idleScanner :: scanner_state where
  "idleScanner = \<lparr>scanPromise = None, tasksStarted = 0\<rparr>"


section \<open>Connection coordinator (connectDevice in DeviceConnectionService.ts)\<close>

text \<open>
  \<^verbatim>\<open>String.prototype.trim\<close> on byte strings: blanks, tabs and line breaks are removed at both
  ends. \<^verbatim>\<open>cleanUuid\<close> yields the empty string for anything that is not a string.
\<close>

definition isSpaceChar :: "char \<Rightarrow> bool" where
  "isSpaceChar c = (let n = (of_char c :: nat) in n = 32 \<or> (9 \<le> n \<and> n \<le> 13))"

definition trim :: "string \<Rightarrow> string" where
  "trim s = rev (dropWhile isSpaceChar (rev (dropWhile isSpaceChar s)))"

fun cleanUuid :: "string option \<Rightarrow> string" where
  "cleanUuid None = []"
| "cleanUuid (Some u) = trim u"

text \<open>
  The connected-device entry in persistent storage: absent, unparsable (\<^verbatim>\<open>JSON.parse\<close> or the
  read throws), or parsed with its \<^verbatim>\<open>uuid\<close> field.
\<close>

datatype stored_device = NoDevice | Corrupt | Device "string option"

text \<open>
  The module variables \<^verbatim>\<open>_isConnecting\<close>, \<^verbatim>\<open>_connectionAttempts\<close> and
  \<^verbatim>\<open>_pendingDeviceInfoRequest\<close>, and the storage entry.
\<close>

record connection_state =
  isConnecting :: bool
  connectionAttempts :: "string set"
  pendingDeviceInfoRequest :: bool
  storedDevice :: stored_device

datatype 'a outcome = Returns 'a | Throws

datatype native_result = NativeReturned bool | NativeThrew string string

text \<open>
  Everything \<^verbatim>\<open>connectDevice\<close> asks of the outside: the platform, which native modules
  exist, the answers of \<^verbatim>\<open>isDeviceConnectedByUUID\<close> (the pre-check and the second check,
  the latter already raced against its 2 s timer), and the native connect calls (already
  raced against their timers; a timeout is a throw). A native throw carries an error
  code and a message.
\<close>

record connect_env =
  platformIOS :: bool
  ycProductAvailable :: bool
  ycHasConnect :: bool
  rwHasConnect :: bool
  connectedProbe :: "nat \<Rightarrow> bool outcome"
  iosConnect :: "bool outcome"
  ycConnectAttempt :: "nat \<Rightarrow> native_result"
  rwConnect :: "bool outcome"

definition clearOldDeviceData :: "string \<Rightarrow> connection_state \<Rightarrow> connection_state" where
  "clearOldDeviceData targetUuid s =
     (case storedDevice s of
        Device (Some u) \<Rightarrow> if u \<noteq> [] \<and> u \<noteq> targetUuid then s\<lparr>storedDevice := NoDevice\<rparr> else s
      | _ \<Rightarrow> s)"

definition cancelAllPendingOperations :: "connection_state \<Rightarrow> connection_state" where
  "cancelAllPendingOperations s = s\<lparr>pendingDeviceInfoRequest := False\<rparr>"

definition isGattError :: "string \<Rightarrow> string \<Rightarrow> bool" where
  "isGattError errorCode errorMessage =
     (str_includes errorMessage ''133'' \<or> str_includes errorMessage ''GATT_ERROR''
      \<or> errorCode = ''CONNECT_FAILED'')"

definition isRetryable :: "string \<Rightarrow> string \<Rightarrow> bool" where
  "isRetryable errorCode errorMessage =
     (errorCode = ''CONNECT_FAILED'' \<or> errorCode = ''CONNECT_TIMEOUT''
      \<or> errorCode = ''not_found'' \<or> str_includes errorMessage ''timeout''
      \<or> str_includes errorMessage ''Peripheral not found''
      \<or> isGattError errorCode errorMessage)"

text \<open>
  The retry loop around \<^verbatim>\<open>YCRingManager.connectDevice\<close>. It returns \<open>True\<close> as soon as a
  pass connects; otherwise it ends with \<^verbatim>\<open>lastError\<close> set and the caller returns \<open>False\<close>.
  The waits, the rescan and the device-info fetch inside the loop touch neither lock.
\<close>

function ycConnectLoop :: "connect_env \<Rightarrow> nat \<Rightarrow> nat \<Rightarrow> bool \<Rightarrow> bool" where
  "ycConnectLoop env maxRetries retryCount lastError =
     (if retryCount < maxRetries then
        (case ycConnectAttempt env retryCount of
           NativeReturned ok \<Rightarrow>
             if \<not> ok then
               (if retryCount < maxRetries - 1
                then ycConnectLoop env maxRetries (retryCount + 1) True
                else False)
             else True
         | NativeThrew errorCode errorMessage \<Rightarrow>
             if isRetryable errorCode errorMessage \<and> retryCount < maxRetries - 1
             then ycConnectLoop env maxRetries (retryCount + 1) True
             else False)
      else \<not> lastError)"
  by pat_completeness auto
termination
  by (relation "measure (\<lambda>(env, maxRetries, retryCount, lastError). maxRetries - retryCount)")
     auto

declare ycConnectLoop.simps [simp del]

text \<open>
  The body of the \<^verbatim>\<open>try\<close> block after \<^verbatim>\<open>_isConnecting = true\<close>: the value returned, or
  \<open>Throws\<close> when a native call rejects outside the retry loop, and whether
  \<^verbatim>\<open>clearOldDeviceData\<close> ran on the way.
\<close>

definition connectBody :: "connect_env \<Rightarrow> string \<Rightarrow> bool \<Rightarrow> bool outcome \<times> bool" where
  "connectBody env devType disableRetry =
     (if devType = ''yc'' then
        (if platformIOS env \<and> ycProductAvailable env then
           (case iosConnect env of
              Throws \<Rightarrow> (Throws, False)
            | Returns connectionResult \<Rightarrow>
                if \<not> connectionResult then (Returns False, True) else (Returns True, False))
         else if ycHasConnect env then
           (if ycConnectLoop env (if disableRetry then 1 else 3) 0 False
            then (Returns True, False) else (Returns False, True))
         else (Returns False, False))
      else if rwHasConnect env then
        (case rwConnect env of
           Throws \<Rightarrow> (Throws, False)
         | Returns b \<Rightarrow> (Returns b, False))
      else (Returns False, False))"

text \<open>
  \<^verbatim>\<open>connectDevice\<close>. The three early returns come before the \<^verbatim>\<open>try\<close> block; the rest runs
  under \<^verbatim>\<open>try / catch / finally\<close>.
\<close>

definition connectDevice ::
  "connect_env \<Rightarrow> string option \<Rightarrow> string option \<Rightarrow> bool \<Rightarrow> bool \<Rightarrow> connection_state
     \<Rightarrow> bool \<times> connection_state" where
  "connectDevice env rawUuid deviceType disableRetry skipPreConnectionCheck s =
     (let clean = cleanUuid rawUuid in
      if clean = [] then (False, s)
      else
        (let devType = toLowerCase (case deviceType of None \<Rightarrow> ''yc''
                                  | Some t \<Rightarrow> if t = [] then ''yc'' else t);
             s1 = cancelAllPendingOperations s;
             s2 = (case storedDevice s1 of
                     Device u \<Rightarrow> if u \<noteq> Some clean then clearOldDeviceData clean s1 else s1
                   | _ \<Rightarrow> clearOldDeviceData clean s1);
             s3 = (if clean \<in> connectionAttempts s2
                   then s2\<lparr>connectionAttempts := connectionAttempts s2 - {clean}\<rparr> else s2);
             locked = (\<lambda>st. st\<lparr>connectionAttempts := insert clean (connectionAttempts st)\<rparr>);
             released = (\<lambda>st. st\<lparr>connectionAttempts := connectionAttempts st - {clean}\<rparr>);
             connectSequence = (\<lambda>st.
               (let st1 = st\<lparr>isConnecting := True\<rparr>;
                    (result, cleared) = connectBody env devType disableRetry;
                    st2 = (if cleared then clearOldDeviceData clean st1 else st1);
                    (ret, st3) = (case result of
                                      Returns b \<Rightarrow> (b, st2)
                                    | Throws \<Rightarrow> (False, clearOldDeviceData clean st2))
                in (ret, released (st3\<lparr>isConnecting := False\<rparr>))))
         in
         if \<not> skipPreConnectionCheck then
           (if connectedProbe env 0 = Returns True then (True, released s3)
            else
              (let s4 = locked s3 in
               case storedDevice s4 of
                 Device storedUuid \<Rightarrow>
                   if storedUuid \<noteq> Some clean \<and> connectedProbe env 1 = Returns True
                   then (True, released s4)
                   else connectSequence s4
               | _ \<Rightarrow> connectSequence s4))
         else connectSequence (locked s3)))"

text \<open>A device that answers the native connect call with a rejection on every pass.\<close>

definition failingDevice :: connect_env where
  "failingDevice =
     \<lparr> platformIOS = False, ycProductAvailable = False, ycHasConnect = True,
       rwHasConnect = True, connectedProbe = (\<lambda>k. Returns False), iosConnect = Throws,
       ycConnectAttempt = (\<lambda>k. NativeThrew ''CONNECT_FAILED'' ''GATT_ERROR 133''),
       rwConnect = Throws \<rparr>"

definition freeCoordinator :: connection_state where
  "freeCoordinator =
     \<lparr> isConnecting = False, connectionAttempts = {}, pendingDeviceInfoRequest = False,
       storedDevice = NoDevice \<rparr>"


section \<open>Double-precision arithmetic\<close>

text \<open>
  JavaScript numbers are IEEE 754 binary64 values, and every arithmetic operation rounds
  its exact result to the nearest of them, ties to the even significand. The products and
  quotients of the normalizer (seconds scaled to milliseconds, the sleep aggregation) are
  modelled with this rounding. A computed number is a finite real, one of the two
  infinities, or \<^verbatim>\<open>NaN\<close>. The sign of a zero is not kept: the normalizer divides only
  by 60 and by a total above 1440.
\<close>

datatype jsnum = Fin real | PosInf | NegInf | NaN

text \<open>\<open>log2floor n\<close> is the position of the leading bit of \<open>n\<close>, for \<open>n \<ge> 1\<close>.\<close>

function log2floor :: "int \<Rightarrow> int" where
  "log2floor n = (if n < 2 then 0 else 1 + log2floor (n div 2))"
  by pat_completeness auto
termination
  by (relation "measure nat") auto

declare log2floor.simps [simp del]

definition pow2 :: "int \<Rightarrow> real" where
  "pow2 e = (if 0 \<le> e then 2 ^ nat e else 1 / 2 ^ nat (- e))"

text \<open>The exponent \<open>e\<close> of a non-zero real \<open>x\<close>: \<open>pow2 e \<le> \<bar>x\<bar> < pow2 (e + 1)\<close>.\<close>

definition binade :: "real \<Rightarrow> int" where
  "binade x =
     (if 1 \<le> \<bar>x\<bar> then log2floor \<lfloor>\<bar>x\<bar>\<rfloor>
      else - log2floor (\<lceil>1 / \<bar>x\<bar>\<rceil> - 1) - 1)"

definition roundHalfEven :: "real \<Rightarrow> int" where
  "roundHalfEven x =
     (let f = \<lfloor>x\<rfloor>; d = x - of_int f in
      if d < 1 / 2 then f else if d > 1 / 2 then f + 1 else if even f then f else f + 1)"

text \<open>
  The binary64 value of an exact result: 53 significant bits in the normal range, a
  spacing of \<open>pow2 (- 1074)\<close> below \<open>pow2 (- 1022)\<close>, and an infinity when the rounded
  magnitude reaches \<open>pow2 1024\<close>.
\<close>

definition fl64 :: "real \<Rightarrow> jsnum" where
  "fl64 x =
     (if x = 0 then Fin 0
      else
        (let e = max (binade x) (- 1022);
             ulp = pow2 (e - 52);
             y = of_int (roundHalfEven (x / ulp)) * ulp
         in if \<bar>y\<bar> \<ge> pow2 1024 then (if x > 0 then PosInf else NegInf) else Fin y))"

fun fadd :: "jsnum \<Rightarrow> jsnum \<Rightarrow> jsnum" where
  "fadd (Fin x) (Fin y) = fl64 (x + y)"
| "fadd NaN b = NaN"
| "fadd a NaN = NaN"
| "fadd PosInf NegInf = NaN"
| "fadd NegInf PosInf = NaN"
| "fadd PosInf b = PosInf"
| "fadd a PosInf = PosInf"
| "fadd NegInf b = NegInf"
| "fadd a NegInf = NegInf"

fun fmul :: "jsnum \<Rightarrow> jsnum \<Rightarrow> jsnum" where
  "fmul (Fin x) (Fin y) = fl64 (x * y)"
| "fmul NaN b = NaN"
| "fmul a NaN = NaN"
| "fmul PosInf (Fin y) = (if y = 0 then NaN else if y > 0 then PosInf else NegInf)"
| "fmul NegInf (Fin y) = (if y = 0 then NaN else if y > 0 then NegInf else PosInf)"
| "fmul (Fin x) PosInf = (if x = 0 then NaN else if x > 0 then PosInf else NegInf)"
| "fmul (Fin x) NegInf = (if x = 0 then NaN else if x > 0 then NegInf else PosInf)"
| "fmul PosInf PosInf = PosInf"
| "fmul PosInf NegInf = NegInf"
| "fmul NegInf PosInf = NegInf"
| "fmul NegInf NegInf = PosInf"

text \<open>Division; a zero divisor is read as the positive zero.\<close>

fun fdiv :: "jsnum \<Rightarrow> jsnum \<Rightarrow> jsnum" where
  "fdiv (Fin x) (Fin y) =
     (if y = 0 then (if x = 0 then NaN else if x > 0 then PosInf else NegInf)
      else fl64 (x / y))"
| "fdiv NaN b = NaN"
| "fdiv a NaN = NaN"
| "fdiv (Fin x) PosInf = Fin 0"
| "fdiv (Fin x) NegInf = Fin 0"
| "fdiv PosInf (Fin y) = (if y \<ge> 0 then PosInf else NegInf)"
| "fdiv NegInf (Fin y) = (if y \<ge> 0 then NegInf else PosInf)"
| "fdiv a b = NaN"

text \<open>\<^verbatim>\<open>Math.round\<close> rounds halves up.\<close>

definition mathRound :: "real \<Rightarrow> real" where
  "mathRound x = of_int \<lfloor>x + 1 / 2\<rfloor>"

text \<open>\<^verbatim>\<open>Math.round\<close> of a computed number, and the comparison \<^verbatim>\<open>x > c\<close> with a finite \<open>c\<close>.\<close>

fun jsRound :: "jsnum \<Rightarrow> jsnum" where
  "jsRound (Fin x) = Fin (mathRound x)"
| "jsRound a = a"

fun jsGreater :: "jsnum \<Rightarrow> real \<Rightarrow> bool" where
  "jsGreater (Fin x) c = (x > c)"
| "jsGreater PosInf c = True"
| "jsGreater a c = False"

text \<open>A number is falsy when it is zero or \<^verbatim>\<open>NaN\<close>.\<close>

fun falsyNumber :: "jsnum \<Rightarrow> bool" where
  "falsyNumber (Fin x) = (x = 0)"
| "falsyNumber NaN = True"
| "falsyNumber a = False"

text \<open>
  \<^verbatim>\<open>new Date(ms)\<close> keeps the whole milliseconds of a finite number of magnitude at most
  8.64e15, dropping the fraction, and is an invalid date (\<open>None\<close>) otherwise. A comparison
  with an invalid date is false.
\<close>

fun newDate :: "jsnum \<Rightarrow> real option" where
  "newDate (Fin ms) =
     (if \<bar>ms\<bar> \<le> 8640000000000000
      then Some (of_int (if ms \<ge> 0 then \<lfloor>ms\<rfloor> else \<lceil>ms\<rceil>))
      else None)"
| "newDate a = None"


section \<open>Vendor records and JavaScript coercions\<close>

text \<open>
  A field of a vendor record holds a primitive value. The number in a field is a real, and
  \<^verbatim>\<open>NaN\<close> appears only as the failed numeric reading of a value (\<open>None\<close>). The step
  totals are sums of numbers already rounded to whole numbers, and are taken exactly. A
  record is a list of named fields, and a field that is not listed reads as
  \<^verbatim>\<open>undefined\<close>.
\<close>

datatype jsval = JUndefined | JNull | JBool bool | JNum real | JStr string

type_synonym jsrecord = "(string \<times> jsval) list"

definition getField :: "jsrecord \<Rightarrow> string \<Rightarrow> jsval" where
  "getField r k = (case map_of r k of Some v \<Rightarrow> v | None \<Rightarrow> JUndefined)"

fun truthy :: "jsval \<Rightarrow> bool" where
  "truthy JUndefined = False"
| "truthy JNull = False"
| "truthy (JBool b) = b"
| "truthy (JNum x) = (x \<noteq> 0)"
| "truthy (JStr s) = (s \<noteq> [])"

text \<open>\<^verbatim>\<open>r.f1 || r.f2 || ... || dflt\<close>: the first truthy field, else the default.\<close>

fun firstTruthy :: "jsrecord \<Rightarrow> string list \<Rightarrow> jsval \<Rightarrow> jsval" where
  "firstTruthy r [] dflt = dflt"
| "firstTruthy r (f # fs) dflt = (if truthy (getField r f) then getField r f else firstTruthy r fs dflt)"

text \<open>
  What the normalizer needs from outside the repository's code: the numeric reading of a
  string (\<^verbatim>\<open>Number(s)\<close>) and \<^verbatim>\<open>Date.parse\<close>, both with \<open>None\<close> for \<^verbatim>\<open>NaN\<close>; the two
  estimates of \<^verbatim>\<open>HealthCalculator\<close>; the bounds of the current local day and of the
  current day in Vietnam time, in epoch milliseconds; and the host platform
  (\<^verbatim>\<open>Platform.OS\<close>). The clock reading \<^verbatim>\<open>Date.now()\<close> is a separate argument
  \<open>nowMs\<close> of the functions that stamp their result with it.
\<close>

datatype host_os = HostIOS | HostAndroid | HostOther

record norm_env =
  parseNumber :: "string \<Rightarrow> real option"
  dateParse :: "string \<Rightarrow> real option"
  calculateCaloriesFromSteps :: "real \<Rightarrow> real"
  calculateDistanceFromSteps :: "real \<Rightarrow> real"
  todayStart :: real
  todayEnd :: real
  vietnamStartOfDay :: real
  vietnamEndOfDay :: real
  hostPlatform :: host_os

text \<open>\<^verbatim>\<open>Number(v)\<close>, with \<open>None\<close> for \<^verbatim>\<open>NaN\<close>.\<close>

fun toNumber :: "norm_env \<Rightarrow> jsval \<Rightarrow> real option" where
  "toNumber E JUndefined = None"
| "toNumber E JNull = Some 0"
| "toNumber E (JBool b) = Some (if b then 1 else 0)"
| "toNumber E (JNum x) = Some x"
| "toNumber E (JStr s) = parseNumber E s"

text \<open>\<^verbatim>\<open>v > 0\<close> for a field value: the value is read as a number, and \<^verbatim>\<open>NaN > 0\<close> is false.\<close>

definition positive :: "norm_env \<Rightarrow> jsval \<Rightarrow> bool" where
  "positive E v = (case toNumber E v of Some x \<Rightarrow> x > 0 | None \<Rightarrow> False)"


section \<open>Step processing (PlatformUtils and IOSStepsProcessor)\<close>

definition roundValue :: "norm_env \<Rightarrow> jsval \<Rightarrow> real" where
  "roundValue E v = (case toNumber E v of None \<Rightarrow> 0 | Some x \<Rightarrow> mathRound x)"

definition hasHealthMetrics :: "norm_env \<Rightarrow> jsrecord \<Rightarrow> bool" where
  "hasHealthMetrics E r =
     (\<exists>f \<in> set [''heartValue'', ''heartRate'', ''heart_rate'', ''OOValue'', ''spo2'',
                 ''bloodOxygen'', ''SBPValue'', ''DBPValue'', ''systolic'', ''diastolic'',
                 ''tempFloatValue'', ''temperature'', ''respiratoryRateValue'',
                 ''respirationRate''].
        positive E (getField r f))"

definition filterStepRecords :: "norm_env \<Rightarrow> jsrecord list \<Rightarrow> jsrecord list" where
  "filterStepRecords E dataArray =
     filter (\<lambda>r. truthy (firstTruthy r [''step'', ''steps'', ''sportStep'', ''value''] JUndefined)
                  \<and> \<not> hasHealthMetrics E r)
       dataArray"

text \<open>
  \<^verbatim>\<open>PlatformUtils.toMilliseconds\<close>: a number below 10000000000 counts seconds and is
  multiplied by 1000; a string is parsed as a date, with 0 when it does not parse.
\<close>

definition toMilliseconds :: "norm_env \<Rightarrow> jsval \<Rightarrow> jsnum" where
  "toMilliseconds E v =
     (case v of
        JNum x \<Rightarrow> if x < 10000000000 then fmul (Fin x) (Fin 1000) else Fin x
      | JStr s \<Rightarrow> (case dateParse E s of None \<Rightarrow> Fin 0 | Some ms \<Rightarrow> Fin ms)
      | _ \<Rightarrow> Fin 0)"

text \<open>
  \<^verbatim>\<open>PlatformUtils.extractTimestamp\<close>: the first of the seven time fields that is truthy and
  converts to a positive number of milliseconds; 0 if there is none.
\<close>

fun firstTime :: "norm_env \<Rightarrow> jsrecord \<Rightarrow> string list \<Rightarrow> jsnum" where
  "firstTime E r [] = Fin 0"
| "firstTime E r (f # fs) =
     (if truthy (getField r f) \<and> jsGreater (toMilliseconds E (getField r f)) 0
      then toMilliseconds E (getField r f)
      else firstTime E r fs)"

definition stepTimestamp :: "norm_env \<Rightarrow> jsrecord \<Rightarrow> jsnum" where
  "stepTimestamp E r =
     firstTime E r [''sportStartTime'', ''startTime'', ''time'', ''timestamp'',
                    ''sportEndTime'', ''endTime'', ''endTimestamp'']"

definition extractSteps :: "norm_env \<Rightarrow> jsrecord \<Rightarrow> real" where
  "extractSteps E r =
     roundValue E
       (firstTruthy r [''sportStep'', ''step'', ''steps'', ''value'', ''stepValue''] (JNum 0))"

definition isWithinCurrentDayGMT7 :: "norm_env \<Rightarrow> jsnum \<Rightarrow> bool" where
  "isWithinCurrentDayGMT7 E timestampMs =
     (\<not> falsyNumber timestampMs
      \<and> (case newDate timestampMs of
            None \<Rightarrow> False
          | Some date \<Rightarrow> vietnamStartOfDay E \<le> date \<and> date \<le> vietnamEndOfDay E))"

record steps_result =
  sr_steps :: real
  sr_calories :: real
  sr_distance :: real

definition zeroSteps :: steps_result where
  "zeroSteps = \<lparr>sr_steps = 0, sr_calories = 0, sr_distance = 0\<rparr>"

text \<open>The three running totals of the loop over the step records of the current day.\<close>

fun sumCurrentDay :: "norm_env \<Rightarrow> jsrecord list \<Rightarrow> real \<times> real \<times> real \<Rightarrow> real \<times> real \<times> real" where
  "sumCurrentDay E [] acc = acc"
| "sumCurrentDay E (r # rs) (totalSteps, totalCalories, totalDistance) =
     (if isWithinCurrentDayGMT7 E (stepTimestamp E r) then
        sumCurrentDay E rs
          (totalSteps + extractSteps E r,
           totalCalories
             + roundValue E (firstTruthy r [''calories'', ''sportCalorie'', ''cal''] (JNum 0)),
           totalDistance
             + roundValue E (firstTruthy r [''distance'', ''sportDistance''] (JNum 0)))
      else sumCurrentDay E rs (totalSteps, totalCalories, totalDistance))"

text \<open>
  \<^verbatim>\<open>IOSStepsProcessor.process\<close>, which \<^verbatim>\<open>processYCStepsData\<close> and \<^verbatim>\<open>processRWStepsData\<close>
  both call.
\<close>

definition processSteps :: "norm_env \<Rightarrow> jsrecord list \<Rightarrow> steps_result" where
  "processSteps E dataArray =
     (if dataArray = [] then zeroSteps
      else
        (let stepRecords = filterStepRecords E dataArray in
         if stepRecords = [] then zeroSteps
         else
           (let (totalSteps, totalCalories, totalDistance) = sumCurrentDay E stepRecords (0, 0, 0);
                calories0 = (if totalCalories > 0 then totalCalories
                             else calculateCaloriesFromSteps E totalSteps);
                calories = (if totalSteps = 0 then 0 else calories0);
                distance = (if totalDistance > 0 then totalDistance
                            else calculateDistanceFromSteps E totalSteps)
            in \<lparr>sr_steps = totalSteps, sr_calories = calories, sr_distance = distance\<rparr>)))"


section \<open>Field mapping table (mappings and DeviceMapper)\<close>

text \<open>
  Where one metric is read for one vendor: the name of the array in the payload and the
  field names to try, in priority order. Lists that a metric does not use are empty.
\<close>

record field_mapping =
  dataPath :: string
  valueFields :: "string list"
  timestampFields :: "string list"
  deepSleepFields :: "string list"
  lightSleepFields :: "string list"
  remSleepFields :: "string list"
  systolicFields :: "string list"
  diastolicFields :: "string list"

definition valueMapping :: "string \<Rightarrow> string list \<Rightarrow> string list \<Rightarrow> field_mapping" where
  "valueMapping path vals tsFields =
     \<lparr> dataPath = path, valueFields = vals, timestampFields = tsFields, deepSleepFields = [],
       lightSleepFields = [], remSleepFields = [], systolicFields = [], diastolicFields = [] \<rparr>"

definition sleepMapping ::
  "string \<Rightarrow> string list \<Rightarrow> string list \<Rightarrow> string list \<Rightarrow> string list \<Rightarrow> field_mapping" where
  "sleepMapping path deep light rem tsFields =
     \<lparr> dataPath = path, valueFields = [], timestampFields = tsFields, deepSleepFields = deep,
       lightSleepFields = light, remSleepFields = rem, systolicFields = [],
       diastolicFields = [] \<rparr>"

definition pressureMapping ::
  "string \<Rightarrow> string list \<Rightarrow> string list \<Rightarrow> string list \<Rightarrow> field_mapping" where
  "pressureMapping path sys dia tsFields =
     \<lparr> dataPath = path, valueFields = [], timestampFields = tsFields, deepSleepFields = [],
       lightSleepFields = [], remSleepFields = [], systolicFields = sys,
       diastolicFields = dia \<rparr>"

record device_field_mapping =
  m_heartRate :: field_mapping
  m_spo2 :: field_mapping
  m_bloodOxygen :: field_mapping
  m_steps :: field_mapping
  m_calories :: field_mapping
  m_distance :: field_mapping
  m_sleep :: field_mapping
  m_bloodPressure :: field_mapping
  m_temperature :: field_mapping
  m_battery :: field_mapping

text \<open>The five entries of \<^verbatim>\<open>DEVICE_MAPPINGS\<close>.\<close>

definition mapping_yc :: device_field_mapping where
  "mapping_yc =
     \<lparr>
       m_heartRate =
         valueMapping ''heartRate'' [''heartValue'', ''heartRate'', ''value'']
           [''time'', ''timestamp'', ''date''],
       m_spo2 =
         valueMapping ''bloodOxygen'' [''OOValue'', ''bloodOxygen'', ''spo2'', ''value'']
           [''time'', ''timestamp'', ''date''],
       m_bloodOxygen =
         valueMapping ''bloodOxygen'' [''OOValue'', ''bloodOxygen'', ''spo2'', ''value'']
           [''startTime'', ''time'', ''timestamp'', ''date''],
       m_steps =
         valueMapping ''step'' [''stepValue'', ''sportStep'', ''step'', ''steps'', ''value'']
           [''time'', ''timestamp'', ''date''],
       m_calories =
         valueMapping ''step'' [''sportCalorie'', ''calories'', ''calorie'', ''kcal'', ''cal'', ''value'']
           [''sportStartTime'', ''time'', ''timestamp'', ''date''],
       m_distance =
         valueMapping ''step'' [''sportDistance'', ''distance'', ''dist'', ''km'', ''meters'', ''value'']
           [''sportStartTime'', ''time'', ''timestamp'', ''date''],
       m_sleep =
         sleepMapping ''sleep''
           [''deepSleepSeconds'', ''deepSleepMinutes'']
           [''lightSleepSeconds'', ''lightSleepMinutes'']
           [''remSleepSeconds'', ''remSleepMinutes'']
           [''time'', ''timestamp'', ''date''],
       m_bloodPressure =
         pressureMapping ''bloodPressure'' [''systolic'', ''sbp'', ''high'']
           [''diastolic'', ''dbp'', ''low'']
           [''time'', ''timestamp'', ''date''],
       m_temperature =
         valueMapping ''temperature'' [''temperature'', ''temp'', ''value'']
           [''time'', ''timestamp'', ''date''],
       m_battery =
         valueMapping ''battery'' [''battery'', ''batteryLevel'', ''batteryPercent'']
           [''time'', ''timestamp'', ''date'']
     \<rparr>"

definition mapping_rw :: device_field_mapping where
  "mapping_rw =
     \<lparr>
       m_heartRate =
         valueMapping ''heartRate'' [''heartRate'', ''hr'', ''value'']
           [''time'', ''timestamp'', ''date''],
       m_spo2 =
         valueMapping ''spo2'' [''spo2'', ''oxygen'', ''value'']
           [''time'', ''timestamp'', ''date''],
       m_bloodOxygen =
         valueMapping ''spo2'' [''spo2'', ''oxygen'', ''value'']
           [''time'', ''timestamp'', ''date''],
       m_steps =
         valueMapping ''steps'' [''steps'', ''step'', ''value'']
           [''time'', ''timestamp'', ''date''],
       m_calories =
         valueMapping ''steps'' [''calories'', ''calorie'', ''kcal'', ''cal'', ''value'']
           [''time'', ''timestamp'', ''date''],
       m_distance =
         valueMapping ''steps'' [''distance'', ''dist'', ''km'', ''meters'', ''value'']
           [''time'', ''timestamp'', ''date''],
       m_sleep =
         sleepMapping ''sleep''
           [''deepSleep'', ''deep'']
           [''lightSleep'', ''light'']
           [''remSleep'', ''rem'']
           [''time'', ''timestamp'', ''date''],
       m_bloodPressure =
         pressureMapping ''bloodPressure'' [''systolic'', ''high'']
           [''diastolic'', ''low'']
           [''time'', ''timestamp'', ''date''],
       m_temperature =
         valueMapping ''temperature'' [''temperature'', ''temp'']
           [''time'', ''timestamp'', ''date''],
       m_battery =
         valueMapping ''battery'' [''battery'', ''batteryLevel'']
           [''time'', ''timestamp'', ''date'']
     \<rparr>"

definition mapping_android_yc :: device_field_mapping where
  "mapping_android_yc =
     \<lparr>
       m_heartRate =
         valueMapping ''heartRate'' [''heartValue'', ''heartRate'', ''value'']
           [''heartStartTime'', ''time'', ''timestamp'', ''date''],
       m_spo2 =
         valueMapping ''bloodOxygen'' [''OOValue'', ''bloodOxygen'', ''spo2'', ''value'']
           [''startTime'', ''time'', ''timestamp'', ''date''],
       m_bloodOxygen =
         valueMapping ''bloodOxygen'' [''OOValue'', ''bloodOxygen'', ''spo2'', ''value'']
           [''startTime'', ''time'', ''timestamp'', ''date''],
       m_steps =
         valueMapping ''step'' [''stepValue'', ''sportStep'', ''step'', ''steps'', ''value'']
           [''time'', ''timestamp'', ''date''],
       m_calories =
         valueMapping ''step'' [''sportCalorie'', ''calories'', ''calorie'', ''kcal'', ''cal'', ''value'']
           [''sportStartTime'', ''time'', ''timestamp'', ''date''],
       m_distance =
         valueMapping ''step'' [''sportDistance'', ''distance'', ''dist'', ''km'', ''meters'', ''value'']
           [''sportStartTime'', ''time'', ''timestamp'', ''date''],
       m_sleep =
         sleepMapping ''sleep''
           [''deepSleepTotal'', ''deepSleepSeconds'', ''deepSleepMinutes'']
           [''lightSleepTotal'', ''lightSleepSeconds'', ''lightSleepMinutes'']
           [''rapidEyeMovementTotal'', ''remSleepSeconds'', ''remSleepMinutes'']
           [''startTime'', ''endTime'', ''time'', ''timestamp'', ''date''],
       m_bloodPressure =
         pressureMapping ''bloodPressure'' [''bloodSBP'', ''systolic'', ''sbp'', ''high'']
           [''bloodDBP'', ''diastolic'', ''dbp'', ''low'']
           [''bloodStartTime'', ''time'', ''timestamp'', ''date''],
       m_temperature =
         valueMapping ''temperature'' [''temperature'', ''temp'', ''value'']
           [''time'', ''timestamp'', ''date''],
       m_battery =
         valueMapping ''battery'' [''battery'', ''batteryLevel'', ''batteryPercent'']
           [''time'', ''timestamp'', ''date'']
     \<rparr>"

definition mapping_ios_yc :: device_field_mapping where
  "mapping_ios_yc =
     \<lparr>
       m_heartRate =
         valueMapping ''heartRate'' [''heartValue'', ''heartRate'', ''value'']
           [''time'', ''timestamp'', ''date''],
       m_spo2 =
         valueMapping ''bloodOxygen'' [''OOValue'', ''bloodOxygen'', ''spo2'', ''value'']
           [''time'', ''timestamp'', ''date''],
       m_bloodOxygen =
         valueMapping ''bloodOxygen'' [''OOValue'', ''bloodOxygen'', ''spo2'', ''value'']
           [''startTime'', ''time'', ''timestamp'', ''date''],
       m_steps =
         valueMapping ''step'' [''stepValue'', ''sportStep'', ''step'', ''steps'', ''value'']
           [''time'', ''timestamp'', ''date''],
       m_calories =
         valueMapping ''step'' [''sportCalorie'', ''calories'', ''calorie'', ''kcal'', ''cal'', ''value'']
           [''sportStartTime'', ''time'', ''timestamp'', ''date''],
       m_distance =
         valueMapping ''step'' [''sportDistance'', ''distance'', ''dist'', ''km'', ''meters'', ''value'']
           [''sportStartTime'', ''time'', ''timestamp'', ''date''],
       m_sleep =
         sleepMapping ''sleep''
           [''deepSleepSeconds'', ''deepSleepMinutes'']
           [''lightSleepSeconds'', ''lightSleepMinutes'']
           [''remSleepSeconds'', ''remSleepMinutes'']
           [''time'', ''timestamp'', ''date''],
       m_bloodPressure =
         pressureMapping ''bloodPressure'' [''systolic'', ''sbp'', ''high'']
           [''diastolic'', ''dbp'', ''low'']
           [''time'', ''timestamp'', ''date''],
       m_temperature =
         valueMapping ''temperature'' [''temperature'', ''temp'', ''value'']
           [''time'', ''timestamp'', ''date''],
       m_battery =
         valueMapping ''battery'' [''battery'', ''batteryLevel'', ''batteryPercent'']
           [''time'', ''timestamp'', ''date'']
     \<rparr>"

definition mapping_default :: device_field_mapping where
  "mapping_default =
     \<lparr>
       m_heartRate =
         valueMapping ''heartRate'' [''heartRate'', ''hr'', ''value'']
           [''time'', ''timestamp'', ''date''],
       m_spo2 =
         valueMapping ''spo2'' [''spo2'', ''oxygen'', ''value'']
           [''time'', ''timestamp'', ''date''],
       m_bloodOxygen =
         valueMapping ''spo2'' [''spo2'', ''oxygen'', ''value'']
           [''time'', ''timestamp'', ''date''],
       m_steps =
         valueMapping ''steps'' [''steps'', ''step'', ''value'']
           [''time'', ''timestamp'', ''date''],
       m_calories =
         valueMapping ''steps'' [''calories'', ''calorie'', ''kcal'', ''cal'', ''value'']
           [''time'', ''timestamp'', ''date''],
       m_distance =
         valueMapping ''steps'' [''distance'', ''dist'', ''km'', ''meters'', ''value'']
           [''time'', ''timestamp'', ''date''],
       m_sleep =
         sleepMapping ''sleep''
           [''deepSleep'', ''deep'']
           [''lightSleep'', ''light'']
           [''remSleep'', ''rem'']
           [''time'', ''timestamp'', ''date''],
       m_bloodPressure =
         pressureMapping ''bloodPressure'' [''systolic'', ''high'']
           [''diastolic'', ''low'']
           [''time'', ''timestamp'', ''date''],
       m_temperature =
         valueMapping ''temperature'' [''temperature'', ''temp'']
           [''time'', ''timestamp'', ''date''],
       m_battery =
         valueMapping ''battery'' [''battery'', ''batteryLevel'']
           [''time'', ''timestamp'', ''date'']
     \<rparr>"

definition DEVICE_MAPPINGS :: "string \<Rightarrow> device_field_mapping option" where
  "DEVICE_MAPPINGS key =
     (if key = ''yc'' then Some mapping_yc
      else if key = ''rw'' then Some mapping_rw
      else if key = ''android_yc'' then Some mapping_android_yc
      else if key = ''ios_yc'' then Some mapping_ios_yc
      else if key = ''default'' then Some mapping_default
      else None)"

text \<open>\<^verbatim>\<open>DeviceMapper.normalizeDeviceType\<close>, with its alias table.\<close>

definition typeMap :: "string \<Rightarrow> string option" where
  "typeMap t =
     (if t \<in> set [''yc'', ''yichuang'', ''yucheng'', ''vita''] then Some ''yc''
      else if t \<in> set [''rw'', ''ringtech'', ''ring''] then Some ''rw''
      else None)"

definition normalizeDeviceType :: "string \<Rightarrow> string" where
  "normalizeDeviceType deviceType =
     (if deviceType = [] then ''yc''
      else
        (let normalized = trim (toLowerCase deviceType) in
         case typeMap normalized of Some t \<Rightarrow> t | None \<Rightarrow> normalized))"

text \<open>
  \<^verbatim>\<open>DeviceMapper.getDeviceMapping\<close>: the entry for the host platform and the vendor, else
  the vendor's entry, else the default entry.
\<close>

definition getDeviceMapping :: "host_os \<Rightarrow> string \<Rightarrow> device_field_mapping" where
  "getDeviceMapping host deviceType =
     (let normalizedType = normalizeDeviceType deviceType;
          prefixed = (case host of
                        HostAndroid \<Rightarrow> DEVICE_MAPPINGS (''android_'' @ normalizedType)
                      | HostIOS \<Rightarrow> DEVICE_MAPPINGS (''ios_'' @ normalizedType)
                      | HostOther \<Rightarrow> None)
      in case prefixed of
           Some m \<Rightarrow> m
         | None \<Rightarrow>
             (case DEVICE_MAPPINGS normalizedType of
                Some m \<Rightarrow> m
              | None \<Rightarrow> mapping_default))"

datatype platform = IOS | Android

text \<open>
  \<^verbatim>\<open>applyPlatformAdjustments\<close> with the table \<^verbatim>\<open>PLATFORM_ADJUSTMENTS\<close>: the timestamp
  fields of heart rate, SpO2 and sleep are replaced per platform.
\<close>

definition applyPlatformAdjustments :: "device_field_mapping \<Rightarrow> platform \<Rightarrow> device_field_mapping" where
  "applyPlatformAdjustments mapping p =
     (case p of
        IOS \<Rightarrow>
          mapping
            \<lparr> m_heartRate :=
                (m_heartRate mapping)
                  \<lparr>timestampFields := [''time'', ''heartStartTime'', ''timestamp'', ''startTime'']\<rparr>,
              m_spo2 :=
                (m_spo2 mapping)\<lparr>timestampFields := [''time'', ''startTime'', ''timestamp'']\<rparr>,
              m_sleep :=
                (m_sleep mapping)\<lparr>timestampFields := [''time'', ''startTime'', ''date'']\<rparr> \<rparr>
      | Android \<Rightarrow>
          mapping
            \<lparr> m_heartRate :=
                (m_heartRate mapping)\<lparr>timestampFields := [''timestamp'', ''time'', ''startTime'']\<rparr>,
              m_spo2 :=
                (m_spo2 mapping)\<lparr>timestampFields := [''timestamp'', ''time'', ''startTime'']\<rparr>,
              m_sleep :=
                (m_sleep mapping)\<lparr>timestampFields := [''timestamp'', ''time'', ''date'']\<rparr> \<rparr>)"


section \<open>Normalization engine (DataNormalizerService)\<close>

text \<open>
  A raw payload is an object whose properties are arrays of vendor records or scalars.
\<close>

datatype raw_field = Records "jsrecord list" | Scalar jsval

type_synonym raw_payload = "(string \<times> raw_field) list"

text \<open>\<^verbatim>\<open>rawData.key = value\<close>: the property is replaced, or added when it is new.\<close>

definition setProperty :: "string \<Rightarrow> raw_field \<Rightarrow> raw_payload \<Rightarrow> raw_payload" where
  "setProperty key v raw = (key, v) # filter (\<lambda>kv. fst kv \<noteq> key) raw"

text \<open>
  The class \<^verbatim>\<open>DataValidator\<close> is not among the sources. Its four methods are parameters
  of the engine: the array found under a path of the payload (\<open>None\<close> when there is none,
  or when the lookup fails), the timestamp of a record read through a priority list of
  field names (0 when there is none), the value of a record read through a priority list
  of field names and an optional plausibility test (0 when there is none), and the
  cleaning of a payload.
\<close>

record validator =
  extractDataArray :: "raw_payload \<Rightarrow> string \<Rightarrow> jsrecord list option"
  extractTimestamp :: "jsrecord \<Rightarrow> string list \<Rightarrow> real"
  extractBestValue :: "jsrecord \<Rightarrow> string list \<Rightarrow> (real \<Rightarrow> bool) option \<Rightarrow> real"
  validateAndCleanData :: "raw_payload \<Rightarrow> raw_payload"

definition TIMESTAMP_SECOND_TO_MS_THRESHOLD :: real where
  "TIMESTAMP_SECOND_TO_MS_THRESHOLD = 1000000000000"

definition TIMESTAMP_SECOND_TO_MS_THRESHOLD_SHORT :: real where
  "TIMESTAMP_SECOND_TO_MS_THRESHOLD_SHORT = 10000000000"

definition MAX_SLEEP_MINUTES :: real where
  "MAX_SLEEP_MINUTES = 24 * 60"

definition normalizeTimestamp :: "real \<Rightarrow> jsnum" where
  "normalizeTimestamp t =
     (if t = 0 then Fin 0
      else if t < TIMESTAMP_SECOND_TO_MS_THRESHOLD then fmul (Fin t) (Fin 1000) else Fin t)"

text \<open>An array that is missing or empty counts as absent (\<^verbatim>\<open>!dataArray?.length\<close>).\<close>

definition nonEmptyArray :: "jsrecord list option \<Rightarrow> jsrecord list option" where
  "nonEmptyArray a = (case a of Some (r # rs) \<Rightarrow> Some (r # rs) | _ \<Rightarrow> None)"

definition extractDataArrayForIOS ::
  "validator \<Rightarrow> raw_payload \<Rightarrow> string \<Rightarrow> string \<Rightarrow> jsrecord list option \<times> string" where
  "extractDataArrayForIOS V cleanedData combinedPath fallbackPath =
     (case nonEmptyArray (extractDataArray V cleanedData combinedPath) of
        Some combinedData \<Rightarrow> (Some combinedData, combinedPath)
      | None \<Rightarrow> (nonEmptyArray (extractDataArray V cleanedData fallbackPath), fallbackPath))"

record metric =
  current :: real
  timestamp :: real

text \<open>
  \<^verbatim>\<open>findBestValueInTimeRange\<close>: the records are visited from the last to the first; one
  step of the loop updates the best timestamp and value seen so far. A timestamp that is
  not finite lies outside every range.
\<close>

definition bestInRangeStep ::
  "validator \<Rightarrow> string list \<Rightarrow> string list \<Rightarrow> (real \<Rightarrow> bool) \<Rightarrow> real \<Rightarrow> real
     \<Rightarrow> jsrecord \<Rightarrow> real \<times> real \<Rightarrow> real \<times> real" where
  "bestInRangeStep V valFields tsFields plausible rangeStart rangeEnd r best =
     (case normalizeTimestamp (extractTimestamp V r tsFields) of
        Fin timestampMs \<Rightarrow>
          if timestampMs = 0 \<or> timestampMs < rangeStart \<or> timestampMs > rangeEnd then best
          else
            (let v = extractBestValue V r valFields (Some plausible) in
             if v > 0 \<and> timestampMs > fst best then (timestampMs, v) else best)
      | _ \<Rightarrow> best)"

definition findBestValueInTimeRange ::
  "validator \<Rightarrow> jsrecord list \<Rightarrow> string list \<Rightarrow> string list \<Rightarrow> (real \<Rightarrow> bool) \<Rightarrow> real \<Rightarrow> real
     \<Rightarrow> metric option" where
  "findBestValueInTimeRange V dataArray valFields tsFields plausible rangeStart rangeEnd =
     (let (bestTimestamp, bestValue) =
            fold (bestInRangeStep V valFields tsFields plausible rangeStart rangeEnd)
              (rev dataArray) (0, 0)
      in if bestValue > 0 \<and> bestTimestamp > 0
         then Some \<lparr>current = bestValue, timestamp = bestTimestamp\<rparr> else None)"

definition normalizeHeartRateMetric ::
  "validator \<Rightarrow> norm_env \<Rightarrow> raw_payload \<Rightarrow> field_mapping \<Rightarrow> platform \<Rightarrow> metric option" where
  "normalizeHeartRateMetric V E rawData config p =
     (let cleanedData = validateAndCleanData V rawData;
          (dataArray, valFields) =
            (case p of
               IOS \<Rightarrow>
                 (let (arr, dataSource) =
                        extractDataArrayForIOS V cleanedData ''combinedData'' (dataPath config)
                  in (arr,
                      if dataSource = ''combinedData''
                      then [''heartRate'', ''heartValue'', ''heart'', ''hr'', ''bpm'', ''value'']
                      else valueFields config))
             | Android \<Rightarrow>
                 (nonEmptyArray (extractDataArray V cleanedData (dataPath config)),
                  valueFields config))
      in case dataArray of
           None \<Rightarrow> None
         | Some arr \<Rightarrow>
             findBestValueInTimeRange V arr valFields (timestampFields config)
               (\<lambda>v. v > 0 \<and> v < 200) (todayStart E) (todayEnd E))"

definition normalizeSpo2Metric ::
  "validator \<Rightarrow> norm_env \<Rightarrow> raw_payload \<Rightarrow> field_mapping \<Rightarrow> platform \<Rightarrow> metric option" where
  "normalizeSpo2Metric V E rawData config p =
     (let cleanedData = validateAndCleanData V rawData;
          (dataArray, valFields) =
            (case p of
               IOS \<Rightarrow>
                 (let (arr, dataSource) =
                        extractDataArrayForIOS V cleanedData ''combinedData'' (dataPath config)
                  in (arr,
                      if dataSource = ''combinedData''
                      then [''bloodOxygen'', ''spO2'', ''spo2'', ''OOValue'', ''spo2Value'',
                            ''oxygenValue'', ''value'']
                      else valueFields config))
             | Android \<Rightarrow>
                 (nonEmptyArray (extractDataArray V cleanedData (dataPath config)),
                  valueFields config))
      in case dataArray of
           None \<Rightarrow> None
         | Some arr \<Rightarrow>
             findBestValueInTimeRange V arr valFields (timestampFields config)
               (\<lambda>v. v > 0 \<and> v \<le> 100) (todayStart E) (todayEnd E))"

text \<open>
  Temperature and battery: a forward loop keeping the reading with the greatest raw
  timestamp; there is no day filter and the timestamp is not rescaled.
\<close>

definition latestStep ::
  "validator \<Rightarrow> string list \<Rightarrow> string list \<Rightarrow> (real \<Rightarrow> bool) option
     \<Rightarrow> jsrecord \<Rightarrow> real \<times> real \<Rightarrow> real \<times> real" where
  "latestStep V valFields tsFields plausible r best =
     (let t = extractTimestamp V r tsFields;
          v = extractBestValue V r valFields plausible
      in if v > 0 \<and> t > fst best then (t, v) else best)"

definition normalizeTemperatureMetric :: "validator \<Rightarrow> raw_payload \<Rightarrow> field_mapping \<Rightarrow> metric option" where
  "normalizeTemperatureMetric V rawData config =
     (case nonEmptyArray (extractDataArray V rawData (dataPath config)) of
        None \<Rightarrow> None
      | Some dataArray \<Rightarrow>
          (let (bestTimestamp, bestTemperature) =
                 fold (latestStep V (valueFields config) (timestampFields config)
                         (Some (\<lambda>v. v > - 10 \<and> v < 100)))
                   dataArray (0, 0)
           in if bestTemperature > 0
              then Some \<lparr>current = bestTemperature, timestamp = bestTimestamp\<rparr> else None))"

definition normalizeBatteryMetric ::
  "validator \<Rightarrow> real \<Rightarrow> raw_payload \<Rightarrow> field_mapping \<Rightarrow> metric option" where
  "normalizeBatteryMetric V nowMs rawData config =
     (case nonEmptyArray (extractDataArray V rawData (dataPath config)) of
        None \<Rightarrow> None
      | Some dataArray \<Rightarrow>
          (let (latestTimestamp, latestBattery) =
                 fold (latestStep V (valueFields config) (timestampFields config) None)
                   dataArray (0, 0)
           in if latestBattery > 0
              then Some \<lparr>current = mathRound latestBattery,
                         timestamp = (if latestTimestamp \<noteq> 0 then latestTimestamp else nowMs)\<rparr>
              else None))"

text \<open>
  Steps. On Android the step array is first tested for the shape of the combined stream;
  if its first record has one of five fields, the array is also stored in the payload
  under \<^verbatim>\<open>combinedData\<close>. The result carries the payload as the call leaves it.
\<close>

definition isCombinedData :: "jsrecord list \<Rightarrow> bool" where
  "isCombinedData stepDataArray =
     (case stepDataArray of
        [] \<Rightarrow> False
      | r # rs \<Rightarrow>
          (\<exists>f \<in> set [''stepValue'', ''heartValue'', ''SBPValue'', ''OOValue'',
                      ''respiratoryRateValue''].
             getField r f \<noteq> JUndefined))"

definition normalizeStepsMetricAndroid ::
  "validator \<Rightarrow> norm_env \<Rightarrow> real \<Rightarrow> raw_payload \<Rightarrow> field_mapping
     \<Rightarrow> metric option \<times> raw_payload" where
  "normalizeStepsMetricAndroid V E nowMs rawData config =
     (case nonEmptyArray (extractDataArray V rawData (dataPath config)) of
        None \<Rightarrow> (None, rawData)
      | Some stepDataArray \<Rightarrow>
          (let rawData' = (if isCombinedData stepDataArray
                           then setProperty ''combinedData'' (Records stepDataArray) rawData
                           else rawData);
               processedData = processSteps E stepDataArray
           in (Some \<lparr>current = sr_steps processedData, timestamp = nowMs\<rparr>, rawData')))"

definition normalizeStepsMetricIOS ::
  "validator \<Rightarrow> norm_env \<Rightarrow> real \<Rightarrow> raw_payload \<Rightarrow> field_mapping \<Rightarrow> metric option" where
  "normalizeStepsMetricIOS V E nowMs rawData config =
     (case nonEmptyArray (extractDataArray V rawData (dataPath config)) of
        None \<Rightarrow> None
      | Some dataArray \<Rightarrow>
          Some \<lparr>current = sr_steps (processSteps E dataArray), timestamp = nowMs\<rparr>)"

definition normalizeStepsMetric ::
  "validator \<Rightarrow> norm_env \<Rightarrow> real \<Rightarrow> raw_payload \<Rightarrow> field_mapping \<Rightarrow> platform
     \<Rightarrow> metric option \<times> raw_payload" where
  "normalizeStepsMetric V E nowMs rawData config p =
     (case p of
        Android \<Rightarrow> normalizeStepsMetricAndroid V E nowMs rawData config
      | IOS \<Rightarrow> (normalizeStepsMetricIOS V E nowMs rawData config, rawData))"

definition normalizeCaloriesMetric ::
  "validator \<Rightarrow> norm_env \<Rightarrow> raw_payload \<Rightarrow> field_mapping \<Rightarrow> real option" where
  "normalizeCaloriesMetric V E rawData config =
     (case nonEmptyArray (extractDataArray V rawData (dataPath config)) of
        None \<Rightarrow> None
      | Some dataArray \<Rightarrow>
          (let processedData = processSteps E dataArray;
               stepCount = sr_steps processedData
           in Some (if stepCount = 0 then 0 else sr_calories processedData)))"

definition normalizeDistanceMetric ::
  "validator \<Rightarrow> norm_env \<Rightarrow> raw_payload \<Rightarrow> field_mapping \<Rightarrow> real option" where
  "normalizeDistanceMetric V E rawData config =
     (case nonEmptyArray (extractDataArray V rawData (dataPath config)) of
        None \<Rightarrow> None
      | Some dataArray \<Rightarrow> Some (sr_distance (processSteps E dataArray)))"

text \<open>
  Sleep. A session counts when its start lies in the current day (Vietnam time). The start
  is the validator's timestamp, or else the first truthy of five fields, multiplied by
  1000 when it is below the short threshold. \<open>sessionDate\<close> is the time value of the date
  built from the start: \<open>None\<close> when the start is falsy or the date is invalid. A string
  that is not scaled is parsed as a date.
\<close>

definition sessionDate :: "validator \<Rightarrow> norm_env \<Rightarrow> field_mapping \<Rightarrow> jsrecord \<Rightarrow> real option" where
  "sessionDate V E config session =
     (let t = extractTimestamp V session (timestampFields config) in
      if t \<noteq> 0 then newDate (Fin t)
      else
        (case firstTruthy session
                [''startTime'', ''time'', ''timestamp'', ''startTimeStamp'', ''startTimestamp'']
                (JNum 0) of
           JNum x \<Rightarrow>
             if x < TIMESTAMP_SECOND_TO_MS_THRESHOLD_SHORT then
               (if x = 0 then None else newDate (fmul (Fin x) (Fin 1000)))
             else newDate (Fin x)
         | JBool b \<Rightarrow> if b then newDate (Fin 1000) else None
         | JStr s \<Rightarrow>
             (case parseNumber E s of
                Some x \<Rightarrow>
                  if x < TIMESTAMP_SECOND_TO_MS_THRESHOLD_SHORT then
                    (if x = 0 then None else newDate (fmul (Fin x) (Fin 1000)))
                  else dateParse E s
              | None \<Rightarrow> dateParse E s)
         | _ \<Rightarrow> None))"

definition isCurrentDaySession :: "validator \<Rightarrow> norm_env \<Rightarrow> field_mapping \<Rightarrow> jsrecord \<Rightarrow> bool" where
  "isCurrentDaySession V E config session =
     (case sessionDate V E config session of
        None \<Rightarrow> False
      | Some date \<Rightarrow> vietnamStartOfDay E \<le> date \<and> date \<le> vietnamEndOfDay E)"

text \<open>
  One stage of one session in seconds: the validator's value, or else the session's
  minutes field times 60. A minutes field that is truthy but not numeric gives \<^verbatim>\<open>NaN\<close>,
  which then runs through the sums.
\<close>

definition stageSeconds ::
  "validator \<Rightarrow> norm_env \<Rightarrow> jsrecord \<Rightarrow> string list \<Rightarrow> string \<Rightarrow> jsnum" where
  "stageSeconds V E session secondsFields minutesField =
     (let v = extractBestValue V session secondsFields None in
      if v \<noteq> 0 then Fin v
      else
        (let m = getField session minutesField in
         if truthy m then
           (case toNumber E m of None \<Rightarrow> NaN | Some x \<Rightarrow> fmul (Fin x) (Fin 60))
         else Fin 0))"

text \<open>
  \<^verbatim>\<open>a > b\<close> on field values: two strings are compared character by character, and
  otherwise both sides are read as numbers, with \<^verbatim>\<open>NaN\<close> greater than nothing.
\<close>

fun stringGreater :: "string \<Rightarrow> string \<Rightarrow> bool" where
  "stringGreater [] t = False"
| "stringGreater (c # cs) [] = True"
| "stringGreater (c # cs) (d # ds) =
     ((of_char c :: nat) > of_char d \<or> (c = d \<and> stringGreater cs ds))"

definition jsGreaterThan :: "norm_env \<Rightarrow> jsval \<Rightarrow> jsval \<Rightarrow> bool" where
  "jsGreaterThan E a b =
     (case (a, b) of
        (JStr s, JStr t) \<Rightarrow> stringGreater s t
      | _ \<Rightarrow>
          (case (toNumber E a, toNumber E b) of
             (Some x, Some y) \<Rightarrow> x > y
           | _ \<Rightarrow> False))"

text \<open>
  The loop over the sessions of the day: the three sums and the latest end time, which is
  the field value of the session that set it.
\<close>

definition sleepStep ::
  "validator \<Rightarrow> norm_env \<Rightarrow> field_mapping \<Rightarrow> jsrecord
     \<Rightarrow> jsnum \<times> jsnum \<times> jsnum \<times> jsval
     \<Rightarrow> jsnum \<times> jsnum \<times> jsnum \<times> jsval" where
  "sleepStep V E config session acc =
     (case acc of (totalDeep, totalLight, totalRem, latestEndTime) \<Rightarrow>
        (fadd totalDeep
           (stageSeconds V E session (deepSleepFields config) ''deepSleepMinutes''),
         fadd totalLight
           (stageSeconds V E session (lightSleepFields config) ''lightSleepMinutes''),
         fadd totalRem
           (stageSeconds V E session (remSleepFields config) ''remSleepMinutes''),
         (let sessionEndTime = firstTruthy session [''endTime'', ''startTime''] (JNum 0) in
          if jsGreaterThan E sessionEndTime latestEndTime then sessionEndTime
          else latestEndTime)))"

definition sleepTotals ::
  "validator \<Rightarrow> norm_env \<Rightarrow> field_mapping \<Rightarrow> jsrecord list
     \<Rightarrow> jsnum \<times> jsnum \<times> jsnum \<times> jsval" where
  "sleepTotals V E config sessions =
     fold (sleepStep V E config) sessions (Fin 0, Fin 0, Fin 0, JNum 0)"

record sleep_data =
  totalMinutes :: jsnum
  deepSleepMinutes :: jsnum
  lightSleepMinutes :: jsnum
  remSleepMinutes :: jsnum
  totalSleepSeconds :: jsnum
  totalDeepSleepSeconds :: jsnum
  totalLightSleepSeconds :: jsnum
  totalRemSleepSeconds :: jsnum
  sleepTimestamp :: jsval

definition createEmptySleepData :: "real \<Rightarrow> sleep_data" where
  "createEmptySleepData nowMs =
     \<lparr> totalMinutes = Fin 0, deepSleepMinutes = Fin 0, lightSleepMinutes = Fin 0,
       remSleepMinutes = Fin 0, totalSleepSeconds = Fin 0, totalDeepSleepSeconds = Fin 0,
       totalLightSleepSeconds = Fin 0, totalRemSleepSeconds = Fin 0,
       sleepTimestamp = JNum nowMs \<rparr>"

text \<open>
  The aggregate built from the three sums in seconds and the latest end time. A total
  that is \<^verbatim>\<open>NaN\<close> fails both comparisons and gives \<^verbatim>\<open>null\<close> (\<open>None\<close>).
\<close>

definition sleepAggregate :: "real \<Rightarrow> jsnum \<Rightarrow> jsnum \<Rightarrow> jsnum \<Rightarrow> jsval \<Rightarrow> sleep_data option" where
  "sleepAggregate nowMs totalDeepSeconds totalLightSeconds totalRemSeconds latestEndTime =
     (let totalSeconds = fadd (fadd totalDeepSeconds totalLightSeconds) totalRemSeconds;
          minutes = jsRound (fdiv totalSeconds (Fin 60));
          stamp = (if truthy latestEndTime then latestEndTime else JNum nowMs)
      in if jsGreater minutes MAX_SLEEP_MINUTES then
           (let ratio = fdiv (Fin MAX_SLEEP_MINUTES) minutes in
            Some \<lparr> totalMinutes = Fin MAX_SLEEP_MINUTES,
                   deepSleepMinutes = jsRound (fmul (fdiv totalDeepSeconds (Fin 60)) ratio),
                   lightSleepMinutes = jsRound (fmul (fdiv totalLightSeconds (Fin 60)) ratio),
                   remSleepMinutes = jsRound (fmul (fdiv totalRemSeconds (Fin 60)) ratio),
                   totalSleepSeconds = jsRound (fmul totalSeconds ratio),
                   totalDeepSleepSeconds = totalDeepSeconds,
                   totalLightSleepSeconds = totalLightSeconds,
                   totalRemSleepSeconds = totalRemSeconds,
                   sleepTimestamp = stamp \<rparr>)
         else if jsGreater minutes 0 then
           Some \<lparr> totalMinutes = minutes,
                  deepSleepMinutes = jsRound (fdiv totalDeepSeconds (Fin 60)),
                  lightSleepMinutes = jsRound (fdiv totalLightSeconds (Fin 60)),
                  remSleepMinutes = jsRound (fdiv totalRemSeconds (Fin 60)),
                  totalSleepSeconds = totalSeconds,
                  totalDeepSleepSeconds = totalDeepSeconds,
                  totalLightSleepSeconds = totalLightSeconds,
                  totalRemSleepSeconds = totalRemSeconds,
                  sleepTimestamp = stamp \<rparr>
         else None)"

definition normalizeSleepMetric ::
  "validator \<Rightarrow> norm_env \<Rightarrow> real \<Rightarrow> raw_payload \<Rightarrow> field_mapping \<Rightarrow> sleep_data option" where
  "normalizeSleepMetric V E nowMs rawData config =
     (case nonEmptyArray (extractDataArray V rawData (dataPath config)) of
        None \<Rightarrow> Some (createEmptySleepData nowMs)
      | Some dataArray \<Rightarrow>
          (let currentDaySleepSessions = filter (isCurrentDaySession V E config) dataArray in
           if currentDaySleepSessions = [] then Some (createEmptySleepData nowMs)
           else
             (case sleepTotals V E config currentDaySleepSessions of
                (totalDeepSeconds, totalLightSeconds, totalRemSeconds, latestEndTime) \<Rightarrow>
                  sleepAggregate nowMs totalDeepSeconds totalLightSeconds totalRemSeconds
                    latestEndTime)))"

text \<open>
  Blood pressure: a forward loop over all records of the array, keeping the reading with
  the greatest raw timestamp among those whose systolic and diastolic values are both
  positive after the validator's range tests.
\<close>

definition SYSTOLIC_MIN :: real where "SYSTOLIC_MIN = 50"
definition SYSTOLIC_MAX :: real where "SYSTOLIC_MAX = 300"
definition DIASTOLIC_MIN :: real where "DIASTOLIC_MIN = 30"
definition DIASTOLIC_MAX :: real where "DIASTOLIC_MAX = 200"

definition systolicOf :: "validator \<Rightarrow> field_mapping \<Rightarrow> jsrecord \<Rightarrow> real" where
  "systolicOf V config r =
     extractBestValue V r (systolicFields config)
       (Some (\<lambda>v. v > SYSTOLIC_MIN \<and> v < SYSTOLIC_MAX))"

definition diastolicOf :: "validator \<Rightarrow> field_mapping \<Rightarrow> jsrecord \<Rightarrow> real" where
  "diastolicOf V config r =
     extractBestValue V r (diastolicFields config)
       (Some (\<lambda>v. v > DIASTOLIC_MIN \<and> v < DIASTOLIC_MAX))"

definition pressureStep ::
  "validator \<Rightarrow> field_mapping \<Rightarrow> jsrecord \<Rightarrow> real \<times> real \<times> real \<Rightarrow> real \<times> real \<times> real" where
  "pressureStep V config r best =
     (case best of (bestTimestamp, bestSystolic, bestDiastolic) \<Rightarrow>
        (let t = extractTimestamp V r (timestampFields config);
             sys = systolicOf V config r;
             dia = diastolicOf V config r
         in if sys > 0 \<and> dia > 0 \<and> t > bestTimestamp then (t, sys, dia) else best))"

record bp_reading =
  systolic :: real
  diastolic :: real
  bpTimestamp :: real

definition normalizeBloodPressureMetric ::
  "validator \<Rightarrow> raw_payload \<Rightarrow> field_mapping \<Rightarrow> bp_reading option" where
  "normalizeBloodPressureMetric V rawData config =
     (case nonEmptyArray (extractDataArray V rawData (dataPath config)) of
        None \<Rightarrow> None
      | Some dataArray \<Rightarrow>
          (case fold (pressureStep V config) dataArray (0, 0, 0) of
             (bestTimestamp, bestSystolic, bestDiastolic) \<Rightarrow>
               if bestSystolic > 0 \<and> bestDiastolic > 0
               then Some \<lparr>systolic = bestSystolic, diastolic = bestDiastolic,
                          bpTimestamp = bestTimestamp\<rparr>
               else None))"

text \<open>
  The canonical record. \<^verbatim>\<open>lastSync\<close> is the clock reading; the constant unit strings are
  left out.
\<close>

record normalized_health_data =
  heartRate :: "metric option"
  spo2 :: "metric option"
  steps :: "metric option"
  calories :: "real option"
  distance :: "real option"
  sleep :: "sleep_data option"
  bloodPressure :: "bp_reading option"
  temperature :: "metric option"
  battery :: "metric option"
  lastSync :: real
  deviceType :: string
  platform :: platform
  rawData :: "raw_payload option"

text \<open>
  \<^verbatim>\<open>normalizeHealthData\<close>. The metrics are computed in the order of the source: heart rate
  and SpO2 on the payload as given, then steps, which on Android may add the
  \<^verbatim>\<open>combinedData\<close> property, then the remaining metrics on the payload as steps left it.
  The second component of the result is the payload after the call (\<open>None\<close> for a missing
  payload). Every entry of the table has a calories and a distance mapping, so the
  fallbacks \<^verbatim>\<open>mapping.calories || mapping.steps\<close> and
  \<^verbatim>\<open>mapping.distance || mapping.steps\<close> never apply. An exception inside a metric makes
  that metric \<^verbatim>\<open>null\<close>; with the validator's lookups total, the missing-array branch
  stands for it.
\<close>

definition normalizeHealthData ::
  "validator \<Rightarrow> norm_env \<Rightarrow> real \<Rightarrow> raw_payload option \<Rightarrow> string \<Rightarrow> platform
     \<Rightarrow> normalized_health_data \<times> raw_payload option" where
  "normalizeHealthData V E nowMs payload devType p =
     (case payload of
        None \<Rightarrow>
          (\<lparr> heartRate = None, spo2 = None, steps = None, calories = None, distance = None,
             sleep = None, bloodPressure = None, temperature = None, battery = None,
             lastSync = nowMs, deviceType = devType, platform = p, rawData = None \<rparr>,
           None)
      | Some raw \<Rightarrow>
          (let baseMapping = getDeviceMapping (hostPlatform E) devType;
               mapping = applyPlatformAdjustments baseMapping p;
               hr = normalizeHeartRateMetric V E raw (m_heartRate mapping) p;
               ox = normalizeSpo2Metric V E raw (m_spo2 mapping) p;
               (st, raw') = normalizeStepsMetric V E nowMs raw (m_steps mapping) p;
               sl = normalizeSleepMetric V E nowMs raw' (m_sleep mapping);
               bp = normalizeBloodPressureMetric V raw' (m_bloodPressure mapping);
               tp = normalizeTemperatureMetric V raw' (m_temperature mapping);
               bt = normalizeBatteryMetric V nowMs raw' (m_battery mapping);
               cal = normalizeCaloriesMetric V E raw' (m_calories mapping);
               dist = normalizeDistanceMetric V E raw' (m_distance mapping)
           in (\<lparr> heartRate = hr, spo2 = ox, steps = st, calories = cal, distance = dist,
                 sleep = sl, bloodPressure = bp, temperature = tp, battery = bt,
                 lastSync = nowMs, deviceType = devType, platform = p, rawData = Some raw' \<rparr>,
               Some raw')))"

text \<open>
  A record qualifies for the blood-pressure selection when both of its values are positive
  after the range tests and its timestamp is positive.
\<close>

definition pressureQualifies :: "validator \<Rightarrow> field_mapping \<Rightarrow> jsrecord \<Rightarrow> bool" where
  "pressureQualifies V config r =
     (systolicOf V config r > 0 \<and> diastolicOf V config r > 0
      \<and> extractTimestamp V r (timestampFields config) > 0)"

text \<open>
  What the normalizer expects of \<^verbatim>\<open>extractBestValue\<close> when it passes a plausibility test:
  the result is 0 or a value that passes the test.
\<close>

definition respectsFilter :: "validator \<Rightarrow> bool" where
  "respectsFilter V = (\<forall>r fs ok. extractBestValue V r fs (Some ok) = 0
                                  \<or> ok (extractBestValue V r fs (Some ok)))"

text \<open>
  The state of the blood-pressure loop is the best of a list of records: the initial state
  if none of them qualifies, and otherwise the timestamp and values of a qualifying
  record whose timestamp is the greatest among those that qualify.
\<close>

definition pressureBest ::
  "validator \<Rightarrow> field_mapping \<Rightarrow> jsrecord list \<Rightarrow> real \<times> real \<times> real \<Rightarrow> bool" where
  "pressureBest V config rs st =
     (((\<exists>r \<in> set rs. pressureQualifies V config r) \<longrightarrow>
         (\<exists>r \<in> set rs. pressureQualifies V config r
            \<and> extractTimestamp V r (timestampFields config) = fst st
            \<and> systolicOf V config r = fst (snd st)
            \<and> diastolicOf V config r = snd (snd st))
         \<and> (\<forall>r \<in> set rs. pressureQualifies V config r
               \<longrightarrow> extractTimestamp V r (timestampFields config) \<le> fst st))
      \<and> (\<not> (\<exists>r \<in> set rs. pressureQualifies V config r) \<longrightarrow> st = (0, 0, 0)))"

text \<open>
  What the normalizer expects of the two payload-reading methods of the validator: the
  array found under a path other than \<^verbatim>\<open>combinedData\<close> does not depend on the
  \<^verbatim>\<open>combinedData\<close> property, before and after cleaning.
\<close>

definition ignoresCombinedData :: "validator \<Rightarrow> bool" where
  "ignoresCombinedData V =
     (\<forall>raw arr path. path \<noteq> ''combinedData'' \<longrightarrow>
        extractDataArray V (setProperty ''combinedData'' (Records arr) raw) path
          = extractDataArray V raw path
        \<and> extractDataArray V
              (validateAndCleanData V (setProperty ''combinedData'' (Records arr) raw)) path
            = extractDataArray V (validateAndCleanData V raw) path)"

text \<open>
  The canonical record without its clock readings: \<^verbatim>\<open>lastSync\<close> and the timestamps of the
  steps, sleep and battery slots, which are or may be \<^verbatim>\<open>Date.now()\<close>.
\<close>

definition stripClock :: "normalized_health_data \<Rightarrow> normalized_health_data" where
  "stripClock n =
     n\<lparr> lastSync := 0,
        steps := map_option (\<lambda>m. m\<lparr>timestamp := 0\<rparr>) (steps n),
        sleep := map_option (\<lambda>s. s\<lparr>sleepTimestamp := JNum 0\<rparr>) (sleep n),
        battery := map_option (\<lambda>m. m\<lparr>timestamp := 0\<rparr>) (battery n) \<rparr>"


section \<open>A validator after the specification, and sample data\<close>

text \<open>
  Modelled from the spec: the class \<^verbatim>\<open>DataValidator\<close> is not among the sources. The
  specification describes a field list as a priority order in which the first present,
  non-null field wins. \<open>firstPresent\<close> is that lookup.
\<close>

fun firstPresent :: "jsrecord \<Rightarrow> string list \<Rightarrow> jsval option" where
  "firstPresent r [] = None"
| "firstPresent r (f # fs) =
     (case getField r f of
        JUndefined \<Rightarrow> firstPresent r fs
      | JNull \<Rightarrow> firstPresent r fs
      | v \<Rightarrow> Some v)"

text \<open>
  Modelled from the spec: \<^verbatim>\<open>DataValidator.extractDataArray\<close> is missing; the specification
  says a metric is read from the array named by the mapping's data path.
\<close>

definition specExtractDataArray :: "raw_payload \<Rightarrow> string \<Rightarrow> jsrecord list option" where
  "specExtractDataArray raw path =
     (case map_of raw path of Some (Records rs) \<Rightarrow> Some rs | _ \<Rightarrow> None)"

text \<open>
  Modelled from the spec: \<^verbatim>\<open>DataValidator.extractTimestamp\<close> is missing; the timestamp is
  the first present field of the ordered timestamp fields, and 0 when there is none or it
  is not a number.
\<close>

definition specExtractTimestamp :: "jsrecord \<Rightarrow> string list \<Rightarrow> real" where
  "specExtractTimestamp r fs = (case firstPresent r fs of Some (JNum x) \<Rightarrow> x | _ \<Rightarrow> 0)"

text \<open>
  Modelled from the spec: \<^verbatim>\<open>DataValidator.extractBestValue\<close> is missing; the value is the
  first present field of the ordered value fields, kept when it passes the plausibility
  filter of the metric and 0 otherwise.
\<close>

definition specExtractBestValue :: "jsrecord \<Rightarrow> string list \<Rightarrow> (real \<Rightarrow> bool) option \<Rightarrow> real" where
  "specExtractBestValue r fs plausible =
     (case firstPresent r fs of
        Some (JNum x) \<Rightarrow>
          (case plausible of None \<Rightarrow> x | Some ok \<Rightarrow> if ok x then x else 0)
      | _ \<Rightarrow> 0)"

text \<open>
  Modelled from the spec: \<^verbatim>\<open>DataValidator.validateAndCleanData\<close> is missing and the
  specification names no cleaning step; the payload is passed on as it is.
\<close>

definition specValidator :: validator where
  "specValidator =
     \<lparr> extractDataArray = specExtractDataArray,
       extractTimestamp = specExtractTimestamp,
       extractBestValue = specExtractBestValue,
       validateAndCleanData = (\<lambda>raw. raw) \<rparr>"

text \<open>
  A sample environment. The current day runs from 1700006400000 to 1700092799999 in both
  clocks; the two estimates of the calculator are placeholders.
\<close>

definition sampleEnv :: norm_env where
  "sampleEnv =
     \<lparr> parseNumber = (\<lambda>s. None), dateParse = (\<lambda>s. None),
       calculateCaloriesFromSteps = (\<lambda>n. n / 25),
       calculateDistanceFromSteps = (\<lambda>n. n * 3 / 4),
       todayStart = 1700006400000, todayEnd = 1700092799999,
       vietnamStartOfDay = 1700006400000, vietnamEndOfDay = 1700092799999,
       hostPlatform = HostIOS \<rparr>"

text \<open>
  Scenario D: one session of the current day with 600, 700 and 200 minutes of deep, light
  and REM sleep, given in seconds.
\<close>

definition longSleepSession :: jsrecord where
  "longSleepSession =
     [(''time'', JNum 1700010000000), (''deepSleepSeconds'', JNum 36000),
      (''lightSleepSeconds'', JNum 42000), (''remSleepSeconds'', JNum 12000)]"

definition longSleepPayload :: raw_payload where
  "longSleepPayload = [(''sleep'', Records [longSleepSession])]"

text \<open>
  One session of the current day with 43230 s of deep and 43199 s of light sleep: 86429 s
  in all, which is more than 1440 minutes and less than 1440.5.
\<close>

definition roundedDownSession :: jsrecord where
  "roundedDownSession =
     [(''time'', JNum 1700010000000), (''deepSleepSeconds'', JNum 43230),
      (''lightSleepSeconds'', JNum 43199)]"

definition roundedDownPayload :: raw_payload where
  "roundedDownPayload = [(''sleep'', Records [roundedDownSession])]"

text \<open>
  The specification's reading of the scaling: the minutes of a component times 1440 over
  the total in minutes.
\<close>

definition specScaledMinutes :: "real \<Rightarrow> real \<Rightarrow> real" where
  "specScaledMinutes seconds totalSeconds = seconds / 60 * (1440 / (totalSeconds / 60))"

definition ycSleepConfig :: field_mapping where
  "ycSleepConfig = m_sleep (applyPlatformAdjustments (getDeviceMapping HostIOS ''yc'') IOS)"

text \<open>A payload whose only blood-pressure record was taken long before the sample day.\<close>

definition oldPressureRecord :: jsrecord where
  "oldPressureRecord =
     [(''time'', JNum 1600000000000), (''systolic'', JNum 120), (''diastolic'', JNum 80)]"

definition oldPressurePayload :: raw_payload where
  "oldPressurePayload = [(''bloodPressure'', Records [oldPressureRecord])]"

definition ycPressureConfig :: field_mapping where
  "ycPressureConfig =
     m_bloodPressure (applyPlatformAdjustments (getDeviceMapping HostIOS ''yc'') IOS)"

text \<open>
  Scenario A: a step array with one record of value 0 and a calorie array with one record
  of value 500, both of the current day.
\<close>

definition zeroStepRecord :: jsrecord where
  "zeroStepRecord = [(''value'', JNum 0), (''time'', JNum 1700010000000)]"

definition calorieRecord :: jsrecord where
  "calorieRecord = [(''value'', JNum 500), (''time'', JNum 1700010000000)]"

definition scenarioAPayload :: raw_payload where
  "scenarioAPayload =
     [(''steps'', Records [zeroStepRecord]), (''calories'', Records [calorieRecord])]"

text \<open>
  A step record of the current day that reports less than half a step and 500 calories.
\<close>

definition glitchRecord :: jsrecord where
  "glitchRecord =
     [(''value'', JNum (2 / 5)), (''calories'', JNum 500), (''time'', JNum 1700010000000)]"

definition glitchPayload :: raw_payload where
  "glitchPayload = [(''steps'', Records [glitchRecord])]"

definition rwStepsConfig :: field_mapping where
  "rwStepsConfig = m_steps (applyPlatformAdjustments (getDeviceMapping HostIOS ''rw'') IOS)"

definition rwCaloriesConfig :: field_mapping where
  "rwCaloriesConfig = m_calories (applyPlatformAdjustments (getDeviceMapping HostIOS ''rw'') IOS)"

text \<open>
  A step array in the shape of the combined stream: on Android the steps metric stores it
  in the payload under \<^verbatim>\<open>combinedData\<close>.
\<close>

definition combinedRecord :: jsrecord where
  "combinedRecord = [(''stepValue'', JNum 12), (''time'', JNum 1700010000000)]"

definition combinedPayload :: raw_payload where
  "combinedPayload = [(''steps'', Records [combinedRecord])]"


section \<open>Error counter and cooldown: results\<close>

lemma timeout_step:
  "classifiedTimeout m \<Longrightarrow>
   consecutiveErrorCount (fst (deviceSyncFailed site m now s)) =
     (if consecutiveErrorCount s = 0 then 1 else consecutiveErrorCount s)"
  by (auto simp: classifiedTimeout_def deviceSyncFailed_def handleDeviceSyncError_def Let_def
           split: prod.splits)

lemma three_timeouts_below_max:
  assumes "consecutiveErrorCount s = 0"
    and "classifiedTimeout m1" and "classifiedTimeout m2" and "classifiedTimeout m3"
  shows "consecutiveErrorCount
           (deviceSyncFailures [(site1, m1, t1), (site2, m2, t2), (site3, m3, t3)] s)
         < MAX_CONSECUTIVE_ERRORS"
  using assms by (simp add: timeout_step MAX_CONSECUTIVE_ERRORS_def)

lemma cooldown_skips_tick:
  assumes "MAX_CONSECUTIVE_ERRORS \<le> consecutiveErrorCount s"
    and "lastErrorTime s = Some t" and "now - t < ERROR_COOLDOWN_MS"
  shows "fst (performSafeSync li lo False now s) \<noteq> Launched"
    and "snd (performSafeSync li lo False now s) = s"
  using assms by (auto simp: performSafeSync_def Let_def)

lemma success_resets:
  "\<not> shouldAbort s \<Longrightarrow> consecutiveErrorCount (fst (deviceSyncFetched None now s)) = 0"
  "\<not> shouldAbort s \<Longrightarrow> lastErrorTime (fst (deviceSyncFetched None now s)) = None"
  "consecutiveErrorCount (fst (osSyncReturned None now s)) = 0"
  "lastErrorTime (fst (osSyncReturned None now s)) = None"
  by (simp_all add: deviceSyncFetched_def osSyncReturned_def)

lemma no_cooldown_below_max:
  "consecutiveErrorCount s < MAX_CONSECUTIVE_ERRORS \<Longrightarrow>
   fst (performSafeSync li lo manual now s) \<noteq> InCooldown"
  by (auto simp: performSafeSync_def resume_def Let_def)

lemma timeoutMessage_classified: "classifiedTimeout timeoutMessage"
  by code_simp

text \<open>
  A fetch failure whose message is classified as bluetooth stops at the inner \<^verbatim>\<open>catch\<close>:
  the counter keeps its value even when the message is also classified as locked. The
  same message thrown before the fetch reaches the handler.
\<close>

lemma bluetooth_fetch_failure_swallowed:
  "consecutiveErrorCount (fst (deviceSyncFailed DuringFetch ''Bluetooth LOCKED'' 1000 idleState)) = 0
   \<and> consecutiveErrorCount (fst (deviceSyncFailed BeforeFetch ''Bluetooth LOCKED'' 1000 idleState))
       = 3"
  by code_simp

text \<open>
  Claim C4, as stated, fails. Starting from a zero counter, three device-sync failures
  carrying the timeout message of the health fetch leave the counter at 1, and the next
  automatic tick, one second after the last error, is launched rather than skipped.
\<close>

theorem three_timeouts_no_cooldown:
  "classifiedTimeout timeoutMessage
   \<and> consecutiveErrorCount
        (deviceSyncFailures
           [(DuringFetch, timeoutMessage, 1000), (DuringFetch, timeoutMessage, 2000),
            (DuringFetch, timeoutMessage, 3000)] idleState) = 1
   \<and> fst (performSafeSync True False False 4000
        (deviceSyncFailures
           [(DuringFetch, timeoutMessage, 1000), (DuringFetch, timeoutMessage, 2000),
            (DuringFetch, timeoutMessage, 3000)] idleState))
      = Launched"
  by code_simp

text \<open>
  Claim C4, amended. Starting from a zero error count, three consecutive device-sync
  failures that reach the timeout branch leave the counter below
  \<open>MAX_CONSECUTIVE_ERRORS\<close>, and the cooldown gate does not skip the next non-manual tick.
  While the counter is at \<open>MAX_CONSECUTIVE_ERRORS\<close> or above, a non-manual tick less than
  five minutes after the last error launches nothing and leaves the state as it is. A
  device fetch that returns and is not dropped by a pause or the exclusion window, and an
  OS sync that returns, each with a completion callback that returns, reset the counter
  to 0 and clear the last error time.
\<close>

theorem error_counter_and_cooldown:
  "(consecutiveErrorCount s = 0 \<and> classifiedTimeout m1 \<and> classifiedTimeout m2
        \<and> classifiedTimeout m3
      \<longrightarrow> consecutiveErrorCount
            (deviceSyncFailures [(site1, m1, t1), (site2, m2, t2), (site3, m3, t3)] s)
            < MAX_CONSECUTIVE_ERRORS
          \<and> fst (performSafeSync li lo False now
                 (deviceSyncFailures [(site1, m1, t1), (site2, m2, t2), (site3, m3, t3)] s))
              \<noteq> InCooldown)
   \<and> (MAX_CONSECUTIVE_ERRORS \<le> consecutiveErrorCount s \<and> lastErrorTime s = Some t
        \<and> now - t < ERROR_COOLDOWN_MS
      \<longrightarrow> fst (performSafeSync li lo False now s) \<noteq> Launched
          \<and> snd (performSafeSync li lo False now s) = s)
   \<and> (\<not> shouldAbort s
      \<longrightarrow> consecutiveErrorCount (fst (deviceSyncFetched None now s)) = 0
          \<and> lastErrorTime (fst (deviceSyncFetched None now s)) = None)
   \<and> consecutiveErrorCount (fst (osSyncReturned None now s)) = 0
   \<and> lastErrorTime (fst (osSyncReturned None now s)) = None"
proof (intro conjI impI)
  assume a: "consecutiveErrorCount s = 0 \<and> classifiedTimeout m1 \<and> classifiedTimeout m2
             \<and> classifiedTimeout m3"
  then show b: "consecutiveErrorCount
            (deviceSyncFailures [(site1, m1, t1), (site2, m2, t2), (site3, m3, t3)] s)
            < MAX_CONSECUTIVE_ERRORS"
    by (simp only: three_timeouts_below_max)
  then show "fst (performSafeSync li lo False now
                 (deviceSyncFailures [(site1, m1, t1), (site2, m2, t2), (site3, m3, t3)] s))
              \<noteq> InCooldown"
    by (rule no_cooldown_below_max)
next
  assume a: "MAX_CONSECUTIVE_ERRORS \<le> consecutiveErrorCount s \<and> lastErrorTime s = Some t
               \<and> now - t < ERROR_COOLDOWN_MS"
  then show "fst (performSafeSync li lo False now s) \<noteq> Launched"
    by (simp add: cooldown_skips_tick)
  from a show "snd (performSafeSync li lo False now s) = s"
    by (simp add: cooldown_skips_tick)
next
  assume "\<not> shouldAbort s"
  then show "consecutiveErrorCount (fst (deviceSyncFetched None now s)) = 0"
    and "lastErrorTime (fst (deviceSyncFetched None now s)) = None"
    by (simp_all add: success_resets)
next
  show "consecutiveErrorCount (fst (osSyncReturned None now s)) = 0"
    and "lastErrorTime (fst (osSyncReturned None now s)) = None"
    by (simp_all add: success_resets)
qed

lemma cooldownState_facts:
  "MAX_CONSECUTIVE_ERRORS \<le> consecutiveErrorCount cooldownState
   \<and> lastErrorTime cooldownState = Some 1000 \<and> 2000 - 1000 < ERROR_COOLDOWN_MS"
  "\<not> shouldAbort cooldownState"
  by (simp_all add: cooldownState_def idleState_def MAX_CONSECUTIVE_ERRORS_def
        ERROR_COOLDOWN_MS_def shouldAbort_def)

theorem error_counter_and_cooldown_witness:
  "consecutiveErrorCount
     (deviceSyncFailures
        [(DuringFetch, timeoutMessage, 1000), (DuringFetch, timeoutMessage, 2000),
         (BeforeFetch, timeoutMessage, 3000)] idleState)
     < MAX_CONSECUTIVE_ERRORS
   \<and> fst (performSafeSync True False False 4000
        (deviceSyncFailures
           [(DuringFetch, timeoutMessage, 1000), (DuringFetch, timeoutMessage, 2000),
            (BeforeFetch, timeoutMessage, 3000)] idleState))
      \<noteq> InCooldown
   \<and> fst (performSafeSync True False False 2000 cooldownState) \<noteq> Launched
   \<and> snd (performSafeSync True False False 2000 cooldownState) = cooldownState
   \<and> consecutiveErrorCount (fst (deviceSyncFetched None 5000 cooldownState)) = 0
   \<and> lastErrorTime (fst (deviceSyncFetched None 5000 cooldownState)) = None"
proof -
  have a1: "consecutiveErrorCount idleState = 0 \<and> classifiedTimeout timeoutMessage
            \<and> classifiedTimeout timeoutMessage \<and> classifiedTimeout timeoutMessage"
    by (simp add: timeoutMessage_classified idleState_def)
  note A = error_counter_and_cooldown
             [where s = idleState and ?m1.0 = timeoutMessage and ?m2.0 = timeoutMessage
                and ?m3.0 = timeoutMessage and ?site1.0 = DuringFetch
                and ?site2.0 = DuringFetch and ?site3.0 = BeforeFetch
                and ?t1.0 = 1000 and ?t2.0 = 2000 and ?t3.0 = 3000
                and now = 4000 and t = 0 and li = True and lo = False]
  note B = error_counter_and_cooldown
             [where s = cooldownState and ?m1.0 = timeoutMessage and ?m2.0 = timeoutMessage
                and ?m3.0 = timeoutMessage and ?site1.0 = DuringFetch
                and ?site2.0 = DuringFetch and ?site3.0 = BeforeFetch
                and ?t1.0 = 1000 and ?t2.0 = 2000 and ?t3.0 = 3000
                and now = 2000 and t = 1000 and li = True and lo = False]
  note C = error_counter_and_cooldown
             [where s = cooldownState and ?m1.0 = timeoutMessage and ?m2.0 = timeoutMessage
                and ?m3.0 = timeoutMessage and ?site1.0 = DuringFetch
                and ?site2.0 = DuringFetch and ?site3.0 = BeforeFetch
                and ?t1.0 = 1000 and ?t2.0 = 2000 and ?t3.0 = 3000
                and now = 5000 and t = 1000 and li = True and lo = False]
  from A a1 B cooldownState_facts C show ?thesis
    by blast
qed


section \<open>Health retrieval protocol: results\<close>

lemma fetchLoop_attempts_bound:
  "attemptsMade (snd (fetchLoop env attempt lastError)) \<le> DATA_RETRY_ATTEMPTS - attempt"
proof (induction env attempt lastError rule: fetchLoop.induct)
  case (1 env attempt lastError)
  show ?case
  proof (cases "attempt < DATA_RETRY_ATTEMPTS")
    case False
    then show ?thesis
      by (subst fetchLoop.simps) (simp add: attemptsMade_def)
  next
    case True
    show ?thesis
    proof (cases "env attempt")
      case (Succeeded r)
      with True show ?thesis
        by (subst fetchLoop.simps) (simp add: attemptsMade_def)
    next
      case (Failed err)
      show ?thesis
      proof (cases "mentionsLocked (thrownMessage err) \<or> mentionsEmptyData (thrownMessage err)
                    \<or> attempt = DATA_RETRY_ATTEMPTS - 1")
        case True
        with \<open>attempt < DATA_RETRY_ATTEMPTS\<close> Failed show ?thesis
          by (subst fetchLoop.simps) (auto simp: attemptsMade_def Let_def)
      next
        case False
        from "1.IH"[OF True Failed refl] False
        have ih: "attemptsMade (snd (fetchLoop env (attempt + 1) err))
                    \<le> DATA_RETRY_ATTEMPTS - (attempt + 1)"
          by simp
        from True Failed False ih show ?thesis
          by (subst fetchLoop.simps) (auto simp: attemptsMade_def Let_def split: prod.splits)
      qed
    qed
  qed
qed

lemma fetchLoop_terminal_failure:
  assumes "attempt < DATA_RETRY_ATTEMPTS" and "env attempt = Failed err"
    and "mentionsLocked (thrownMessage err) \<or> mentionsEmptyData (thrownMessage err)"
  shows "snd (fetchLoop env attempt lastError) = [Attempt attempt]"
    and "\<exists>e. fst (fetchLoop env attempt lastError) = Inl e"
  using assms by (subst fetchLoop.simps, auto simp: Let_def)+

lemma fetchLoop_recovery:
  assumes "attempt + 1 < DATA_RETRY_ATTEMPTS" and "env attempt = Failed err"
    and "\<not> mentionsLocked (thrownMessage err)" and "\<not> mentionsEmptyData (thrownMessage err)"
  shows "fetchLoop env attempt lastError =
           (fst (fetchLoop env (attempt + 1) err),
            [Attempt attempt, Disconnect, Wait RECOVERY_DELAY_MS, Reconnect,
             Wait (RECOVERY_DELAY_MS * (attempt + 1))]
            @ snd (fetchLoop env (attempt + 1) err))"
  using assms
  by (subst fetchLoop.simps) (simp add: DATA_RETRY_ATTEMPTS_def Let_def split: prod.splits)

lemma fetchLoop_starts_with_attempt:
  assumes "attempt < DATA_RETRY_ATTEMPTS"
  shows "\<exists>rest. snd (fetchLoop env attempt lastError) = Attempt attempt # rest"
  using assms
  by (subst fetchLoop.simps)
     (auto simp: Let_def split: attempt_outcome.splits prod.splits)

lemma fetchLoop_last_failure:
  assumes "attempt + 1 = DATA_RETRY_ATTEMPTS" and "env attempt = Failed err"
    and "\<not> mentionsLocked (thrownMessage err)" and "\<not> mentionsEmptyData (thrownMessage err)"
  shows "fetchLoop env attempt lastError = (Inl (throwAfterLoop err), [Attempt attempt])"
  using assms by (subst fetchLoop.simps) (simp add: DATA_RETRY_ATTEMPTS_def Let_def)

lemma timeoutMessage_other: "\<not> mentionsLocked timeoutMessage \<and> \<not> mentionsEmptyData timeoutMessage"
  by code_simp

lemma timeoutError_other:
  "\<not> mentionsLocked (thrownMessage timeoutError) \<and> \<not> mentionsEmptyData (thrownMessage timeoutError)"
  by (simp add: timeoutError_def timeoutMessage_other)

lemma emptyDataError_empty: "mentionsEmptyData (thrownMessage emptyDataError)"
  by code_simp

lemma undefined_other:
  "\<not> mentionsLocked ''undefined'' \<and> \<not> mentionsEmptyData ''undefined''"
  by code_simp

text \<open>
  When every pass rejects with \<^verbatim>\<open>undefined\<close>, the value thrown in the end is the UNKNOWN
  error built after the loop.
\<close>

lemma undefined_rejections_end_unknown:
  "fetchHealthDataWithRetry alwaysUndefined =
     (Inl (ErrorObject ''[AutoDeviceSync:UNKNOWN] Unable to complete health data sync''),
      [Attempt 0, Disconnect, Wait 2000, Reconnect, Wait 2000,
       Attempt 1, Disconnect, Wait 2000, Reconnect, Wait 4000,
       Attempt 2])"
  by (simp add: fetchHealthDataWithRetry_def fetchLoop.simps alwaysUndefined_def
        undefined_other DATA_RETRY_ATTEMPTS_def RECOVERY_DELAY_MS_def createSyncError_def
        Let_def)

text \<open>
  Claim C3, as stated, fails in its last clause. When all three passes time out, the
  first two failures are each followed by recovery and a wait, but the third failure
  is followed by nothing: \<open>Attempt 2\<close> is the last event of the trace.
\<close>

theorem third_failure_without_recovery:
  "\<not> mentionsLocked (thrownMessage timeoutError)
   \<and> \<not> mentionsEmptyData (thrownMessage timeoutError)
   \<and> fetchHealthDataWithRetry alwaysTimeout =
       (Inl timeoutError,
        [Attempt 0, Disconnect, Wait 2000, Reconnect, Wait 2000,
         Attempt 1, Disconnect, Wait 2000, Reconnect, Wait 4000,
         Attempt 2])"
  by (simp add: fetchHealthDataWithRetry_def fetchLoop.simps alwaysTimeout_def
        timeoutError_other DATA_RETRY_ATTEMPTS_def RECOVERY_DELAY_MS_def)
     (simp add: timeoutError_def)

text \<open>
  Claim C3, amended. The protocol makes at most 3 passes. A failure whose message is
  classified as locked or as empty data ends the loop in the pass where it occurs, with
  an error and no further pass. Any other failure in the first or second pass is
  followed by disconnect, a wait of \<open>RECOVERY_DELAY_MS\<close>, reconnect and a wait of
  \<open>RECOVERY_DELAY_MS\<close> times the number of the pass counted from one, and then by the next
  pass; any other failure in the third pass is followed by no recovery and no further
  pass.
\<close>

theorem retrieval_retry_protocol:
  "attemptsMade (snd (fetchHealthDataWithRetry env)) \<le> 3
   \<and> (attempt < DATA_RETRY_ATTEMPTS \<and> env attempt = Failed err
        \<and> (mentionsLocked (thrownMessage err) \<or> mentionsEmptyData (thrownMessage err))
      \<longrightarrow> snd (fetchLoop env attempt lastError) = [Attempt attempt]
          \<and> (\<exists>e. fst (fetchLoop env attempt lastError) = Inl e))
   \<and> (attempt + 1 < DATA_RETRY_ATTEMPTS \<and> env attempt = Failed err
        \<and> \<not> mentionsLocked (thrownMessage err) \<and> \<not> mentionsEmptyData (thrownMessage err)
      \<longrightarrow> fetchLoop env attempt lastError =
            (fst (fetchLoop env (attempt + 1) err),
             [Attempt attempt, Disconnect, Wait RECOVERY_DELAY_MS, Reconnect,
              Wait (RECOVERY_DELAY_MS * (attempt + 1))]
             @ snd (fetchLoop env (attempt + 1) err))
          \<and> (\<exists>rest. snd (fetchLoop env (attempt + 1) err) = Attempt (attempt + 1) # rest))
   \<and> (attempt + 1 = DATA_RETRY_ATTEMPTS \<and> env attempt = Failed err
        \<and> \<not> mentionsLocked (thrownMessage err) \<and> \<not> mentionsEmptyData (thrownMessage err)
      \<longrightarrow> snd (fetchLoop env attempt lastError) = [Attempt attempt])"
proof (intro conjI impI)
  show "attemptsMade (snd (fetchHealthDataWithRetry env)) \<le> 3"
    using fetchLoop_attempts_bound [of env 0 NullValue]
    by (simp add: fetchHealthDataWithRetry_def DATA_RETRY_ATTEMPTS_def)
next
  assume a: "attempt < DATA_RETRY_ATTEMPTS \<and> env attempt = Failed err
             \<and> (mentionsLocked (thrownMessage err) \<or> mentionsEmptyData (thrownMessage err))"
  then show "snd (fetchLoop env attempt lastError) = [Attempt attempt]"
    by (simp add: fetchLoop_terminal_failure(1))
  from a show "\<exists>e. fst (fetchLoop env attempt lastError) = Inl e"
    by (simp add: fetchLoop_terminal_failure(2))
next
  assume a: "attempt + 1 < DATA_RETRY_ATTEMPTS \<and> env attempt = Failed err
          \<and> \<not> mentionsLocked (thrownMessage err) \<and> \<not> mentionsEmptyData (thrownMessage err)"
  then show "fetchLoop env attempt lastError =
            (fst (fetchLoop env (attempt + 1) err),
             [Attempt attempt, Disconnect, Wait RECOVERY_DELAY_MS, Reconnect,
              Wait (RECOVERY_DELAY_MS * (attempt + 1))]
             @ snd (fetchLoop env (attempt + 1) err))"
    by (simp add: fetchLoop_recovery)
  from a show "\<exists>rest. snd (fetchLoop env (attempt + 1) err) = Attempt (attempt + 1) # rest"
    by (simp add: fetchLoop_starts_with_attempt)
next
  assume "attempt + 1 = DATA_RETRY_ATTEMPTS \<and> env attempt = Failed err
          \<and> \<not> mentionsLocked (thrownMessage err) \<and> \<not> mentionsEmptyData (thrownMessage err)"
  then show "snd (fetchLoop env attempt lastError) = [Attempt attempt]"
    by (simp add: fetchLoop_last_failure)
qed

theorem retrieval_retry_protocol_witness:
  "snd (fetchLoop alwaysEmpty 0 NullValue) = [Attempt 0]
   \<and> (\<exists>e. fst (fetchLoop alwaysEmpty 0 NullValue) = Inl e)
   \<and> fetchLoop alwaysTimeout 0 NullValue =
       (fst (fetchLoop alwaysTimeout (0 + 1) timeoutError),
        [Attempt 0, Disconnect, Wait RECOVERY_DELAY_MS, Reconnect,
         Wait (RECOVERY_DELAY_MS * (0 + 1))]
        @ snd (fetchLoop alwaysTimeout (0 + 1) timeoutError))
   \<and> (\<exists>rest. snd (fetchLoop alwaysTimeout (0 + 1) timeoutError) = Attempt (0 + 1) # rest)
   \<and> snd (fetchLoop alwaysUndefined 2 UndefinedValue) = [Attempt 2]"
proof -
  have a: "(0::nat) < DATA_RETRY_ATTEMPTS \<and> alwaysEmpty 0 = Failed emptyDataError
           \<and> (mentionsLocked (thrownMessage emptyDataError)
              \<or> mentionsEmptyData (thrownMessage emptyDataError))"
    by (simp add: DATA_RETRY_ATTEMPTS_def alwaysEmpty_def emptyDataError_empty)
  have b: "(0::nat) + 1 < DATA_RETRY_ATTEMPTS \<and> alwaysTimeout 0 = Failed timeoutError
           \<and> \<not> mentionsLocked (thrownMessage timeoutError)
           \<and> \<not> mentionsEmptyData (thrownMessage timeoutError)"
    by (simp add: DATA_RETRY_ATTEMPTS_def alwaysTimeout_def timeoutError_other)
  have c: "(2::nat) + 1 = DATA_RETRY_ATTEMPTS \<and> alwaysUndefined 2 = Failed UndefinedValue
           \<and> \<not> mentionsLocked (thrownMessage UndefinedValue)
           \<and> \<not> mentionsEmptyData (thrownMessage UndefinedValue)"
    by (simp add: DATA_RETRY_ATTEMPTS_def alwaysUndefined_def undefined_other)
  note A = retrieval_retry_protocol
             [where env = alwaysEmpty and attempt = 0 and err = emptyDataError
                and lastError = NullValue]
  note B = retrieval_retry_protocol
             [where env = alwaysTimeout and attempt = 0 and err = timeoutError
                and lastError = NullValue]
  note C = retrieval_retry_protocol
             [where env = alwaysUndefined and attempt = 2 and err = UndefinedValue
                and lastError = UndefinedValue]
  from A a B b C c show ?thesis
    by blast
qed


section \<open>Device scanner: results\<close>

lemma findIndex_range: "- 1 \<le> findIndex P xs \<and> findIndex P xs < int (length xs)"
  by (induction xs) (auto simp: Let_def)

lemma findIndex_eq:
  "findIndex P xs = int i \<longleftrightarrow> i < length xs \<and> P (xs ! i) \<and> (\<forall>j<i. \<not> P (xs ! j))"
proof (induction xs arbitrary: i)
  case Nil
  then show ?case by simp
next
  case (Cons x xs)
  show ?case
  proof (cases "P x")
    case True
    then show ?thesis by (cases i) auto
  next
    case False
    show ?thesis
    proof (cases i)
      case 0
      with False findIndex_range [of P xs] show ?thesis by (auto simp: Let_def)
    next
      case (Suc i')
      have "findIndex P (x # xs) = int (Suc i') \<longleftrightarrow> findIndex P xs = int i'"
        using False findIndex_range [of P xs] by (auto simp: Let_def)
      also have "\<dots> \<longleftrightarrow> i' < length xs \<and> P (xs ! i') \<and> (\<forall>j<i'. \<not> P (xs ! j))"
        by (rule Cons.IH)
      also have "\<dots> \<longleftrightarrow> Suc i' < length (x # xs) \<and> P ((x # xs) ! Suc i')
                        \<and> (\<forall>j<Suc i'. \<not> P ((x # xs) ! j))"
        using False by (auto simp: less_Suc_eq_0_disj)
      finally show ?thesis using Suc by simp
    qed
  qed
qed

lemma keep_iff:
  "i < length arr \<Longrightarrow>
   int i = findIndex (\<lambda>x. uuid x = uuid (arr ! i)) arr
     \<longleftrightarrow> (\<forall>j<i. uuid (arr ! j) \<noteq> uuid (arr ! i))"
  using findIndex_eq [of "\<lambda>x. uuid x = uuid (arr ! i)" arr i] by auto

lemma dedupe_member:
  "d \<in> set (dedupeByUuid arr) \<longleftrightarrow>
     (\<exists>i<length arr. arr ! i = d \<and> (\<forall>j<i. uuid (arr ! j) \<noteq> uuid d))"
proof
  assume "d \<in> set (dedupeByUuid arr)"
  then obtain i where i: "i < length arr" "d = arr ! i"
    and k: "int i = findIndex (\<lambda>x. uuid x = uuid (arr ! i)) arr"
    by (auto simp: dedupeByUuid_def)
  from k i(1) have "\<forall>j<i. uuid (arr ! j) \<noteq> uuid (arr ! i)"
    by (simp add: keep_iff)
  with i show "\<exists>i<length arr. arr ! i = d \<and> (\<forall>j<i. uuid (arr ! j) \<noteq> uuid d)"
    by auto
next
  assume "\<exists>i<length arr. arr ! i = d \<and> (\<forall>j<i. uuid (arr ! j) \<noteq> uuid d)"
  then obtain i where i: "i < length arr" "arr ! i = d"
    and f: "\<forall>j<i. uuid (arr ! j) \<noteq> uuid (arr ! i)"
    by auto
  from f i(1) have "int i = findIndex (\<lambda>x. uuid x = uuid (arr ! i)) arr"
    by (simp add: keep_iff)
  with i have "i \<in> set (filter (\<lambda>i. int i = findIndex (\<lambda>x. uuid x = uuid (arr ! i)) arr)
                          [0..<length arr])"
    by simp
  then have "arr ! i \<in> set (dedupeByUuid arr)"
    unfolding dedupeByUuid_def by (metis (no_types, lifting) image_eqI set_map)
  with i show "d \<in> set (dedupeByUuid arr)" by simp
qed

lemma dedupe_distinct: "distinct (map uuid (dedupeByUuid arr))"
proof -
  let ?keep = "\<lambda>i. int i = findIndex (\<lambda>x. uuid x = uuid (arr ! i)) arr"
  let ?is = "filter ?keep [0..<length arr]"
  have "inj_on (\<lambda>i. uuid (arr ! i)) (set ?is)"
  proof (rule inj_onI)
    fix i j
    assume i: "i \<in> set ?is" and j: "j \<in> set ?is" and eq: "uuid (arr ! i) = uuid (arr ! j)"
    from i have fi: "\<forall>k<i. uuid (arr ! k) \<noteq> uuid (arr ! i)"
      using findIndex_eq [of "\<lambda>x. uuid x = uuid (arr ! i)" arr i] by auto
    from j have fj: "\<forall>k<j. uuid (arr ! k) \<noteq> uuid (arr ! j)"
      using findIndex_eq [of "\<lambda>x. uuid x = uuid (arr ! j)" arr j] by auto
    show "i = j"
    proof (rule ccontr)
      assume "i \<noteq> j"
      then consider "i < j" | "j < i" by linarith
      then show False
      proof cases
        case 1
        with fj eq show False by auto
      next
        case 2
        with fi eq show False by auto
      qed
    qed
  qed
  moreover have "distinct ?is" by simp
  ultimately have "distinct (map (\<lambda>i. uuid (arr ! i)) ?is)"
    by (simp add: distinct_map)
  then show ?thesis by (simp add: dedupeByUuid_def comp_def)
qed

lemma dedupe_empty: "dedupeByUuid arr = [] \<longleftrightarrow> arr = []"
proof
  assume e: "dedupeByUuid arr = []"
  show "arr = []"
  proof (rule ccontr)
    assume "arr \<noteq> []"
    then have "arr ! 0 \<in> set (dedupeByUuid arr)"
      by (subst dedupe_member) (rule exI [of _ 0], simp)
    with e show False by simp
  qed
next
  assume "arr = []"
  then show "dedupeByUuid arr = []" by (simp add: dedupeByUuid_def)
qed

lemma performScan_last_pass:
  "attempt + 1 \<ge> MAX_SCAN_RETRIES \<Longrightarrow>
   performScan env attempt =
     (case env attempt of
        PassAborted \<Rightarrow> ([], [])
      | Discovered ds \<Rightarrow> (dedupeByUuid (map normalizeDevice ds), [Discovery attempt]))"
  by (subst performScan.simps) (simp split: pass_outcome.splits)

lemma performScan_found:
  "env attempt = Discovered ds \<Longrightarrow> ds \<noteq> [] \<Longrightarrow>
   performScan env attempt = (dedupeByUuid (map normalizeDevice ds), [Discovery attempt])"
  by (subst performScan.simps) (simp add: dedupe_empty)

lemma performScan_retry:
  "env 0 = Discovered [] \<Longrightarrow>
   performScan env 0 =
     (fst (performScan env 1), [Discovery 0, WaitMs 500] @ snd (performScan env 1))"
  by (subst performScan.simps)
     (simp add: dedupe_empty MAX_SCAN_RETRIES_def split: prod.splits)

lemma performScan_second_pass_calls: "discoveryCalls (snd (performScan env 1)) \<le> 1"
  by (simp add: performScan_last_pass MAX_SCAN_RETRIES_def discoveryCalls_def
           split: pass_outcome.splits)

lemma performScan_calls: "discoveryCalls (snd (performScan env 0)) \<le> 2"
proof (cases "env 0")
  case PassAborted
  then show ?thesis
    by (subst performScan.simps) (simp add: discoveryCalls_def)
next
  case (Discovered ds)
  show ?thesis
  proof (cases "ds = []")
    case True
    with Discovered performScan_second_pass_calls [of env] show ?thesis
      by (simp add: performScan_retry discoveryCalls_def)
  next
    case False
    with Discovered show ?thesis
      by (simp add: performScan_found discoveryCalls_def)
  qed
qed

text \<open>
  Claim C6, as stated, fails in its retry count. When every discovery call finds zero
  devices the scan makes the call twice, the first call and one retry 500 ms later, and
  then gives up; there is no second retry.
\<close>

theorem one_retry_only:
  "performScan noDevices 0 = ([], [Discovery 0, WaitMs 500, Discovery 1])
   \<and> discoveryCalls (snd (performScan noDevices 0)) = 2"
  by (simp add: performScan.simps noDevices_def dedupe_empty MAX_SCAN_RETRIES_def
        discoveryCalls_def)

text \<open>
  Claim C6, amended. A scan makes at most two discovery calls: when the first pass finds
  zero devices the call is repeated once, and the second pass is final whatever it
  finds. The devices of a pass that finds some are returned after normalizing the
  identifier (the \<open>uuid\<close> key takes the \<open>id\<close> field when it is missing or empty) and
  keeping, for each uuid, its first occurrence only.
\<close>

theorem scan_retry_and_dedupe:
  "discoveryCalls (snd (performScan env 0)) \<le> 2
   \<and> (env 0 = Discovered []
      \<longrightarrow> performScan env 0 =
            (fst (performScan env 1), [Discovery 0, WaitMs 500] @ snd (performScan env 1))
          \<and> discoveryCalls (snd (performScan env 1)) \<le> 1)
   \<and> (env attempt = Discovered ds \<and> ds \<noteq> []
      \<longrightarrow> performScan env attempt = (dedupeByUuid (map normalizeDevice ds), [Discovery attempt]))
   \<and> distinct (map uuid (dedupeByUuid (map normalizeDevice ds)))
   \<and> (d \<in> set (dedupeByUuid arr)
        \<longleftrightarrow> (\<exists>i<length arr. arr ! i = d \<and> (\<forall>j<i. uuid (arr ! j) \<noteq> uuid d)))
   \<and> uuid (normalizeDevice d) = (if truthyStr (uuid d) then uuid d else dev_id d)"
proof (intro conjI impI)
  show "discoveryCalls (snd (performScan env 0)) \<le> 2"
    by (rule performScan_calls)
next
  assume "env 0 = Discovered []"
  then show "performScan env 0 =
               (fst (performScan env 1), [Discovery 0, WaitMs 500] @ snd (performScan env 1))"
    by (rule performScan_retry)
next
  show "discoveryCalls (snd (performScan env 1)) \<le> 1"
    by (rule performScan_second_pass_calls)
next
  assume "env attempt = Discovered ds \<and> ds \<noteq> []"
  then show "performScan env attempt
               = (dedupeByUuid (map normalizeDevice ds), [Discovery attempt])"
    by (simp add: performScan_found)
next
  show "distinct (map uuid (dedupeByUuid (map normalizeDevice ds)))"
    by (rule dedupe_distinct)
next
  show "d \<in> set (dedupeByUuid arr)
          \<longleftrightarrow> (\<exists>i<length arr. arr ! i = d \<and> (\<forall>j<i. uuid (arr ! j) \<noteq> uuid d))"
    by (rule dedupe_member)
next
  show "uuid (normalizeDevice d) = (if truthyStr (uuid d) then uuid d else dev_id d)"
    by (simp add: normalizeDevice_def orElse_def)
qed

theorem scan_retry_and_dedupe_witness:
  "performScan noDevices 0 =
     (fst (performScan noDevices 1), [Discovery 0, WaitMs 500] @ snd (performScan noDevices 1))
   \<and> performScan twoRings 0 = (dedupeByUuid (map normalizeDevice [ringA, ringB]), [Discovery 0])
   \<and> normalizeDevice ringA \<in> set (dedupeByUuid (map normalizeDevice [ringA, ringB]))"
proof -
  let ?arr = "map normalizeDevice [ringA, ringB]"
  have a: "noDevices 0 = Discovered []"
    by (simp add: noDevices_def)
  have b: "twoRings 0 = Discovered [ringA, ringB] \<and> [ringA, ringB] \<noteq> []"
    by (simp add: twoRings_def)
  have c: "\<exists>i<length ?arr. ?arr ! i = normalizeDevice ringA
             \<and> (\<forall>j<i. uuid (?arr ! j) \<noteq> uuid (normalizeDevice ringA))"
    by (rule exI [of _ 0]) simp
  note A = scan_retry_and_dedupe
             [where env = noDevices and attempt = 0 and ds = "[ringA, ringB]"
                and d = "normalizeDevice ringA" and arr = ?arr]
  note B = scan_retry_and_dedupe
             [where env = twoRings and attempt = 0 and ds = "[ringA, ringB]"
                and d = "normalizeDevice ringA" and arr = ?arr]
  from A a B b c show ?thesis
    by blast
qed

lemma scanDevices_backoff:
  assumes "k < 5" and "lockHeldAt world bypassLocks k"
  shows "scanDevices world k bypassLocks =
           (fst (scanDevices world (k + 1) bypassLocks),
            1000 # snd (scanDevices world (k + 1) bypassLocks))"
  using assms
  by (subst scanDevices.simps)
     (auto simp: lockHeldAt_def scanDevices_turn_def split: prod.splits)

lemma scanDevices_give_up:
  assumes "5 \<le> k" and "noScanPendingAt world k"
  shows "scanDevices world k bypassLocks = (GaveUp, [])"
  using assms
  by (subst scanDevices.simps)
     (auto simp: noScanPendingAt_def scanDevices_turn_def split: prod.splits)

lemma scanDevices_countdown:
  assumes "\<forall>k<5. lockHeldAt world bypassLocks k" and "noScanPendingAt world 5"
  shows "n \<le> 5 \<Longrightarrow> scanDevices world (5 - n) bypassLocks = (GaveUp, replicate n 1000)"
proof (induction n)
  case 0
  then show ?case using assms(2) by (simp add: scanDevices_give_up)
next
  case (Suc n)
  then have lt: "5 - Suc n < 5" and nxt: "5 - Suc n + 1 = 5 - n" by simp_all
  from lt assms(1) have "lockHeldAt world bypassLocks (5 - Suc n)" by blast
  from scanDevices_backoff [OF lt this]
  have "scanDevices world (5 - Suc n) bypassLocks =
          (fst (scanDevices world (5 - n) bypassLocks),
           1000 # snd (scanDevices world (5 - n) bypassLocks))"
    by (simp only: nxt)
  moreover from Suc have "scanDevices world (5 - n) bypassLocks = (GaveUp, replicate n 1000)"
    by simp
  ultimately show ?case by simp
qed

lemma scanDevices_five_backoffs:
  assumes "\<forall>k<5. lockHeldAt world bypassLocks k" and "noScanPendingAt world 5"
  shows "scanDevices world 0 bypassLocks = (GaveUp, [1000, 1000, 1000, 1000, 1000])"
  using scanDevices_countdown [OF assms, of 5] by (simp add: numeral_eq_Suc)

text \<open>
  Claim C7. A call that finds no pending scan and a blocking lock (the connect lock, or
  the health-fetch lock when \<^verbatim>\<open>bypassLocks\<close> is false) waits 1000 ms and calls itself with
  the retry count incremented. If the lock is still held at each of the five turns with
  retry counts 0 to 4, the call waits five times and then returns the empty list: it
  neither fails nor waits further, and it starts no discovery.
\<close>

theorem scan_backs_off_five_times:
  "(k < 5 \<and> lockHeldAt world bypassLocks k
      \<longrightarrow> scanDevices world k bypassLocks =
            (fst (scanDevices world (k + 1) bypassLocks),
             1000 # snd (scanDevices world (k + 1) bypassLocks)))
   \<and> ((\<forall>k<5. lockHeldAt world bypassLocks k) \<and> noScanPendingAt world 5
      \<longrightarrow> scanDevices world 0 bypassLocks = (GaveUp, [1000, 1000, 1000, 1000, 1000])
          \<and> receivedDevices resolve (fst (scanDevices world 0 bypassLocks)) = Some [])"
proof (intro conjI impI)
  assume "k < 5 \<and> lockHeldAt world bypassLocks k"
  then show "scanDevices world k bypassLocks =
            (fst (scanDevices world (k + 1) bypassLocks),
             1000 # snd (scanDevices world (k + 1) bypassLocks))"
    by (simp add: scanDevices_backoff)
next
  assume a: "(\<forall>k<5. lockHeldAt world bypassLocks k) \<and> noScanPendingAt world 5"
  then show r: "scanDevices world 0 bypassLocks = (GaveUp, [1000, 1000, 1000, 1000, 1000])"
    by (simp add: scanDevices_five_backoffs)
  then show "receivedDevices resolve (fst (scanDevices world 0 bypassLocks)) = Some []"
    by simp
qed

theorem scan_backs_off_five_times_witness:
  "scanDevices connectHeld 0 False =
     (fst (scanDevices connectHeld (0 + 1) False), 1000 # snd (scanDevices connectHeld (0 + 1) False))
   \<and> scanDevices connectHeld 0 False = (GaveUp, [1000, 1000, 1000, 1000, 1000])"
proof -
  have a: "(0::nat) < 5 \<and> lockHeldAt connectHeld False 0"
    by (simp add: lockHeldAt_def connectHeld_def)
  have b: "(\<forall>k<5. lockHeldAt connectHeld False k) \<and> noScanPendingAt connectHeld 5"
    by (simp add: lockHeldAt_def noScanPendingAt_def connectHeld_def)
  note A = scan_backs_off_five_times
             [where world = connectHeld and bypassLocks = False and k = 0
                and resolve = "\<lambda>p. ([] :: unit list)"]
  from A a b show ?thesis
    by blast
qed

lemma scanCallers_join:
  "scanPromise s = Some p \<Longrightarrow> scanCallers cs s = (replicate (length cs) (Joined p), s)"
proof (induction cs)
  case Nil
  then show ?case by simp
next
  case (Cons c cs)
  obtain cn h k b where c: "c = (cn, h, k, b)" by (cases c)
  have "scanDevices_turn cn h k b s = (Joined p, s)"
    using Cons.prems by (simp add: scanDevices_turn_def)
  with Cons c show ?case by simp
qed

lemma scanCallers_single_flight:
  assumes "scanPromise s = None" and "retryCount < 5" and "\<not> c" and "bypassLocks \<or> \<not> h"
  shows "scanCallers ((c, h, retryCount, bypassLocks) # cs) s =
           (Started (tasksStarted s) # replicate (length cs) (Joined (tasksStarted s)),
            s\<lparr>scanPromise := Some (tasksStarted s), tasksStarted := tasksStarted s + 1\<rparr>)"
proof -
  let ?s1 = "s\<lparr>scanPromise := Some (tasksStarted s), tasksStarted := tasksStarted s + 1\<rparr>"
  have t: "scanDevices_turn c h retryCount bypassLocks s = (Started (tasksStarted s), ?s1)"
    using assms by (auto simp: scanDevices_turn_def)
  have "scanPromise ?s1 = Some (tasksStarted s)" by simp
  then have "scanCallers cs ?s1 = (replicate (length cs) (Joined (tasksStarted s)), ?s1)"
    by (rule scanCallers_join)
  with t show ?thesis by simp
qed

text \<open>
  Claim C9. While a scan is pending, every call is handed the pending promise and the
  scanner state does not change, so no further discovery task is started. Starting from
  an idle scanner with free locks, the first caller starts exactly one task and every
  caller that arrives before it completes joins it, whatever locks those callers see and
  whatever their arguments; all of them receive the devices that one promise resolves to.
\<close>

theorem scan_single_flight:
  "(scanPromise s = Some p \<longrightarrow> scanCallers cs s = (replicate (length cs) (Joined p), s))
   \<and> (scanPromise s = None \<and> retryCount < 5 \<and> \<not> c \<and> (bypassLocks \<or> \<not> h)
      \<longrightarrow> scanCallers ((c, h, retryCount, bypassLocks) # cs) s =
            (Started (tasksStarted s) # replicate (length cs) (Joined (tasksStarted s)),
             s\<lparr>scanPromise := Some (tasksStarted s), tasksStarted := tasksStarted s + 1\<rparr>)
          \<and> tasksStarted (snd (scanCallers ((c, h, retryCount, bypassLocks) # cs) s))
              = tasksStarted s + 1
          \<and> (\<forall>r \<in> set (fst (scanCallers ((c, h, retryCount, bypassLocks) # cs) s)).
                receivedDevices resolve r = Some (resolve (tasksStarted s))))"
proof (intro conjI impI)
  assume "scanPromise s = Some p"
  then show "scanCallers cs s = (replicate (length cs) (Joined p), s)"
    by (rule scanCallers_join)
next
  assume a: "scanPromise s = None \<and> retryCount < 5 \<and> \<not> c \<and> (bypassLocks \<or> \<not> h)"
  then show r: "scanCallers ((c, h, retryCount, bypassLocks) # cs) s =
            (Started (tasksStarted s) # replicate (length cs) (Joined (tasksStarted s)),
             s\<lparr>scanPromise := Some (tasksStarted s), tasksStarted := tasksStarted s + 1\<rparr>)"
    using scanCallers_single_flight [of s retryCount c bypassLocks h cs] by blast
  from r show "tasksStarted (snd (scanCallers ((c, h, retryCount, bypassLocks) # cs) s))
                 = tasksStarted s + 1"
    by simp
  from r show "\<forall>r \<in> set (fst (scanCallers ((c, h, retryCount, bypassLocks) # cs) s)).
                 receivedDevices resolve r = Some (resolve (tasksStarted s))"
    by auto
qed

theorem scan_single_flight_witness:
  "scanCallers [(True, True, 0, False), (False, False, 2, True)]
     (idleScanner\<lparr>scanPromise := Some 7\<rparr>)
     = (replicate (length [(True, True, 0 :: nat, False), (False, False, 2, True)]) (Joined 7),
        idleScanner\<lparr>scanPromise := Some 7\<rparr>)
   \<and> tasksStarted
        (snd (scanCallers [(False, True, 0, True), (True, True, 0, False), (False, False, 2, True)]
                idleScanner))
       = tasksStarted idleScanner + 1"
proof -
  have a: "scanPromise (idleScanner\<lparr>scanPromise := Some 7\<rparr>) = Some 7"
    by simp
  have b: "scanPromise idleScanner = None \<and> (0::nat) < 5 \<and> \<not> False \<and> (True \<or> \<not> True)"
    by (simp add: idleScanner_def)
  note A = scan_single_flight
             [where s = "idleScanner\<lparr>scanPromise := Some 7\<rparr>" and p = 7
                and cs = "[(True, True, 0, False), (False, False, 2, True)]"
                and retryCount = 0 and c = False and h = True and bypassLocks = True
                and resolve = "\<lambda>p. ([] :: unit list)"]
  note B = scan_single_flight
             [where s = idleScanner and p = 7
                and cs = "[(True, True, 0, False), (False, False, 2, True)]"
                and retryCount = 0 and c = False and h = True and bypassLocks = True
                and resolve = "\<lambda>p. ([] :: unit list)"]
  from A a B b show ?thesis
    by blast
qed


section \<open>Connection coordinator: results\<close>

lemma clearOldDeviceData_locks [simp]:
  "isConnecting (clearOldDeviceData t s) = isConnecting s"
  "connectionAttempts (clearOldDeviceData t s) = connectionAttempts s"
  by (auto simp: clearOldDeviceData_def split: stored_device.splits option.splits)

lemma connectDevice_flag:
  "\<not> isConnecting s \<Longrightarrow>
   \<not> isConnecting (snd (connectDevice env rawUuid devType disableRetry skipPre s))"
  by (auto simp: connectDevice_def Let_def cancelAllPendingOperations_def
           split: stored_device.splits prod.splits outcome.splits)

lemma connectDevice_attempts:
  "cleanUuid rawUuid \<noteq> [] \<Longrightarrow>
   cleanUuid rawUuid
     \<notin> connectionAttempts (snd (connectDevice env rawUuid devType disableRetry skipPre s))"
  by (auto simp: connectDevice_def Let_def cancelAllPendingOperations_def
           split: stored_device.splits prod.splits outcome.splits)

lemma connectDevice_invalid_uuid:
  "cleanUuid rawUuid = [] \<Longrightarrow>
   connectDevice env rawUuid devType disableRetry skipPre s = (False, s)"
  by (simp add: connectDevice_def)

text \<open>
  Claim C10. Whatever the outcome of a call to \<^verbatim>\<open>connectDevice\<close> (connected, not connected,
  or a native call that throws), a call that starts with the connecting flag free ends
  with the flag free, and the sanitized uuid is not in the connection-attempt set when
  the call returns. The early returns never set the flag and remove the uuid themselves;
  every other path runs through the \<^verbatim>\<open>finally\<close> block. A call with an unusable uuid
  returns at once and touches neither lock.
\<close>

theorem connect_releases_locks:
  "(\<not> isConnecting s
      \<longrightarrow> \<not> isConnecting (snd (connectDevice env rawUuid devType disableRetry skipPre s)))
   \<and> (cleanUuid rawUuid \<noteq> [] \<or> [] \<notin> connectionAttempts s
      \<longrightarrow> cleanUuid rawUuid
            \<notin> connectionAttempts (snd (connectDevice env rawUuid devType disableRetry skipPre s)))"
proof (intro conjI impI)
  assume "\<not> isConnecting s"
  then show "\<not> isConnecting (snd (connectDevice env rawUuid devType disableRetry skipPre s))"
    by (rule connectDevice_flag)
next
  assume a: "cleanUuid rawUuid \<noteq> [] \<or> [] \<notin> connectionAttempts s"
  show "cleanUuid rawUuid
          \<notin> connectionAttempts (snd (connectDevice env rawUuid devType disableRetry skipPre s))"
  proof (cases "cleanUuid rawUuid = []")
    case True
    with a show ?thesis by (simp add: connectDevice_invalid_uuid)
  next
    case False
    then show ?thesis by (rule connectDevice_attempts)
  qed
qed

lemma trim_example: "trim '' AA:BB '' = ''AA:BB''"
  by code_simp

theorem connect_releases_locks_witness:
  "\<not> isConnecting (snd (connectDevice failingDevice (Some '' AA:BB '') (Some ''RW'') False True
                          freeCoordinator))
   \<and> cleanUuid (Some '' AA:BB '')
        \<notin> connectionAttempts
            (snd (connectDevice failingDevice (Some '' AA:BB '') (Some ''RW'') False True
                    freeCoordinator))"
proof -
  have a: "\<not> isConnecting freeCoordinator"
    by (simp add: freeCoordinator_def)
  have b: "cleanUuid (Some '' AA:BB '') \<noteq> [] \<or> [] \<notin> connectionAttempts freeCoordinator"
    by (simp add: trim_example)
  note A = connect_releases_locks
             [where s = freeCoordinator and env = failingDevice and rawUuid = "Some '' AA:BB ''"
                and devType = "Some ''RW''" and disableRetry = False and skipPre = True]
  from A a b show ?thesis
    by blast
qed


section \<open>Sleep aggregation: results\<close>

lemma sleepAggregate_capped:
  assumes "sleepAggregate nowMs d l r e = Some s"
  shows "\<exists>m. totalMinutes s = Fin m \<and> m \<le> 1440"
proof (cases "jsRound (fdiv (fadd (fadd d l) r) (Fin 60))")
  case (Fin m)
  with assms show ?thesis
    by (auto simp: sleepAggregate_def Let_def MAX_SLEEP_MINUTES_def split: if_splits)
next
  case PosInf
  with assms show ?thesis
    by (auto simp: sleepAggregate_def Let_def MAX_SLEEP_MINUTES_def split: if_splits)
next
  case NegInf
  with assms show ?thesis
    by (auto simp: sleepAggregate_def Let_def MAX_SLEEP_MINUTES_def split: if_splits)
next
  case NaN
  with assms show ?thesis
    by (auto simp: sleepAggregate_def Let_def MAX_SLEEP_MINUTES_def split: if_splits)
qed

lemma normalizeSleepMetric_capped:
  assumes "normalizeSleepMetric V E nowMs raw config = Some s"
  shows "\<exists>m. totalMinutes s = Fin m \<and> m \<le> 1440"
proof (cases "nonEmptyArray (extractDataArray V raw (dataPath config))")
  case None
  with assms have "s = createEmptySleepData nowMs"
    by (simp add: normalizeSleepMetric_def)
  then show ?thesis by (simp add: createEmptySleepData_def)
next
  case (Some arr)
  show ?thesis
  proof (cases "filter (isCurrentDaySession V E config) arr = []")
    case True
    with assms Some have "s = createEmptySleepData nowMs"
      by (simp add: normalizeSleepMetric_def Let_def)
    then show ?thesis by (simp add: createEmptySleepData_def)
  next
    case False
    obtain d l r e where
      t: "sleepTotals V E config (filter (isCurrentDaySession V E config) arr) = (d, l, r, e)"
      by (cases "sleepTotals V E config (filter (isCurrentDaySession V E config) arr)") auto
    from assms Some False t have "sleepAggregate nowMs d l r e = Some s"
      by (simp add: normalizeSleepMetric_def Let_def)
    then show ?thesis by (rule sleepAggregate_capped)
  qed
qed

lemma sleepAggregate_scaled:
  assumes "jsGreater (jsRound (fdiv (fadd (fadd d l) r) (Fin 60))) 1440"
  shows "\<exists>s. sleepAggregate nowMs d l r e = Some s
             \<and> totalMinutes s = Fin 1440
             \<and> deepSleepMinutes s =
                 jsRound (fmul (fdiv d (Fin 60))
                            (fdiv (Fin 1440) (jsRound (fdiv (fadd (fadd d l) r) (Fin 60)))))
             \<and> lightSleepMinutes s =
                 jsRound (fmul (fdiv l (Fin 60))
                            (fdiv (Fin 1440) (jsRound (fdiv (fadd (fadd d l) r) (Fin 60)))))
             \<and> remSleepMinutes s =
                 jsRound (fmul (fdiv r (Fin 60))
                            (fdiv (Fin 1440) (jsRound (fdiv (fadd (fadd d l) r) (Fin 60)))))"
  using assms by (simp add: sleepAggregate_def Let_def MAX_SLEEP_MINUTES_def)

lemma ycSleepConfig_value:
  "ycSleepConfig =
     sleepMapping ''sleep'' [''deepSleepSeconds'', ''deepSleepMinutes'']
       [''lightSleepSeconds'', ''lightSleepMinutes''] [''remSleepSeconds'', ''remSleepMinutes'']
       [''time'', ''startTime'', ''date'']"
  by (simp add: ycSleepConfig_def getDeviceMapping_def normalizeDeviceType_def typeMap_def
        toLowerCase_def lowerChar_def trim_def isSpaceChar_def DEVICE_MAPPINGS_def
        mapping_ios_yc_def applyPlatformAdjustments_def sleepMapping_def Let_def)

text \<open>Whole numbers of seconds add up without rounding.\<close>

lemma whole_seconds:
  "fl64 0 = Fin 0" "fl64 36000 = Fin 36000" "fl64 42000 = Fin 42000" "fl64 12000 = Fin 12000"
  "fl64 78000 = Fin 78000" "fl64 90000 = Fin 90000"
  "fl64 43230 = Fin 43230" "fl64 43199 = Fin 43199" "fl64 86429 = Fin 86429"
  "fl64 1953 = Fin 1953" "fl64 87327 = Fin 87327" "fl64 89280 = Fin 89280"
  by (simp_all add: fl64_def binade_def log2floor.simps pow2_def roundHalfEven_def Let_def)

text \<open>
  The double arithmetic differs from exact arithmetic in the scaled minutes. With 1953 s
  of deep and 87327 s of light sleep the total is 1488 minutes; the product of 32.55 and
  1440/1488 is 31.5 exactly, but 31.499999999999996 in doubles, so the deep minutes are
  31, not 32.
\<close>

lemma double_rounding_example:
  "map_option deepSleepMinutes (sleepAggregate nowMs (Fin 1953) (Fin 87327) (Fin 0) (JNum 0))
     = Some (Fin 31)
   \<and> mathRound (1953 / 60 * (1440 / 1488)) = 32"
  by (simp add: sleepAggregate_def whole_seconds MAX_SLEEP_MINUTES_def Let_def mathRound_def
        fl64_def binade_def log2floor.simps pow2_def roundHalfEven_def)

lemma roundedDown_array:
  "nonEmptyArray (extractDataArray specValidator roundedDownPayload (dataPath ycSleepConfig))
     = Some [roundedDownSession]"
  by (simp add: ycSleepConfig_value sleepMapping_def specValidator_def specExtractDataArray_def
        roundedDownPayload_def nonEmptyArray_def)

lemma roundedDown_in_day:
  "isCurrentDaySession specValidator sampleEnv ycSleepConfig roundedDownSession"
  by (simp add: isCurrentDaySession_def sessionDate_def ycSleepConfig_value sleepMapping_def
        specValidator_def specExtractTimestamp_def roundedDownSession_def getField_def
        sampleEnv_def)

lemma roundedDown_totals:
  "sleepTotals specValidator sampleEnv ycSleepConfig [roundedDownSession]
     = (Fin 43230, Fin 43199, Fin 0, JNum 0)"
  by (simp add: sleepTotals_def sleepStep_def stageSeconds_def ycSleepConfig_value
        sleepMapping_def specValidator_def specExtractBestValue_def roundedDownSession_def
        getField_def Let_def whole_seconds)

lemma roundedDown_aggregate:
  "sleepAggregate 1700050000000 (Fin 43230) (Fin 43199) (Fin 0) (JNum 0) =
     Some \<lparr> totalMinutes = Fin 1440, deepSleepMinutes = Fin 721, lightSleepMinutes = Fin 720,
            remSleepMinutes = Fin 0, totalSleepSeconds = Fin 86429,
            totalDeepSleepSeconds = Fin 43230, totalLightSleepSeconds = Fin 43199,
            totalRemSleepSeconds = Fin 0, sleepTimestamp = JNum 1700050000000 \<rparr>"
  by (simp add: sleepAggregate_def whole_seconds MAX_SLEEP_MINUTES_def Let_def mathRound_def
        fl64_def binade_def log2floor.simps pow2_def roundHalfEven_def)

text \<open>
  Claim C2, as stated, fails in its second part. A session with 43230 s of deep and
  43199 s of light sleep sums to more than 1440 minutes, but the total in whole minutes
  is 1440, so nothing is scaled: the deep minutes are 721, where the ratio of 1440 to the
  total would give 720, and the components add up to 1441 against a reported total of
  1440.
\<close>

theorem sum_above_cap_not_scaled:
  "(43230 + 43199) / 60 > (1440::real)
   \<and> normalizeSleepMetric specValidator sampleEnv 1700050000000 roundedDownPayload ycSleepConfig
       = Some \<lparr> totalMinutes = Fin 1440, deepSleepMinutes = Fin 721,
                lightSleepMinutes = Fin 720, remSleepMinutes = Fin 0,
                totalSleepSeconds = Fin 86429, totalDeepSleepSeconds = Fin 43230,
                totalLightSleepSeconds = Fin 43199, totalRemSleepSeconds = Fin 0,
                sleepTimestamp = JNum 1700050000000 \<rparr>
   \<and> mathRound (specScaledMinutes 43230 (43230 + 43199)) = 720"
  by (simp add: normalizeSleepMetric_def roundedDown_array roundedDown_in_day
        roundedDown_totals roundedDown_aggregate specScaledMinutes_def mathRound_def)

text \<open>
  Claim C2, amended. The total minutes of a sleep aggregate never exceed 1440, in the
  sleep metric and in the sleep slot of a normalized record. When the three sums over the
  sessions of the day add up to a total that, in whole minutes, is more than 1440, the
  reported total is exactly 1440 and each of the three components is its sum in minutes
  times the ratio of 1440 to the total in whole minutes, rounded to whole minutes.
\<close>

theorem sleep_total_capped_and_scaled:
  "(normalizeSleepMetric V E nowMs raw config = Some s
      \<longrightarrow> (\<exists>m. totalMinutes s = Fin m \<and> m \<le> 1440))
   \<and> (sleep (fst (normalizeHealthData V E nowMs (Some raw) devType p)) = Some s
      \<longrightarrow> (\<exists>m. totalMinutes s = Fin m \<and> m \<le> 1440))
   \<and> (nonEmptyArray (extractDataArray V raw (dataPath config)) = Some arr
        \<and> filter (isCurrentDaySession V E config) arr \<noteq> []
        \<and> sleepTotals V E config (filter (isCurrentDaySession V E config) arr) = (d, l, r, e)
        \<and> jsGreater (jsRound (fdiv (fadd (fadd d l) r) (Fin 60))) 1440
      \<longrightarrow> (\<exists>s'. normalizeSleepMetric V E nowMs raw config = Some s'
                \<and> totalMinutes s' = Fin 1440
                \<and> deepSleepMinutes s' =
                    jsRound (fmul (fdiv d (Fin 60))
                               (fdiv (Fin 1440) (jsRound (fdiv (fadd (fadd d l) r) (Fin 60)))))
                \<and> lightSleepMinutes s' =
                    jsRound (fmul (fdiv l (Fin 60))
                               (fdiv (Fin 1440) (jsRound (fdiv (fadd (fadd d l) r) (Fin 60)))))
                \<and> remSleepMinutes s' =
                    jsRound (fmul (fdiv r (Fin 60))
                               (fdiv (Fin 1440) (jsRound (fdiv (fadd (fadd d l) r) (Fin 60)))))))"
proof (intro conjI impI)
  assume "normalizeSleepMetric V E nowMs raw config = Some s"
  then show "\<exists>m. totalMinutes s = Fin m \<and> m \<le> 1440"
    by (rule normalizeSleepMetric_capped)
next
  assume a: "sleep (fst (normalizeHealthData V E nowMs (Some raw) devType p)) = Some s"
  obtain st raw' where
    st: "normalizeStepsMetric V E nowMs raw
           (m_steps (applyPlatformAdjustments (getDeviceMapping (hostPlatform E) devType) p)) p
         = (st, raw')"
    by (cases "normalizeStepsMetric V E nowMs raw
           (m_steps (applyPlatformAdjustments (getDeviceMapping (hostPlatform E) devType) p)) p")
       auto
  from a st have
    "normalizeSleepMetric V E nowMs raw'
       (m_sleep (applyPlatformAdjustments (getDeviceMapping (hostPlatform E) devType) p))
     = Some s"
    by (simp add: normalizeHealthData_def Let_def)
  then show "\<exists>m. totalMinutes s = Fin m \<and> m \<le> 1440"
    by (rule normalizeSleepMetric_capped)
next
  assume a: "nonEmptyArray (extractDataArray V raw (dataPath config)) = Some arr
        \<and> filter (isCurrentDaySession V E config) arr \<noteq> []
        \<and> sleepTotals V E config (filter (isCurrentDaySession V E config) arr) = (d, l, r, e)
        \<and> jsGreater (jsRound (fdiv (fadd (fadd d l) r) (Fin 60))) 1440"
  then have "normalizeSleepMetric V E nowMs raw config = sleepAggregate nowMs d l r e"
    by (simp add: normalizeSleepMetric_def Let_def)
  moreover from a have "jsGreater (jsRound (fdiv (fadd (fadd d l) r) (Fin 60))) 1440"
    by simp
  ultimately show "\<exists>s'. normalizeSleepMetric V E nowMs raw config = Some s'
                \<and> totalMinutes s' = Fin 1440
                \<and> deepSleepMinutes s' =
                    jsRound (fmul (fdiv d (Fin 60))
                               (fdiv (Fin 1440) (jsRound (fdiv (fadd (fadd d l) r) (Fin 60)))))
                \<and> lightSleepMinutes s' =
                    jsRound (fmul (fdiv l (Fin 60))
                               (fdiv (Fin 1440) (jsRound (fdiv (fadd (fadd d l) r) (Fin 60)))))
                \<and> remSleepMinutes s' =
                    jsRound (fmul (fdiv r (Fin 60))
                               (fdiv (Fin 1440) (jsRound (fdiv (fadd (fadd d l) r) (Fin 60)))))"
    using sleepAggregate_scaled [of d l r nowMs e] by simp
qed

lemma longSleep_array:
  "nonEmptyArray (extractDataArray specValidator longSleepPayload (dataPath ycSleepConfig))
     = Some [longSleepSession]"
  by (simp add: ycSleepConfig_value sleepMapping_def specValidator_def specExtractDataArray_def
        longSleepPayload_def nonEmptyArray_def)

lemma longSleep_in_day: "isCurrentDaySession specValidator sampleEnv ycSleepConfig longSleepSession"
  by (simp add: isCurrentDaySession_def sessionDate_def ycSleepConfig_value sleepMapping_def
        specValidator_def specExtractTimestamp_def longSleepSession_def getField_def
        sampleEnv_def)

lemma longSleep_totals:
  "sleepTotals specValidator sampleEnv ycSleepConfig [longSleepSession]
     = (Fin 36000, Fin 42000, Fin 12000, JNum 0)"
  by (simp add: sleepTotals_def sleepStep_def stageSeconds_def ycSleepConfig_value
        sleepMapping_def specValidator_def specExtractBestValue_def longSleepSession_def
        getField_def Let_def whole_seconds)

lemma scenario_D_total:
  "jsRound (fdiv (fadd (fadd (Fin 36000) (Fin 42000)) (Fin 12000)) (Fin 60)) = Fin 1500"
  by (simp add: whole_seconds mathRound_def fl64_def binade_def log2floor.simps pow2_def
        roundHalfEven_def Let_def)

lemma scenario_D_rounding:
  "jsRound (fmul (fdiv (Fin 36000) (Fin 60)) (fdiv (Fin 1440) (Fin 1500))) = Fin 576"
  "jsRound (fmul (fdiv (Fin 42000) (Fin 60)) (fdiv (Fin 1440) (Fin 1500))) = Fin 672"
  "jsRound (fmul (fdiv (Fin 12000) (Fin 60)) (fdiv (Fin 1440) (Fin 1500))) = Fin 192"
  by (simp_all add: mathRound_def fl64_def binade_def log2floor.simps pow2_def
        roundHalfEven_def Let_def)

theorem sleep_total_capped_and_scaled_witness:
  "\<exists>s. normalizeSleepMetric specValidator sampleEnv 1700050000000 longSleepPayload ycSleepConfig
          = Some s
        \<and> (\<exists>m. totalMinutes s = Fin m \<and> m \<le> 1440) \<and> totalMinutes s = Fin 1440
        \<and> deepSleepMinutes s = Fin 576 \<and> lightSleepMinutes s = Fin 672
        \<and> remSleepMinutes s = Fin 192"
proof -
  have a: "nonEmptyArray (extractDataArray specValidator longSleepPayload (dataPath ycSleepConfig))
             = Some [longSleepSession]
           \<and> filter (isCurrentDaySession specValidator sampleEnv ycSleepConfig) [longSleepSession]
               \<noteq> []
           \<and> sleepTotals specValidator sampleEnv ycSleepConfig
               (filter (isCurrentDaySession specValidator sampleEnv ycSleepConfig)
                  [longSleepSession])
               = (Fin 36000, Fin 42000, Fin 12000, JNum 0)
           \<and> jsGreater (jsRound (fdiv (fadd (fadd (Fin 36000) (Fin 42000)) (Fin 12000)) (Fin 60)))
               1440"
  proof (intro conjI)
    show "jsGreater
            (jsRound (fdiv (fadd (fadd (Fin 36000) (Fin 42000)) (Fin 12000)) (Fin 60))) 1440"
      by (simp only: scenario_D_total jsGreater.simps)
  qed (simp_all add: longSleep_array longSleep_in_day longSleep_totals)
  note T = sleep_total_capped_and_scaled
         [where V = specValidator and E = sampleEnv and nowMs = 1700050000000
            and raw = longSleepPayload and config = ycSleepConfig
            and arr = "[longSleepSession]" and d = "Fin 36000" and l = "Fin 42000"
            and r = "Fin 12000" and e = "JNum 0" and devType = "''yc''" and p = IOS]
  from T a obtain s' where
    s': "normalizeSleepMetric specValidator sampleEnv 1700050000000 longSleepPayload
           ycSleepConfig = Some s'"
      "totalMinutes s' = Fin 1440"
      "deepSleepMinutes s' =
         jsRound (fmul (fdiv (Fin 36000) (Fin 60))
                    (fdiv (Fin 1440)
                       (jsRound (fdiv (fadd (fadd (Fin 36000) (Fin 42000)) (Fin 12000))
                                   (Fin 60)))))"
      "lightSleepMinutes s' =
         jsRound (fmul (fdiv (Fin 42000) (Fin 60))
                    (fdiv (Fin 1440)
                       (jsRound (fdiv (fadd (fadd (Fin 36000) (Fin 42000)) (Fin 12000))
                                   (Fin 60)))))"
      "remSleepMinutes s' =
         jsRound (fmul (fdiv (Fin 12000) (Fin 60))
                    (fdiv (Fin 1440)
                       (jsRound (fdiv (fadd (fadd (Fin 36000) (Fin 42000)) (Fin 12000))
                                   (Fin 60)))))"
    by blast
  from T s'(1) have "\<exists>m. totalMinutes s' = Fin m \<and> m \<le> 1440"
    by blast
  with s' show ?thesis
    by (simp only: scenario_D_total scenario_D_rounding) auto
qed


section \<open>Blood pressure selection: results\<close>

lemma pressureStep_cases:
  "pressureStep V config x (bt, bs, bd) =
     (if systolicOf V config x > 0 \<and> diastolicOf V config x > 0
         \<and> extractTimestamp V x (timestampFields config) > bt
      then (extractTimestamp V x (timestampFields config), systolicOf V config x,
            diastolicOf V config x)
      else (bt, bs, bd))"
  by (simp add: pressureStep_def Let_def)

lemma pressureBest_step:
  assumes "pressureBest V config pre st"
  shows "pressureBest V config (pre @ [x]) (pressureStep V config x st)"
proof -
  obtain bt bs bd where st: "st = (bt, bs, bd)" by (cases st) auto
  let ?t = "extractTimestamp V x (timestampFields config)"
  show ?thesis
  proof (cases "\<exists>r \<in> set pre. pressureQualifies V config r")
    case True
    with assms st obtain r0 where r0: "r0 \<in> set pre" "pressureQualifies V config r0"
        "extractTimestamp V r0 (timestampFields config) = bt"
        "systolicOf V config r0 = bs" "diastolicOf V config r0 = bd"
      and mx: "\<forall>r \<in> set pre. pressureQualifies V config r
                 \<longrightarrow> extractTimestamp V r (timestampFields config) \<le> bt"
      unfolding pressureBest_def by auto
    from r0 have pos: "bt > 0" by (auto simp: pressureQualifies_def)
    show ?thesis
    proof (cases "systolicOf V config x > 0 \<and> diastolicOf V config x > 0 \<and> ?t > bt")
      case up: True
      with pos have qx: "pressureQualifies V config x" by (simp add: pressureQualifies_def)
      from up have s1: "pressureStep V config x st
                          = (?t, systolicOf V config x, diastolicOf V config x)"
        by (simp add: st pressureStep_cases)
      from up mx have "\<forall>r \<in> set (pre @ [x]). pressureQualifies V config r
                 \<longrightarrow> extractTimestamp V r (timestampFields config) \<le> ?t"
        by fastforce
      with qx show ?thesis unfolding pressureBest_def s1 by auto
    next
      case keep: False
      then have s1: "pressureStep V config x st = (bt, bs, bd)"
        by (simp add: st pressureStep_cases)
      from keep have "pressureQualifies V config x \<longrightarrow> ?t \<le> bt"
        by (auto simp: pressureQualifies_def)
      with mx have "\<forall>r \<in> set (pre @ [x]). pressureQualifies V config r
                 \<longrightarrow> extractTimestamp V r (timestampFields config) \<le> bt"
        by auto
      with r0 show ?thesis unfolding pressureBest_def s1 by auto
    qed
  next
    case False
    with assms st have st0: "bt = 0" "bs = 0" "bd = 0"
      unfolding pressureBest_def by auto
    show ?thesis
    proof (cases "pressureQualifies V config x")
      case True
      then have s1: "pressureStep V config x st
                       = (?t, systolicOf V config x, diastolicOf V config x)"
        using st0 by (simp add: st pressureStep_cases pressureQualifies_def)
      from True False show ?thesis unfolding pressureBest_def s1 by auto
    next
      case nq: False
      then have s1: "pressureStep V config x st = (0, 0, 0)"
        using st0 by (auto simp: st pressureStep_cases pressureQualifies_def)
      from nq False show ?thesis unfolding pressureBest_def s1 by auto
    qed
  qed
qed

lemma pressureBest_fold:
  "pressureBest V config pre st \<Longrightarrow>
   pressureBest V config (pre @ xs) (fold (pressureStep V config) xs st)"
proof (induction xs arbitrary: pre st)
  case Nil
  then show ?case by simp
next
  case (Cons x xs)
  from Cons.prems have "pressureBest V config (pre @ [x]) (pressureStep V config x st)"
    by (rule pressureBest_step)
  from Cons.IH [OF this] show ?case by simp
qed

lemma pressure_fold_result:
  "pressureBest V config arr (fold (pressureStep V config) arr (0, 0, 0))"
proof -
  have "pressureBest V config [] (0, 0, 0)" by (simp add: pressureBest_def)
  from pressureBest_fold [OF this, of arr] show ?thesis by simp
qed

lemma pressure_none_iff:
  assumes "nonEmptyArray (extractDataArray V raw (dataPath config)) = Some arr"
  shows "normalizeBloodPressureMetric V raw config = None
           \<longleftrightarrow> \<not> (\<exists>r \<in> set arr. pressureQualifies V config r)"
proof -
  obtain t s d where f: "fold (pressureStep V config) arr (0, 0, 0) = (t, s, d)"
    by (cases "fold (pressureStep V config) arr (0, 0, 0)") auto
  have best: "pressureBest V config arr (t, s, d)"
    using pressure_fold_result [of V config arr] f by simp
  show ?thesis
  proof (cases "\<exists>r \<in> set arr. pressureQualifies V config r")
    case True
    with best obtain r where "pressureQualifies V config r"
        "systolicOf V config r = s" "diastolicOf V config r = d"
      unfolding pressureBest_def by auto
    then have "s > 0 \<and> d > 0" by (auto simp: pressureQualifies_def)
    with True assms f show ?thesis
      by (simp add: normalizeBloodPressureMetric_def)
  next
    case False
    with best have "(t, s, d) = (0, 0, 0)" unfolding pressureBest_def by blast
    with False assms f show ?thesis
      by (simp add: normalizeBloodPressureMetric_def)
  qed
qed

lemma pressure_some:
  assumes "nonEmptyArray (extractDataArray V raw (dataPath config)) = Some arr"
    and "normalizeBloodPressureMetric V raw config = Some b"
  shows "(\<exists>r \<in> set arr. pressureQualifies V config r
            \<and> systolicOf V config r = systolic b \<and> diastolicOf V config r = diastolic b
            \<and> extractTimestamp V r (timestampFields config) = bpTimestamp b)
         \<and> (\<forall>r \<in> set arr. pressureQualifies V config r
               \<longrightarrow> extractTimestamp V r (timestampFields config) \<le> bpTimestamp b)"
proof -
  from assms have ex: "\<exists>r \<in> set arr. pressureQualifies V config r"
    using pressure_none_iff [OF assms(1)] by auto
  obtain t s d where f: "fold (pressureStep V config) arr (0, 0, 0) = (t, s, d)"
    by (cases "fold (pressureStep V config) arr (0, 0, 0)") auto
  with assms have b: "systolic b = s" "diastolic b = d" "bpTimestamp b = t"
    by (auto simp: normalizeBloodPressureMetric_def split: if_splits)
  have best: "pressureBest V config arr (t, s, d)"
    using pressure_fold_result [of V config arr] f by simp
  with ex have "(\<exists>r \<in> set arr. pressureQualifies V config r
            \<and> extractTimestamp V r (timestampFields config) = t
            \<and> systolicOf V config r = s \<and> diastolicOf V config r = d)
         \<and> (\<forall>r \<in> set arr. pressureQualifies V config r
               \<longrightarrow> extractTimestamp V r (timestampFields config) \<le> t)"
    unfolding pressureBest_def by simp
  then show ?thesis unfolding b by blast
qed

lemma pressure_in_range:
  assumes "respectsFilter V" and "normalizeBloodPressureMetric V raw config = Some b"
  shows "SYSTOLIC_MIN < systolic b \<and> systolic b < SYSTOLIC_MAX
         \<and> DIASTOLIC_MIN < diastolic b \<and> diastolic b < DIASTOLIC_MAX"
proof -
  from assms(2) obtain arr where
    arr: "nonEmptyArray (extractDataArray V raw (dataPath config)) = Some arr"
    by (auto simp: normalizeBloodPressureMetric_def split: option.splits)
  from pressure_some [OF arr assms(2)] obtain r where
    r: "pressureQualifies V config r" "systolicOf V config r = systolic b"
       "diastolicOf V config r = diastolic b"
    by auto
  from r(1) have sp: "systolicOf V config r > 0" and dp: "diastolicOf V config r > 0"
    by (simp_all add: pressureQualifies_def)
  from assms(1) have
    "systolicOf V config r = 0
       \<or> (systolicOf V config r > SYSTOLIC_MIN \<and> systolicOf V config r < SYSTOLIC_MAX)"
    unfolding respectsFilter_def systolicOf_def by blast
  moreover from assms(1) have
    "diastolicOf V config r = 0
       \<or> (diastolicOf V config r > DIASTOLIC_MIN \<and> diastolicOf V config r < DIASTOLIC_MAX)"
    unfolding respectsFilter_def diastolicOf_def by blast
  ultimately show ?thesis using sp dp r by auto
qed

lemma bloodPressure_of_record:
  "bloodPressure (fst (normalizeHealthData V E nowMs (Some raw) devType p)) =
     normalizeBloodPressureMetric V
       (snd (normalizeStepsMetric V E nowMs raw
               (m_steps (applyPlatformAdjustments (getDeviceMapping (hostPlatform E) devType) p)) p))
       (m_bloodPressure (applyPlatformAdjustments (getDeviceMapping (hostPlatform E) devType) p))"
  by (simp add: normalizeHealthData_def Let_def split: prod.splits)

lemma ycPressureConfig_value:
  "ycPressureConfig =
     pressureMapping ''bloodPressure'' [''systolic'', ''sbp'', ''high'']
       [''diastolic'', ''dbp'', ''low''] [''time'', ''timestamp'', ''date'']"
  by (simp add: ycPressureConfig_def getDeviceMapping_def normalizeDeviceType_def typeMap_def
        toLowerCase_def lowerChar_def trim_def isSpaceChar_def DEVICE_MAPPINGS_def
        mapping_ios_yc_def applyPlatformAdjustments_def Let_def)

lemma oldPressure_array:
  "nonEmptyArray (extractDataArray specValidator oldPressurePayload (dataPath ycPressureConfig))
     = Some [oldPressureRecord]"
  by (simp add: ycPressureConfig_value pressureMapping_def specValidator_def
        specExtractDataArray_def oldPressurePayload_def nonEmptyArray_def)

lemma oldPressure_kept:
  "normalizeBloodPressureMetric specValidator oldPressurePayload ycPressureConfig
     = Some \<lparr>systolic = 120, diastolic = 80, bpTimestamp = 1600000000000\<rparr>"
  unfolding normalizeBloodPressureMetric_def oldPressure_array
  by (simp add: pressureStep_cases
        systolicOf_def diastolicOf_def ycPressureConfig_value pressureMapping_def
        specValidator_def specExtractBestValue_def specExtractTimestamp_def
        oldPressureRecord_def getField_def SYSTOLIC_MIN_def SYSTOLIC_MAX_def
        DIASTOLIC_MIN_def DIASTOLIC_MAX_def)

lemma specValidator_respectsFilter: "respectsFilter specValidator"
  by (auto simp: respectsFilter_def specValidator_def specExtractBestValue_def
           split: option.splits jsval.splits)

text \<open>
  Claim C5, as stated, fails in its first clause. A blood-pressure record taken long
  before the current day, the only one in the payload, is not discarded: it becomes the
  blood-pressure metric of the normalized record.
\<close>

theorem old_pressure_record_kept:
  "1600000000000 < todayStart sampleEnv
   \<and> bloodPressure
        (fst (normalizeHealthData specValidator sampleEnv 1700050000000
                (Some oldPressurePayload) ''yc'' IOS))
      = Some \<lparr>systolic = 120, diastolic = 80, bpTimestamp = 1600000000000\<rparr>"
proof -
  have "hostPlatform sampleEnv = HostIOS" by (simp add: sampleEnv_def)
  then have "bloodPressure
        (fst (normalizeHealthData specValidator sampleEnv 1700050000000
                (Some oldPressurePayload) ''yc'' IOS))
      = normalizeBloodPressureMetric specValidator oldPressurePayload ycPressureConfig"
    by (simp add: bloodPressure_of_record normalizeStepsMetric_def ycPressureConfig_def)
  moreover have "1600000000000 < todayStart sampleEnv" by (simp add: sampleEnv_def)
  ultimately show ?thesis by (simp add: oldPressure_kept)
qed

text \<open>
  Claim C5, amended. The blood-pressure selection discards no record for its date. Among
  all records of the array, those qualify whose systolic and diastolic values are both
  positive after the validator's range tests, (50,300) and (30,200), and whose timestamp
  is positive; the metric holds the values and the timestamp of a qualifying record with
  the greatest timestamp, and it is null exactly when the array is missing or empty or
  no record qualifies. With a validator that returns 0 or a value passing the test, the
  kept systolic value lies in (50,300) and the kept diastolic value in (30,200). The
  blood-pressure slot of the normalized record is this metric.
\<close>

theorem blood_pressure_selection:
  "(nonEmptyArray (extractDataArray V raw (dataPath config)) = None
      \<longrightarrow> normalizeBloodPressureMetric V raw config = None)
   \<and> (nonEmptyArray (extractDataArray V raw (dataPath config)) = Some arr
      \<longrightarrow> (normalizeBloodPressureMetric V raw config = None
            \<longleftrightarrow> \<not> (\<exists>r \<in> set arr. pressureQualifies V config r)))
   \<and> (nonEmptyArray (extractDataArray V raw (dataPath config)) = Some arr
        \<and> normalizeBloodPressureMetric V raw config = Some b
      \<longrightarrow> (\<exists>r \<in> set arr. pressureQualifies V config r
              \<and> systolicOf V config r = systolic b \<and> diastolicOf V config r = diastolic b
              \<and> extractTimestamp V r (timestampFields config) = bpTimestamp b)
          \<and> (\<forall>r \<in> set arr. pressureQualifies V config r
                \<longrightarrow> extractTimestamp V r (timestampFields config) \<le> bpTimestamp b))
   \<and> (respectsFilter V \<and> normalizeBloodPressureMetric V raw config = Some b
      \<longrightarrow> 50 < systolic b \<and> systolic b < 300 \<and> 30 < diastolic b \<and> diastolic b < 200)
   \<and> bloodPressure (fst (normalizeHealthData V E nowMs (Some raw) devType p)) =
       normalizeBloodPressureMetric V
         (snd (normalizeStepsMetric V E nowMs raw
                 (m_steps (applyPlatformAdjustments (getDeviceMapping (hostPlatform E) devType) p))
                 p))
         (m_bloodPressure (applyPlatformAdjustments (getDeviceMapping (hostPlatform E) devType) p))"
proof (intro conjI impI)
  assume "nonEmptyArray (extractDataArray V raw (dataPath config)) = None"
  then show "normalizeBloodPressureMetric V raw config = None"
    by (simp add: normalizeBloodPressureMetric_def)
next
  assume "nonEmptyArray (extractDataArray V raw (dataPath config)) = Some arr"
  then show "normalizeBloodPressureMetric V raw config = None
               \<longleftrightarrow> \<not> (\<exists>r \<in> set arr. pressureQualifies V config r)"
    by (rule pressure_none_iff)
next
  assume a: "nonEmptyArray (extractDataArray V raw (dataPath config)) = Some arr
             \<and> normalizeBloodPressureMetric V raw config = Some b"
  from pressure_some [of V raw config arr b] a
  show "\<exists>r \<in> set arr. pressureQualifies V config r
              \<and> systolicOf V config r = systolic b \<and> diastolicOf V config r = diastolic b
              \<and> extractTimestamp V r (timestampFields config) = bpTimestamp b"
    by blast
  from pressure_some [of V raw config arr b] a
  show "\<forall>r \<in> set arr. pressureQualifies V config r
                \<longrightarrow> extractTimestamp V r (timestampFields config) \<le> bpTimestamp b"
    by blast
next
  assume a: "respectsFilter V \<and> normalizeBloodPressureMetric V raw config = Some b"
  from pressure_in_range [of V raw config b] a
  have "SYSTOLIC_MIN < systolic b \<and> systolic b < SYSTOLIC_MAX
         \<and> DIASTOLIC_MIN < diastolic b \<and> diastolic b < DIASTOLIC_MAX"
    by blast
  then show "50 < systolic b" and "systolic b < 300" and "30 < diastolic b"
    and "diastolic b < 200"
    by (simp_all add: SYSTOLIC_MIN_def SYSTOLIC_MAX_def DIASTOLIC_MIN_def DIASTOLIC_MAX_def)
next
  show "bloodPressure (fst (normalizeHealthData V E nowMs (Some raw) devType p)) =
       normalizeBloodPressureMetric V
         (snd (normalizeStepsMetric V E nowMs raw
                 (m_steps (applyPlatformAdjustments (getDeviceMapping (hostPlatform E) devType) p))
                 p))
         (m_bloodPressure (applyPlatformAdjustments (getDeviceMapping (hostPlatform E) devType) p))"
    by (rule bloodPressure_of_record)
qed

lemma longSleep_no_pressure:
  "nonEmptyArray (extractDataArray specValidator longSleepPayload (dataPath ycPressureConfig))
     = None"
  by (simp add: ycPressureConfig_value pressureMapping_def specValidator_def
        specExtractDataArray_def longSleepPayload_def nonEmptyArray_def)

theorem blood_pressure_selection_witness:
  "normalizeBloodPressureMetric specValidator longSleepPayload ycPressureConfig = None
   \<and> (\<exists>r \<in> set [oldPressureRecord]. pressureQualifies specValidator ycPressureConfig r
         \<and> systolicOf specValidator ycPressureConfig r = 120
         \<and> diastolicOf specValidator ycPressureConfig r = 80
         \<and> extractTimestamp specValidator r (timestampFields ycPressureConfig) = 1600000000000)
   \<and> (50::real) < 120 \<and> (120::real) < 300 \<and> (30::real) < 80 \<and> (80::real) < 200"
proof -
  let ?b = "\<lparr>systolic = 120, diastolic = 80, bpTimestamp = 1600000000000\<rparr>"
  have a: "nonEmptyArray
             (extractDataArray specValidator longSleepPayload (dataPath ycPressureConfig)) = None"
    by (rule longSleep_no_pressure)
  have b: "nonEmptyArray
             (extractDataArray specValidator oldPressurePayload (dataPath ycPressureConfig))
             = Some [oldPressureRecord]
           \<and> normalizeBloodPressureMetric specValidator oldPressurePayload ycPressureConfig
               = Some ?b"
    by (simp add: oldPressure_array oldPressure_kept)
  have c: "respectsFilter specValidator
           \<and> normalizeBloodPressureMetric specValidator oldPressurePayload ycPressureConfig
               = Some ?b"
    by (simp add: specValidator_respectsFilter oldPressure_kept)
  note A = blood_pressure_selection
             [where V = specValidator and raw = longSleepPayload and config = ycPressureConfig
                and arr = "[oldPressureRecord]" and b = ?b and E = sampleEnv
                and nowMs = 0 and devType = "''yc''" and p = IOS]
  note B = blood_pressure_selection
             [where V = specValidator and raw = oldPressurePayload and config = ycPressureConfig
                and arr = "[oldPressureRecord]" and b = ?b and E = sampleEnv
                and nowMs = 0 and devType = "''yc''" and p = IOS]
  from A a have 1: "normalizeBloodPressureMetric specValidator longSleepPayload ycPressureConfig
                      = None"
    by blast
  from B b have 2: "\<exists>r \<in> set [oldPressureRecord]. pressureQualifies specValidator ycPressureConfig r
         \<and> systolicOf specValidator ycPressureConfig r = systolic ?b
         \<and> diastolicOf specValidator ycPressureConfig r = diastolic ?b
         \<and> extractTimestamp specValidator r (timestampFields ycPressureConfig) = bpTimestamp ?b"
    by blast
  from B c have 3: "50 < systolic ?b \<and> systolic ?b < 300 \<and> 30 < diastolic ?b
                    \<and> diastolic ?b < 200"
    by blast
  from 1 2 3 show ?thesis by simp
qed


section \<open>Field mapping table: results\<close>

lemma getDeviceMapping_cases:
  "getDeviceMapping host devType
     \<in> {mapping_yc, mapping_rw, mapping_android_yc, mapping_ios_yc, mapping_default}"
  by (auto simp: getDeviceMapping_def DEVICE_MAPPINGS_def Let_def
           split: host_os.splits option.splits if_splits)

lemma table_paths:
  assumes "M \<in> {mapping_yc, mapping_rw, mapping_android_yc, mapping_ios_yc, mapping_default}"
  shows "dataPath (m_heartRate M) \<noteq> ''combinedData''"
    and "dataPath (m_spo2 M) \<noteq> ''combinedData''"
    and "dataPath (m_steps M) \<noteq> ''combinedData''"
    and "dataPath (m_sleep M) \<noteq> ''combinedData''"
    and "dataPath (m_bloodPressure M) \<noteq> ''combinedData''"
    and "dataPath (m_temperature M) \<noteq> ''combinedData''"
    and "dataPath (m_battery M) \<noteq> ''combinedData''"
    and "dataPath (m_calories M) = dataPath (m_steps M)"
    and "dataPath (m_distance M) = dataPath (m_steps M)"
  using assms
  by (auto simp: mapping_yc_def mapping_rw_def mapping_android_yc_def mapping_ios_yc_def
        mapping_default_def valueMapping_def sleepMapping_def pressureMapping_def)

lemma adjusted_paths:
  "dataPath (m_heartRate (applyPlatformAdjustments M p)) = dataPath (m_heartRate M)"
  "dataPath (m_spo2 (applyPlatformAdjustments M p)) = dataPath (m_spo2 M)"
  "dataPath (m_sleep (applyPlatformAdjustments M p)) = dataPath (m_sleep M)"
  "m_steps (applyPlatformAdjustments M p) = m_steps M"
  "m_calories (applyPlatformAdjustments M p) = m_calories M"
  "m_distance (applyPlatformAdjustments M p) = m_distance M"
  "m_bloodPressure (applyPlatformAdjustments M p) = m_bloodPressure M"
  "m_temperature (applyPlatformAdjustments M p) = m_temperature M"
  "m_battery (applyPlatformAdjustments M p) = m_battery M"
  by (cases p; simp add: applyPlatformAdjustments_def)+

lemma mapping_paths:
  fixes host devType p
  defines "M \<equiv> applyPlatformAdjustments (getDeviceMapping host devType) p"
  shows "dataPath (m_heartRate M) \<noteq> ''combinedData''"
    and "dataPath (m_spo2 M) \<noteq> ''combinedData''"
    and "dataPath (m_steps M) \<noteq> ''combinedData''"
    and "dataPath (m_calories M) = dataPath (m_steps M)"
    and "dataPath (m_distance M) = dataPath (m_steps M)"
  unfolding M_def adjusted_paths
  using table_paths [OF getDeviceMapping_cases [of host devType]] by simp_all


section \<open>Steps and calories: results\<close>

lemma processSteps_zero_steps:
  "sr_steps (processSteps E arr) = 0 \<Longrightarrow> sr_calories (processSteps E arr) = 0"
  by (auto simp: processSteps_def zeroSteps_def Let_def split: prod.splits if_splits)

lemma calories_forced:
  assumes "normalizeCaloriesMetric V E raw config = Some c"
    and "nonEmptyArray (extractDataArray V raw (dataPath config)) = Some arr"
    and "sr_steps (processSteps E arr) = 0"
  shows "c = 0"
  using assms by (simp add: normalizeCaloriesMetric_def Let_def)

lemma setProperty_idem:
  "setProperty k v (setProperty k v raw) = setProperty k v raw"
  by (simp add: setProperty_def)

lemma steps_payload_cases:
  "snd (normalizeStepsMetric V E nowMs raw config p) = raw
   \<or> (\<exists>arr. p = Android
          \<and> nonEmptyArray (extractDataArray V raw (dataPath config)) = Some arr
          \<and> isCombinedData arr
          \<and> snd (normalizeStepsMetric V E nowMs raw config p)
              = setProperty ''combinedData'' (Records arr) raw)"
  by (cases p)
     (auto simp: normalizeStepsMetric_def normalizeStepsMetricAndroid_def Let_def
           split: option.splits)

lemma steps_payload_array:
  assumes "ignoresCombinedData V" and "path \<noteq> ''combinedData''"
  shows "extractDataArray V (snd (normalizeStepsMetric V E nowMs raw config p)) path
           = extractDataArray V raw path"
  using steps_payload_cases [of V E nowMs raw config p] assms
  unfolding ignoresCombinedData_def by auto

lemma steps_payload_cleaned_array:
  assumes "ignoresCombinedData V" and "path \<noteq> ''combinedData''"
  shows "extractDataArray V
           (validateAndCleanData V (snd (normalizeStepsMetric V E nowMs raw config p))) path
           = extractDataArray V (validateAndCleanData V raw) path"
  using steps_payload_cases [of V E nowMs raw config p] assms
  unfolding ignoresCombinedData_def by auto

lemma steps_slot:
  "fst (normalizeStepsMetric V E nowMs raw config p) =
     (case nonEmptyArray (extractDataArray V raw (dataPath config)) of
        None \<Rightarrow> None
      | Some arr \<Rightarrow> Some \<lparr>current = sr_steps (processSteps E arr), timestamp = nowMs\<rparr>)"
  by (cases p)
     (auto simp: normalizeStepsMetric_def normalizeStepsMetricAndroid_def
        normalizeStepsMetricIOS_def Let_def split: option.splits)

lemma steps_of_record:
  "steps (fst (normalizeHealthData V E nowMs (Some raw) devType p)) =
     fst (normalizeStepsMetric V E nowMs raw
            (m_steps (applyPlatformAdjustments (getDeviceMapping (hostPlatform E) devType) p)) p)"
  by (simp add: normalizeHealthData_def Let_def split: prod.splits)

lemma calories_of_record:
  "calories (fst (normalizeHealthData V E nowMs (Some raw) devType p)) =
     normalizeCaloriesMetric V E
       (snd (normalizeStepsMetric V E nowMs raw
               (m_steps (applyPlatformAdjustments (getDeviceMapping (hostPlatform E) devType) p)) p))
       (m_calories (applyPlatformAdjustments (getDeviceMapping (hostPlatform E) devType) p))"
  by (simp add: normalizeHealthData_def Let_def split: prod.splits)

lemma record_zero_steps_zero_calories:
  assumes loc: "ignoresCombinedData V"
    and st: "steps (fst (normalizeHealthData V E nowMs payload devType p)) = Some st"
    and zero: "current st = 0"
  shows "calories (fst (normalizeHealthData V E nowMs payload devType p)) = Some 0"
proof (cases payload)
  case None
  with st show ?thesis by (simp add: normalizeHealthData_def)
next
  case (Some raw)
  let ?M = "applyPlatformAdjustments (getDeviceMapping (hostPlatform E) devType) p"
  let ?raw' = "snd (normalizeStepsMetric V E nowMs raw (m_steps ?M) p)"
  have paths: "dataPath (m_steps ?M) \<noteq> ''combinedData''"
    "dataPath (m_calories ?M) = dataPath (m_steps ?M)"
    using mapping_paths [of "hostPlatform E" devType p] by simp_all
  from st Some have "fst (normalizeStepsMetric V E nowMs raw (m_steps ?M) p) = Some st"
    by (simp add: steps_of_record)
  then obtain arr where
    arr: "nonEmptyArray (extractDataArray V raw (dataPath (m_steps ?M))) = Some arr"
    and cur: "st = \<lparr>current = sr_steps (processSteps E arr), timestamp = nowMs\<rparr>"
    by (auto simp: steps_slot split: option.splits)
  from cur zero have z: "sr_steps (processSteps E arr) = 0" by simp
  have "extractDataArray V ?raw' (dataPath (m_calories ?M))
          = extractDataArray V raw (dataPath (m_steps ?M))"
    using steps_payload_array [OF loc paths(1), of E nowMs raw "m_steps ?M" p] paths(2)
    by simp
  with arr have "nonEmptyArray (extractDataArray V ?raw' (dataPath (m_calories ?M))) = Some arr"
    by simp
  with z have "normalizeCaloriesMetric V E ?raw' (m_calories ?M) = Some 0"
    by (simp add: normalizeCaloriesMetric_def Let_def)
  with Some show ?thesis by (simp add: calories_of_record)
qed

text \<open>
  Claim C1. When the step total of the processor is 0 its calories are 0; the calories
  metric is 0 whenever the step total over the records it reads is 0; and in every
  normalized record whose steps slot holds 0 the calories slot holds 0, whatever calorie
  values the payload carries.
\<close>

theorem zero_steps_zero_calories:
  "(sr_steps (processSteps E arr) = 0 \<longrightarrow> sr_calories (processSteps E arr) = 0)
   \<and> (normalizeCaloriesMetric V E raw config = Some c
        \<and> nonEmptyArray (extractDataArray V raw (dataPath config)) = Some arr
        \<and> sr_steps (processSteps E arr) = 0
      \<longrightarrow> c = 0)
   \<and> (ignoresCombinedData V
        \<and> steps (fst (normalizeHealthData V E nowMs payload devType p)) = Some st
        \<and> current st = 0
      \<longrightarrow> calories (fst (normalizeHealthData V E nowMs payload devType p)) = Some 0)"
proof (intro conjI impI)
  assume "sr_steps (processSteps E arr) = 0"
  then show "sr_calories (processSteps E arr) = 0" by (rule processSteps_zero_steps)
next
  assume "normalizeCaloriesMetric V E raw config = Some c
        \<and> nonEmptyArray (extractDataArray V raw (dataPath config)) = Some arr
        \<and> sr_steps (processSteps E arr) = 0"
  then show "c = 0" using calories_forced [of V E raw config c arr] by blast
next
  assume "ignoresCombinedData V
        \<and> steps (fst (normalizeHealthData V E nowMs payload devType p)) = Some st
        \<and> current st = 0"
  then show "calories (fst (normalizeHealthData V E nowMs payload devType p)) = Some 0"
    using record_zero_steps_zero_calories [of V E nowMs payload devType p st] by blast
qed

lemma map_of_without_key:
  "p \<noteq> k \<Longrightarrow> map_of (filter (\<lambda>kv. fst kv \<noteq> k) xs) p = map_of xs p"
  by (induction xs) auto

lemma specValidator_ignoresCombinedData: "ignoresCombinedData specValidator"
  by (simp add: ignoresCombinedData_def specValidator_def specExtractDataArray_def
        setProperty_def map_of_without_key)

lemma rw_mapping: "getDeviceMapping HostIOS ''rw'' = mapping_rw"
  by (simp add: getDeviceMapping_def normalizeDeviceType_def typeMap_def toLowerCase_def
        lowerChar_def trim_def isSpaceChar_def DEVICE_MAPPINGS_def Let_def)

lemma rwStepsConfig_path: "dataPath rwStepsConfig = ''steps''"
  by (simp add: rwStepsConfig_def rw_mapping adjusted_paths mapping_rw_def valueMapping_def)

lemma rwCaloriesConfig_path: "dataPath rwCaloriesConfig = ''steps''"
  by (simp add: rwCaloriesConfig_def rw_mapping adjusted_paths mapping_rw_def valueMapping_def)

lemma glitch_processed: "processSteps sampleEnv [glitchRecord] = zeroSteps"
  by (simp add: processSteps_def filterStepRecords_def hasHealthMetrics_def positive_def
        glitchRecord_def getField_def sampleEnv_def stepTimestamp_def toMilliseconds_def
        isWithinCurrentDayGMT7_def extractSteps_def roundValue_def mathRound_def
        zeroSteps_def Let_def)

lemma glitch_array:
  "nonEmptyArray (extractDataArray specValidator glitchPayload (dataPath rwCaloriesConfig))
     = Some [glitchRecord]"
  by (simp add: rwCaloriesConfig_path specValidator_def specExtractDataArray_def
        glitchPayload_def nonEmptyArray_def)

lemma glitch_calories:
  "normalizeCaloriesMetric specValidator sampleEnv glitchPayload rwCaloriesConfig = Some 0"
  unfolding normalizeCaloriesMetric_def glitch_array
  by (simp add: glitch_processed zeroSteps_def)

lemma scenarioA_steps_at:
  "steps (fst (normalizeHealthData specValidator sampleEnv t (Some scenarioAPayload) ''rw'' IOS))
     = Some \<lparr>current = 0, timestamp = t\<rparr>"
proof -
  have h: "hostPlatform sampleEnv = HostIOS" by (simp add: sampleEnv_def)
  have arr: "nonEmptyArray (extractDataArray specValidator scenarioAPayload ''steps'')
               = Some [zeroStepRecord]"
    by (simp add: specValidator_def specExtractDataArray_def scenarioAPayload_def
          nonEmptyArray_def)
  have z: "processSteps sampleEnv [zeroStepRecord] = zeroSteps"
    by (simp add: processSteps_def filterStepRecords_def getField_def zeroStepRecord_def)
  show ?thesis
    unfolding steps_of_record steps_slot h
    using rwStepsConfig_path
    by (simp add: rwStepsConfig_def arr z zeroSteps_def)
qed

lemma scenarioA_steps:
  "steps (fst (normalizeHealthData specValidator sampleEnv 1700050000000
                 (Some scenarioAPayload) ''rw'' IOS))
     = Some \<lparr>current = 0, timestamp = 1700050000000\<rparr>"
  by (rule scenarioA_steps_at)

theorem zero_steps_zero_calories_witness:
  "sr_calories (processSteps sampleEnv [glitchRecord]) = 0
   \<and> normalizeCaloriesMetric specValidator sampleEnv glitchPayload rwCaloriesConfig = Some 0
   \<and> steps (fst (normalizeHealthData specValidator sampleEnv 1700050000000
                    (Some scenarioAPayload) ''rw'' IOS))
       = Some \<lparr>current = 0, timestamp = 1700050000000\<rparr>
   \<and> calories (fst (normalizeHealthData specValidator sampleEnv 1700050000000
                       (Some scenarioAPayload) ''rw'' IOS))
       = Some 0"
proof -
  let ?st = "\<lparr>current = 0, timestamp = 1700050000000\<rparr>"
  have a: "sr_steps (processSteps sampleEnv [glitchRecord]) = 0"
    by (simp add: glitch_processed zeroSteps_def)
  have b: "normalizeCaloriesMetric specValidator sampleEnv glitchPayload rwCaloriesConfig = Some 0
           \<and> nonEmptyArray
               (extractDataArray specValidator glitchPayload (dataPath rwCaloriesConfig))
               = Some [glitchRecord]
           \<and> sr_steps (processSteps sampleEnv [glitchRecord]) = 0"
    using a by (simp add: glitch_calories glitch_array)
  have c: "ignoresCombinedData specValidator
           \<and> steps (fst (normalizeHealthData specValidator sampleEnv 1700050000000
                            (Some scenarioAPayload) ''rw'' IOS)) = Some ?st
           \<and> current ?st = 0"
    by (simp add: specValidator_ignoresCombinedData scenarioA_steps)
  note A = zero_steps_zero_calories
             [where E = sampleEnv and arr = "[glitchRecord]" and V = specValidator
                and raw = glitchPayload and config = rwCaloriesConfig and c = 0
                and nowMs = 1700050000000 and payload = "Some scenarioAPayload"
                and devType = "''rw''" and p = IOS and st = ?st]
  from A a have 1: "sr_calories (processSteps sampleEnv [glitchRecord]) = 0" by blast
  from A c have 2: "calories (fst (normalizeHealthData specValidator sampleEnv 1700050000000
                       (Some scenarioAPayload) ''rw'' IOS)) = Some 0"
    by blast
  from A b have "(0::real) = 0" by blast
  with 1 2 b c show ?thesis by blast
qed


section \<open>Normalizing twice: results\<close>

lemma heartRate_after_steps:
  assumes "ignoresCombinedData V" and "dataPath config \<noteq> ''combinedData''"
  shows "normalizeHeartRateMetric V E (snd (normalizeStepsMetric V E nowMs raw sc p)) config p
           = normalizeHeartRateMetric V E raw config p"
proof (cases p)
  case IOS
  then show ?thesis by (simp add: normalizeStepsMetric_def)
next
  case Android
  then show ?thesis
    using steps_payload_cleaned_array [OF assms, of E nowMs raw sc p]
    by (simp add: normalizeHeartRateMetric_def)
qed

lemma spo2_after_steps:
  assumes "ignoresCombinedData V" and "dataPath config \<noteq> ''combinedData''"
  shows "normalizeSpo2Metric V E (snd (normalizeStepsMetric V E nowMs raw sc p)) config p
           = normalizeSpo2Metric V E raw config p"
proof (cases p)
  case IOS
  then show ?thesis by (simp add: normalizeStepsMetric_def)
next
  case Android
  then show ?thesis
    using steps_payload_cleaned_array [OF assms, of E nowMs raw sc p]
    by (simp add: normalizeSpo2Metric_def)
qed

lemma steps_payload_clock:
  "snd (normalizeStepsMetric V E t2 raw config p) = snd (normalizeStepsMetric V E t1 raw config p)"
  by (cases p)
     (auto simp: normalizeStepsMetric_def normalizeStepsMetricAndroid_def Let_def
           split: option.splits)

lemma steps_after_steps:
  assumes "ignoresCombinedData V" and "dataPath config \<noteq> ''combinedData''"
  shows "normalizeStepsMetric V E t2 (snd (normalizeStepsMetric V E t1 raw config p)) config p
           = (fst (normalizeStepsMetric V E t2 raw config p),
              snd (normalizeStepsMetric V E t1 raw config p))"
proof -
  let ?raw' = "snd (normalizeStepsMetric V E t1 raw config p)"
  have same: "extractDataArray V ?raw' (dataPath config) = extractDataArray V raw (dataPath config)"
    using steps_payload_array [OF assms, of E t1 raw config p] .
  have f: "fst (normalizeStepsMetric V E t2 ?raw' config p)
             = fst (normalizeStepsMetric V E t2 raw config p)"
    by (simp add: steps_slot same)
  have s: "snd (normalizeStepsMetric V E t2 ?raw' config p) = ?raw'"
  proof (cases p)
    case IOS
    then show ?thesis by (simp add: normalizeStepsMetric_def)
  next
    case Android
    show ?thesis
    proof (cases "nonEmptyArray (extractDataArray V raw (dataPath config))")
      case None
      with Android same show ?thesis
        by (simp add: normalizeStepsMetric_def normalizeStepsMetricAndroid_def)
    next
      case (Some arr)
      with Android same show ?thesis
        by (simp add: normalizeStepsMetric_def normalizeStepsMetricAndroid_def Let_def
              setProperty_idem)
    qed
  qed
  from f s show ?thesis by (simp add: prod_eq_iff)
qed

text \<open>Running on the payload as a first run left it is running on the payload itself.\<close>

lemma second_run:
  assumes "ignoresCombinedData V"
  shows "normalizeHealthData V E t2 (snd (normalizeHealthData V E t1 payload devType p)) devType p
           = normalizeHealthData V E t2 payload devType p"
proof (cases payload)
  case None
  then show ?thesis by (simp add: normalizeHealthData_def)
next
  case (Some raw)
  let ?M = "applyPlatformAdjustments (getDeviceMapping (hostPlatform E) devType) p"
  let ?raw' = "snd (normalizeStepsMetric V E t1 raw (m_steps ?M) p)"
  have paths: "dataPath (m_heartRate ?M) \<noteq> ''combinedData''"
    "dataPath (m_spo2 ?M) \<noteq> ''combinedData''" "dataPath (m_steps ?M) \<noteq> ''combinedData''"
    using mapping_paths [of "hostPlatform E" devType p] by simp_all
  have first: "snd (normalizeHealthData V E t1 payload devType p) = Some ?raw'"
    using Some by (simp add: normalizeHealthData_def Let_def split: prod.splits)
  have st: "normalizeStepsMetric V E t2 ?raw' (m_steps ?M) p
              = (fst (normalizeStepsMetric V E t2 raw (m_steps ?M) p), ?raw')"
    using steps_after_steps [OF assms paths(3)] .
  have st0: "normalizeStepsMetric V E t2 raw (m_steps ?M) p
               = (fst (normalizeStepsMetric V E t2 raw (m_steps ?M) p), ?raw')"
    using steps_payload_clock [of V E t2 raw "m_steps ?M" p t1] by (simp add: prod_eq_iff)
  have hr: "normalizeHeartRateMetric V E ?raw' (m_heartRate ?M) p
              = normalizeHeartRateMetric V E raw (m_heartRate ?M) p"
    using heartRate_after_steps [OF assms paths(1)] .
  have ox: "normalizeSpo2Metric V E ?raw' (m_spo2 ?M) p
              = normalizeSpo2Metric V E raw (m_spo2 ?M) p"
    using spo2_after_steps [OF assms paths(2)] .
  have l: "normalizeHealthData V E t2 (Some ?raw') devType p
             = normalizeHealthData V E t2 (Some raw) devType p"
    unfolding normalizeHealthData_def option.case Let_def hr ox
    by (subst st, subst st0) simp
  with first Some show ?thesis by simp
qed

lemma sleep_clock:
  "map_option (\<lambda>s. s\<lparr>sleepTimestamp := JNum 0\<rparr>) (normalizeSleepMetric V E t2 raw config)
     = map_option (\<lambda>s. s\<lparr>sleepTimestamp := JNum 0\<rparr>) (normalizeSleepMetric V E t1 raw config)"
  by (auto simp: normalizeSleepMetric_def sleepAggregate_def createEmptySleepData_def Let_def
           split: option.splits prod.splits)

lemma battery_clock:
  "map_option (\<lambda>m. m\<lparr>timestamp := 0\<rparr>) (normalizeBatteryMetric V t2 raw config)
     = map_option (\<lambda>m. m\<lparr>timestamp := 0\<rparr>) (normalizeBatteryMetric V t1 raw config)"
  by (auto simp: normalizeBatteryMetric_def Let_def split: option.splits prod.splits)

lemma steps_clock:
  "map_option (\<lambda>m. m\<lparr>timestamp := 0\<rparr>) (fst (normalizeStepsMetric V E t2 raw config p))
     = map_option (\<lambda>m. m\<lparr>timestamp := 0\<rparr>) (fst (normalizeStepsMetric V E t1 raw config p))"
  by (simp add: steps_slot split: option.splits)

lemma payload_of_record:
  "snd (normalizeHealthData V E nowMs (Some raw) devType p) =
     Some (snd (normalizeStepsMetric V E nowMs raw
                  (m_steps (applyPlatformAdjustments (getDeviceMapping (hostPlatform E) devType) p))
                  p))"
  by (simp add: normalizeHealthData_def Let_def split: prod.splits)

lemma clock_only:
  "stripClock (fst (normalizeHealthData V E t2 payload devType p))
     = stripClock (fst (normalizeHealthData V E t1 payload devType p))"
  "snd (normalizeHealthData V E t2 payload devType p)
     = snd (normalizeHealthData V E t1 payload devType p)"
proof -
  show "snd (normalizeHealthData V E t2 payload devType p)
          = snd (normalizeHealthData V E t1 payload devType p)"
  proof (cases payload)
    case None
    then show ?thesis by (simp add: normalizeHealthData_def)
  next
    case (Some raw)
    then show ?thesis
      using steps_payload_clock
              [of V E t2 raw
                  "m_steps (applyPlatformAdjustments (getDeviceMapping (hostPlatform E) devType) p)"
                  p t1]
      by (simp add: payload_of_record)
  qed
next
  show "stripClock (fst (normalizeHealthData V E t2 payload devType p))
          = stripClock (fst (normalizeHealthData V E t1 payload devType p))"
  proof (cases payload)
    case None
    then show ?thesis by (simp add: normalizeHealthData_def stripClock_def)
  next
    case (Some raw)
    let ?M = "applyPlatformAdjustments (getDeviceMapping (hostPlatform E) devType) p"
    obtain s1 r1 where n1: "normalizeStepsMetric V E t1 raw (m_steps ?M) p = (s1, r1)"
      by (cases "normalizeStepsMetric V E t1 raw (m_steps ?M) p") auto
    obtain s2 r2 where n2: "normalizeStepsMetric V E t2 raw (m_steps ?M) p = (s2, r2)"
      by (cases "normalizeStepsMetric V E t2 raw (m_steps ?M) p") auto
    have r: "r2 = r1"
      using steps_payload_clock [of V E t2 raw "m_steps ?M" p t1] n1 n2 by simp
    have s: "map_option (\<lambda>m. m\<lparr>timestamp := 0\<rparr>) s2 = map_option (\<lambda>m. m\<lparr>timestamp := 0\<rparr>) s1"
      using steps_clock [of V E t2 raw "m_steps ?M" p t1] n1 n2 by simp
    show ?thesis
      using Some s sleep_clock [of V E t2 r1 "m_sleep ?M" t1]
        battery_clock [of V t2 r1 "m_battery ?M" t1]
      by (simp add: normalizeHealthData_def Let_def n1 n2 r stripClock_def)
  qed
qed

text \<open>
  Claim C8, as stated, fails. Two runs on the same payload, one minute apart within the
  same day, give records that differ: the steps slot and \<^verbatim>\<open>lastSync\<close> carry the clock
  reading of their run.
\<close>

theorem two_runs_differ:
  "todayStart sampleEnv \<le> 1700050000000 \<and> 1700050060000 \<le> todayEnd sampleEnv
   \<and> steps (fst (normalizeHealthData specValidator sampleEnv 1700050000000
                    (Some scenarioAPayload) ''rw'' IOS))
       = Some \<lparr>current = 0, timestamp = 1700050000000\<rparr>
   \<and> steps (fst (normalizeHealthData specValidator sampleEnv 1700050060000
                    (snd (normalizeHealthData specValidator sampleEnv 1700050000000
                            (Some scenarioAPayload) ''rw'' IOS))
                    ''rw'' IOS))
       = Some \<lparr>current = 0, timestamp = 1700050060000\<rparr>
   \<and> fst (normalizeHealthData specValidator sampleEnv 1700050060000
             (snd (normalizeHealthData specValidator sampleEnv 1700050000000
                     (Some scenarioAPayload) ''rw'' IOS))
             ''rw'' IOS)
       \<noteq> fst (normalizeHealthData specValidator sampleEnv 1700050000000
                 (Some scenarioAPayload) ''rw'' IOS)"
proof -
  let ?first = "normalizeHealthData specValidator sampleEnv 1700050000000
                  (Some scenarioAPayload) ''rw'' IOS"
  let ?second = "normalizeHealthData specValidator sampleEnv 1700050060000 (snd ?first) ''rw'' IOS"
  have day: "todayStart sampleEnv \<le> 1700050000000 \<and> 1700050060000 \<le> todayEnd sampleEnv"
    by (simp add: sampleEnv_def)
  have s1: "steps (fst ?first) = Some \<lparr>current = 0, timestamp = 1700050000000\<rparr>"
    by (rule scenarioA_steps_at)
  have "?second = normalizeHealthData specValidator sampleEnv 1700050060000
                    (Some scenarioAPayload) ''rw'' IOS"
    by (rule second_run [OF specValidator_ignoresCombinedData])
  then have s2: "steps (fst ?second) = Some \<lparr>current = 0, timestamp = 1700050060000\<rparr>"
    by (simp only: scenarioA_steps_at)
  have "fst ?second \<noteq> fst ?first"
  proof
    assume "fst ?second = fst ?first"
    then have "steps (fst ?second) = steps (fst ?first)" by simp
    with s1 s2 show False by simp
  qed
  with day s1 s2 show ?thesis by blast
qed

text \<open>
  Claim C8, amended. With a validator whose array lookup does not depend on the
  \<^verbatim>\<open>combinedData\<close> property, a second run on the payload as the first run left it gives a
  record that agrees with the first in everything but the clock readings (\<^verbatim>\<open>lastSync\<close> and
  the timestamps of the steps, sleep and battery slots), leaves the payload as it found
  it, and gives the very same record when both runs read the same clock value.
\<close>

theorem normalize_twice:
  "ignoresCombinedData V \<longrightarrow>
     stripClock
       (fst (normalizeHealthData V E t2 (snd (normalizeHealthData V E t1 payload devType p))
               devType p))
       = stripClock (fst (normalizeHealthData V E t1 payload devType p))
     \<and> snd (normalizeHealthData V E t2 (snd (normalizeHealthData V E t1 payload devType p))
              devType p)
         = snd (normalizeHealthData V E t1 payload devType p)
     \<and> (t2 = t1 \<longrightarrow>
          fst (normalizeHealthData V E t2 (snd (normalizeHealthData V E t1 payload devType p))
                 devType p)
            = fst (normalizeHealthData V E t1 payload devType p))"
proof (intro impI conjI)
  assume loc: "ignoresCombinedData V"
  let ?second = "normalizeHealthData V E t2 (snd (normalizeHealthData V E t1 payload devType p))
                   devType p"
  have eq: "?second = normalizeHealthData V E t2 payload devType p"
    using loc by (rule second_run)
  show "stripClock (fst ?second) = stripClock (fst (normalizeHealthData V E t1 payload devType p))"
    unfolding eq by (rule clock_only(1))
  show "snd ?second = snd (normalizeHealthData V E t1 payload devType p)"
    unfolding eq by (rule clock_only(2))
  assume "t2 = t1"
  with eq show "fst ?second = fst (normalizeHealthData V E t1 payload devType p)"
    by simp
qed

theorem normalize_twice_witness:
  "stripClock
     (fst (normalizeHealthData specValidator sampleEnv 1700050060000
             (snd (normalizeHealthData specValidator sampleEnv 1700050000000
                     (Some combinedPayload) ''rw'' Android))
             ''rw'' Android))
     = stripClock
         (fst (normalizeHealthData specValidator sampleEnv 1700050000000
                 (Some combinedPayload) ''rw'' Android))
   \<and> snd (normalizeHealthData specValidator sampleEnv 1700050060000
            (snd (normalizeHealthData specValidator sampleEnv 1700050000000
                    (Some combinedPayload) ''rw'' Android))
            ''rw'' Android)
       = snd (normalizeHealthData specValidator sampleEnv 1700050000000
                (Some combinedPayload) ''rw'' Android)
   \<and> fst (normalizeHealthData specValidator sampleEnv 1700050000000
            (snd (normalizeHealthData specValidator sampleEnv 1700050000000
                    (Some combinedPayload) ''rw'' Android))
            ''rw'' Android)
       = fst (normalizeHealthData specValidator sampleEnv 1700050000000
                (Some combinedPayload) ''rw'' Android)"
proof -
  have h: "(1700050000000::real) = 1700050000000" by simp
  note A = normalize_twice
             [where V = specValidator and E = sampleEnv and ?t1.0 = 1700050000000
                and ?t2.0 = 1700050060000 and payload = "Some combinedPayload"
                and devType = "''rw''" and p = Android]
  note B = normalize_twice
             [where V = specValidator and E = sampleEnv and ?t1.0 = 1700050000000
                and ?t2.0 = 1700050000000 and payload = "Some combinedPayload"
                and devType = "''rw''" and p = Android]
  from A B specValidator_ignoresCombinedData h show ?thesis
    by blast
qed


end
